theory Spec2Isabelle
  imports Complex_Main
begin

section \<open>JavaScript values used by the handlers\<close>

text \<open>
  Numbers are exact rationals: the handlers only add and multiply short decimal amounts
  and print them, so binary rounding of IEEE doubles is not reproduced, and the values
  Infinity and -0 do not occur.  NaN, which only \<open>parseFloat\<close> produces, is \<open>None\<close>.
  The digits printed here are those the code prints when every amount is a number of whole
  cents of ordinary size, which is what the payments provider supplies (\<open>amount_total\<close>
  is an integer number of cents); they can differ where a double is not the decimal it
  stands for (a sum such as \<open>20.005 + 20\<close>, or \<open>19.99 + 35.5\<close> printed in full), and
  the text \<open>Infinity\<close>, which \<open>parseFloat\<close> reads as infinite, is NaN here.  The
  properties that depend on digits are stated for whole cents.
\<close>

definition is_digit :: "char \<Rightarrow> bool" where
  "is_digit c = (48 \<le> (of_char c :: nat) \<and> (of_char c :: nat) \<le> 57)"

definition digit_val :: "char \<Rightarrow> nat" where
  "digit_val c = (of_char c :: nat) - 48"

definition digits_val :: "string \<Rightarrow> nat" where
  "digits_val ds = foldl (\<lambda>acc c. acc * 10 + digit_val c) 0 ds"

definition digit_char :: "nat \<Rightarrow> char" where
  "digit_char d = char_of (48 + d mod 10)"

fun show_nat_fuel :: "nat \<Rightarrow> nat \<Rightarrow> string \<Rightarrow> string" where
  "show_nat_fuel 0 n acc = acc"
| "show_nat_fuel (Suc k) n acc =
     (if n < 10 then digit_char n # acc
      else show_nat_fuel k (n div 10) (digit_char n # acc))"

text \<open>Decimal digits of a natural number (\<open>String(n)\<close>); \<open>n\<close> has at most \<open>n + 1\<close> digits.\<close>

definition show_nat :: "nat \<Rightarrow> string" where
  "show_nat n = show_nat_fuel (Suc n) n []"

definition is_space :: "char \<Rightarrow> bool" where
  "is_space c = ((of_char c :: nat) \<in> {9, 10, 11, 12, 13, 32})"

text \<open>
  \<open>parseFloat\<close>: leading white space is skipped, then the longest prefix that is a
  decimal literal (sign, digits, fraction, exponent) is read; \<open>None\<close> is NaN.
\<close>

definition parse_exponent :: "string \<Rightarrow> int" where
  "parse_exponent r =
     (case r of
        [] \<Rightarrow> 0
      | c # r1 \<Rightarrow>
          if c = CHR ''e'' \<or> c = CHR ''E'' then
            (case r1 of
               [] \<Rightarrow> 0
             | d # r2 \<Rightarrow>
                 if d = CHR ''-'' then
                   (if takeWhile is_digit r2 = [] then 0
                    else - int (digits_val (takeWhile is_digit r2)))
                 else if d = CHR ''+'' then int (digits_val (takeWhile is_digit r2))
                 else int (digits_val (takeWhile is_digit r1)))
          else 0)"

definition pow10 :: "int \<Rightarrow> rat" where
  "pow10 e = (if e < 0 then 1 / (10 ^ nat (- e)) else 10 ^ nat e)"

definition parse_unsigned :: "string \<Rightarrow> rat option" where
  "parse_unsigned s =
     (let ip = takeWhile is_digit s;
          r = dropWhile is_digit s;
          fp = (case r of c # r1 \<Rightarrow> if c = CHR ''.'' then takeWhile is_digit r1 else [] | [] \<Rightarrow> []);
          r' = (case r of c # r1 \<Rightarrow> if c = CHR ''.'' then dropWhile is_digit r1 else r | [] \<Rightarrow> [])
      in if ip = [] \<and> fp = [] then None
         else Some ((of_int (int (digits_val ip)) + of_int (int (digits_val fp)) / 10 ^ length fp)
                    * pow10 (parse_exponent r')))"

definition parseFloat :: "string \<Rightarrow> rat option" where
  "parseFloat s =
     (case dropWhile is_space s of
        [] \<Rightarrow> None
      | c # r \<Rightarrow>
          if c = CHR ''-'' then map_option uminus (parse_unsigned r)
          else if c = CHR ''+'' then parse_unsigned r
          else parse_unsigned (c # r))"

text \<open>
  \<open>x.toFixed(2)\<close>: \<open>n\<close> is the integer nearest to \<open>100 * |x|\<close> (ties upwards), printed
  with at least one digit before the point and exactly two after it.
\<close>

definition toFixed2 :: "rat \<Rightarrow> string" where
  "toFixed2 x =
     (let n = nat \<lfloor>\<bar>x\<bar> * 100 + 1 / 2\<rfloor>
      in (if x < 0 then ''-'' else '''') @ show_nat (n div 100) @ ''.'' @
         [digit_char (n mod 100 div 10), digit_char (n mod 10)])"

fun frac_digits :: "nat \<Rightarrow> rat \<Rightarrow> string" where
  "frac_digits 0 f = []"
| "frac_digits (Suc k) f =
     (if f = 0 then []
      else digit_char (nat \<lfloor>f * 10\<rfloor>) # frac_digits k (f * 10 - of_int \<lfloor>f * 10\<rfloor>))"

text \<open>\<open>x.toString()\<close> for a decimal amount.\<close>

definition num_toString :: "rat \<Rightarrow> string" where
  "num_toString x =
     (let a = \<bar>x\<bar>; ip = nat \<lfloor>a\<rfloor>; f = a - of_int (int ip)
      in (if x < 0 then ''-'' else '''') @ show_nat ip @
         (if f = 0 then '''' else ''.'' @ frac_digits 20 f))"

text \<open>\<open>xs.join(sep)\<close> and \<open>s.split(c)\<close> for a one-character separator.\<close>

fun join :: "string \<Rightarrow> string list \<Rightarrow> string" where
  "join sep [] = []"
| "join sep [x] = x"
| "join sep (x # y # ys) = x @ sep @ join sep (y # ys)"

fun split :: "char \<Rightarrow> string \<Rightarrow> string list" where
  "split c [] = [[]]"
| "split c (x # xs) =
     (if x = c then [] # split c xs
      else (case split c xs of p # ps \<Rightarrow> (x # p) # ps | [] \<Rightarrow> [[x]]))"

text \<open>\<open>s.replace('\n', ', ')\<close> with a string pattern replaces the first occurrence only.\<close>

fun replace_first_newline :: "string \<Rightarrow> string" where
  "replace_first_newline [] = []"
| "replace_first_newline (x # xs) =
     (if x = CHR 0x0A then '', '' @ xs else x # replace_first_newline xs)"

text \<open>Truthiness of a value that is a string, \<open>null\<close> or \<open>undefined\<close>.\<close>

definition truthy :: "string option \<Rightarrow> bool" where
  "truthy v = (case v of None \<Rightarrow> False | Some s \<Rightarrow> s \<noteq> [])"

text \<open>
  A \<open>Date\<close>: its \<open>toISOString()\<close> (UTC) and the calendar date in the local time zone,
  which \<open>toLocaleDateString\<close> prints.
\<close>

record jsdate =
  toISOString :: string
  loc_year :: nat
  loc_month :: nat
  loc_day :: nat

definition month_long :: "nat \<Rightarrow> string" where
  "month_long m =
     (if 1 \<le> m \<and> m \<le> 12 then
        [''January'', ''February'', ''March'', ''April'', ''May'', ''June'', ''July'',
         ''August'', ''September'', ''October'', ''November'', ''December''] ! (m - 1)
      else ''Invalid Date'')"

definition month_short :: "nat \<Rightarrow> string" where
  "month_short m = take 3 (month_long m)"

text \<open>\<open>toLocaleDateString('en-US', {month: 'short', day: 'numeric', year: 'numeric'})\<close>\<close>

definition short_date :: "jsdate \<Rightarrow> string" where
  "short_date d = month_short (loc_month d) @ '' '' @ show_nat (loc_day d) @ '', '' @ show_nat (loc_year d)"

text \<open>\<open>toLocaleDateString('en-US', {month: 'long', year: 'numeric'})\<close>\<close>

definition month_year :: "jsdate \<Rightarrow> string" where
  "month_year d = month_long (loc_month d) @ '' '' @ show_nat (loc_year d)"

text \<open>\<open>toISOString().split('T')[0]\<close>\<close>

definition iso_day :: "jsdate \<Rightarrow> string" where
  "iso_day d = hd (split (CHR ''T'') (toISOString d))"

section \<open>The CRM provider as seen by the handlers\<close>

record custom_field =
  cf_id :: nat
  content :: "string option"

record contact =
  contact_id :: nat
  contact_custom_fields :: "custom_field list option"

record address =
  line1 :: string
  line2 :: string
  city :: string
  state :: string
  postalCode :: string
  country :: string

text \<open>
  The JSON body of a contact create or update.  A key the handler leaves out is \<open>None\<close>;
  \<open>opt_in_reason: null\<close> is \<open>Some None\<close>.
\<close>

record contact_payload =
  given_name :: "string option"
  family_name :: "string option"
  email_addresses :: "string list option"
  addresses :: "address list option"
  opt_in_reason :: "string option option"
  custom_fields :: "custom_field list"

text \<open>
  The REST calls the handlers make, by endpoint; the first is a search by email with its
  \<open>optional_properties\<close>.
\<close>

datatype request =
    ContactSearch string string
  | ContactDetail nat
  | ContactUpdate nat contact_payload
  | ContactCreate contact_payload
  | TagSearch string
  | TagCreate string string
  | TagApply nat nat
  | TagRemove nat nat

fun is_write :: "request \<Rightarrow> bool" where
  "is_write (ContactSearch _ _) = False"
| "is_write (ContactDetail _) = False"
| "is_write (TagSearch _) = False"
| "is_write (ContactUpdate _ _) = True"
| "is_write (ContactCreate _) = True"
| "is_write (TagCreate _ _) = True"
| "is_write (TagApply _ _) = True"
| "is_write (TagRemove _ _) = True"

text \<open>
  A response: the HTTP status and the members of the JSON body that the handlers read
  (\<open>contacts\<close>, \<open>custom_fields\<close>, \<open>id\<close>, and \<open>tags\<close> as the list of the tags' ids).
\<close>

record response =
  status :: nat
  body_contacts :: "contact list option"
  body_custom_fields :: "custom_field list option"
  body_id :: nat
  body_tags :: "nat list option"

definition ok :: "response \<Rightarrow> bool" where
  "ok r = (200 \<le> status r \<and> status r \<le> 299)"

datatype error =
    ConfigError string
  | ContactSearchFailed nat
  | ContactUpdateFailed nat
  | ContactCreationFailed nat
  | TagSearchFailed nat
  | TagCreationFailed nat
  | TagApplicationFailed nat
  | TagRemovalFailed nat
  | KeapSearchFailed nat
  | NoContactFound string
  | StripeError string

text \<open>
  The provider is any function from a request and its own state to a response and a new
  state.  A handler runs on a pair of that state and the list of the requests made so far.
\<close>

type_synonym 'w provider = "request \<Rightarrow> 'w \<Rightarrow> response \<times> 'w"

type_synonym 'w run = "'w \<times> request list"

definition fetch :: "'w provider \<Rightarrow> request \<Rightarrow> 'w run \<Rightarrow> response \<times> 'w run" where
  "fetch crm req s =
     (case s of (w, tr) \<Rightarrow> (case crm req w of (r, w') \<Rightarrow> (r, (w', tr @ [req]))))"

definition find_field :: "nat \<Rightarrow> custom_field list \<Rightarrow> custom_field option" where
  "find_field i cfs = List.find (\<lambda>f. cf_id f = i) cfs"

text \<open>The \<open>message\<close> of each \<open>Error\<close> the handlers throw.\<close>

fun message :: "error \<Rightarrow> string" where
  "message (ConfigError m) = m"
| "message (ContactSearchFailed n) = ''Contact search failed: '' @ show_nat n"
| "message (ContactUpdateFailed n) = ''Contact update failed: '' @ show_nat n"
| "message (ContactCreationFailed n) = ''Contact creation failed: '' @ show_nat n"
| "message (TagSearchFailed n) = ''Tag search failed: '' @ show_nat n"
| "message (TagCreationFailed n) = ''Tag creation failed: '' @ show_nat n"
| "message (TagApplicationFailed n) = ''Tag application failed: '' @ show_nat n"
| "message (TagRemovalFailed n) = ''Tag removal failed: '' @ show_nat n"
| "message (KeapSearchFailed n) = ''Keap search failed: '' @ show_nat n"
| "message (NoContactFound email) = ''No contact found with email: '' @ email"
| "message (StripeError m) = m"

text \<open>
  A provider that answers from a prepared list of responses, whatever the request; once
  the list is used up it answers 500.
\<close>

definition scripted :: "response list provider" where
  "scripted req rs =
     (case rs of
        [] \<Rightarrow> (\<lparr>status = 500, body_contacts = None, body_custom_fields = None,
               body_id = 0, body_tags = None\<rparr>, [])
      | r # rs' \<Rightarrow> (r, rs'))"

text \<open>The environment variables and the admin check shared by the admin endpoints.\<close>

record config =
  ADMIN_API_KEY :: "string option"
  KEAP_ACCESS_TOKEN :: "string option"
  STRIPE_SECRET_KEY :: "string option"

definition unauthorized :: "config \<Rightarrow> string option \<Rightarrow> bool" where
  "unauthorized cfg authHeader =
     (\<not> truthy (ADMIN_API_KEY cfg) \<or> authHeader \<noteq> Some (''Bearer '' @ the (ADMIN_API_KEY cfg)))"

section \<open>Fulfillment status (get-orders.js, check-fulfillment.js)\<close>

datatype fulfillment = pending | partial | fulfilled

record keap_status =
  cardsShipped :: bool
  bookShipped :: bool
  cardsTrackingNumber :: "string option"
  bookTrackingNumber :: "string option"

definition CARDS_TRACKING_ID :: nat where "CARDS_TRACKING_ID = 315"
definition BOOK_TRACKING_ID :: nat where "BOOK_TRACKING_ID = 319"

text \<open>\<open>field?.content || null\<close>\<close>

definition content_or_null :: "custom_field option \<Rightarrow> string option" where
  "content_or_null f =
     (case f of None \<Rightarrow> None | Some g \<Rightarrow> if truthy (content g) then content g else None)"

text \<open>\<open>!!(field?.content)\<close>\<close>

definition has_content :: "custom_field option \<Rightarrow> bool" where
  "has_content f = (case f of None \<Rightarrow> False | Some g \<Rightarrow> truthy (content g))"

text \<open>The object both files build from the first contact of the search result.\<close>

definition tracking_of_contact :: "contact \<Rightarrow> keap_status" where
  "tracking_of_contact c =
     (let customFields = (case contact_custom_fields c of None \<Rightarrow> [] | Some fs \<Rightarrow> fs);
          cardsTrackingField = find_field CARDS_TRACKING_ID customFields;
          bookTrackingField = find_field BOOK_TRACKING_ID customFields
      in \<lparr>cardsShipped = has_content cardsTrackingField,
          bookShipped = has_content bookTrackingField,
          cardsTrackingNumber = content_or_null cardsTrackingField,
          bookTrackingNumber = content_or_null bookTrackingField\<rparr>)"

definition not_shipped :: keap_status where
  "not_shipped = \<lparr>cardsShipped = False, bookShipped = False,
     cardsTrackingNumber = None, bookTrackingNumber = None\<rparr>"

text \<open>get-orders.js, \<open>getKeapFulfillmentStatus\<close>.\<close>

definition getKeapFulfillmentStatus ::
    "'w provider \<Rightarrow> string \<Rightarrow> 'w run \<Rightarrow> (error + keap_status) \<times> 'w run" where
  "getKeapFulfillmentStatus crm email s =
     (case fetch crm (ContactSearch email ''custom_fields,tag_ids'') s of
        (searchResponse, s1) \<Rightarrow>
          if \<not> ok searchResponse then (Inl (KeapSearchFailed (status searchResponse)), s1)
          else (case body_contacts searchResponse of
                  None \<Rightarrow> (Inr not_shipped, s1)
                | Some [] \<Rightarrow> (Inr not_shipped, s1)
                | Some (c # cs) \<Rightarrow> (Inr (tracking_of_contact c), s1)))"

text \<open>get-orders.js, the overall status of one order.\<close>

definition fulfillmentStatus :: "bool \<Rightarrow> bool \<Rightarrow> bool \<Rightarrow> fulfillment" where
  "fulfillmentStatus hasPreOrder cardsShipped' bookShipped' =
     (if hasPreOrder then
        (if cardsShipped' \<and> bookShipped' then fulfilled
         else if cardsShipped' then partial
         else pending)
      else
        (if cardsShipped' then fulfilled else pending))"

text \<open>
  get-orders.js, the fulfillment block of one order: the CRM is asked only when a token
  and a customer email are there, and a failed lookup leaves both flags false.
\<close>

definition order_fulfillment ::
    "'w provider \<Rightarrow> config \<Rightarrow> string option \<Rightarrow> bool \<Rightarrow> 'w run \<Rightarrow>
     (fulfillment \<times> keap_status) \<times> 'w run" where
  "order_fulfillment crm cfg email hasPreOrder s =
     (case (if truthy (KEAP_ACCESS_TOKEN cfg) \<and> truthy email then
              (case getKeapFulfillmentStatus crm (the email) s of
                 (Inl e, s1) \<Rightarrow> (not_shipped, s1)
               | (Inr keapStatus, s1) \<Rightarrow> (keapStatus, s1))
            else (not_shipped, s)) of
        (st, s1) \<Rightarrow>
          ((fulfillmentStatus hasPreOrder (cardsShipped st) (bookShipped st), st), s1))"

text \<open>check-fulfillment.js, the handler.\<close>

record check_event =
  check_httpMethod :: string
  check_authorization :: "string option"
  check_email :: "string option"

datatype check_body =
    CheckEmpty
  | CheckError string
  | CheckNotFound
  | CheckFound keap_status

definition check_fulfillment ::
    "'w provider \<Rightarrow> config \<Rightarrow> check_event \<Rightarrow> 'w run \<Rightarrow> (nat \<times> check_body) \<times> 'w run" where
  "check_fulfillment crm cfg event s =
     (if check_httpMethod event = ''OPTIONS'' then ((200, CheckEmpty), s)
      else if check_httpMethod event \<noteq> ''GET'' then ((405, CheckError ''Method not allowed''), s)
      else if unauthorized cfg (check_authorization event) then ((401, CheckError ''Unauthorized''), s)
      else if \<not> truthy (check_email event) then ((400, CheckError ''Email parameter required''), s)
      else if \<not> truthy (KEAP_ACCESS_TOKEN cfg) then ((500, CheckError ''Keap not configured''), s)
      else
        (case fetch crm (ContactSearch (the (check_email event)) ''custom_fields'') s of
           (searchResponse, s1) \<Rightarrow>
             if \<not> ok searchResponse then
               (if status searchResponse = 429 then
                  ((429, CheckError ''Rate limited. Please wait a moment.''), s1)
                else ((500, CheckError (message (KeapSearchFailed (status searchResponse)))), s1))
             else (case body_contacts searchResponse of
                     None \<Rightarrow> ((200, CheckNotFound), s1)
                   | Some [] \<Rightarrow> ((200, CheckNotFound), s1)
                   | Some (c # cs) \<Rightarrow> ((200, CheckFound (tracking_of_contact c)), s1))))"

text \<open>
  What the claims call a contact's field: the content of the first custom field with
  the given id, empty when the contact has no such field or its content is null.
\<close>

definition field_value :: "nat \<Rightarrow> contact \<Rightarrow> string" where
  "field_value i c =
     (case contact_custom_fields c of
        None \<Rightarrow> []
      | Some fs \<Rightarrow>
          (case find_field i fs of
             None \<Rightarrow> []
           | Some f \<Rightarrow> (case content f of None \<Rightarrow> [] | Some v \<Rightarrow> v)))"

section \<open>Order data and the fields computed from it\<close>

record cart_item =
  productId :: string
  productName :: string
  productPrice :: rat
  quantity :: nat

text \<open>
  The members shared by the object the webhook passes to \<open>integrateWithKeap\<close> and the
  \<open>orderData\<close> of the backfill.  \<open>paymentId\<close> is the session's \<open>payment_intent\<close>, which
  may be null.
\<close>

record order =
  email :: string
  cartItems :: "cart_item list"
  shippingAddress :: "address option"
  paymentId :: "string option"
  amountPaid :: rat
  hasPreOrder :: bool

record webhook_order = order +
  firstName :: string
  lastName :: string
  emailConsent :: bool

record backfill_order = order +
  sessionId :: string
  name :: string
  created :: jsdate

definition PRODUCT_ORDERED :: nat where "PRODUCT_ORDERED = 303"
definition ORDER_SUMMARY :: nat where "ORDER_SUMMARY = 305"
definition PRODUCT_PRICE :: nat where "PRODUCT_PRICE = 307"
definition SHIPPING_ADDRESS :: nat where "SHIPPING_ADDRESS = 309"
definition PAYMENT_ID :: nat where "PAYMENT_ID = 311"
definition ORDER_DATE :: nat where "ORDER_DATE = 313"
definition CARDS_TRACKING_NUMBER :: nat where "CARDS_TRACKING_NUMBER = 315"
definition CARDS_SHIPPED_DATE :: nat where "CARDS_SHIPPED_DATE = 317"
definition BOOK_TRACKING_NUMBER :: nat where "BOOK_TRACKING_NUMBER = 319"
definition BOOK_SHIPPED_DATE :: nat where "BOOK_SHIPPED_DATE = 321"
definition HAS_PREORDER :: nat where "HAS_PREORDER = 323"
definition ORDER_HISTORY :: nat where "ORDER_HISTORY = 325"
definition TOTAL_SPENT :: nat where "TOTAL_SPENT = 327"

definition newline :: string where
  "newline = [CHR 0x0A]"

definition shippingAddressFormatted :: "address option \<Rightarrow> string" where
  "shippingAddressFormatted a =
     (case a of
        None \<Rightarrow> ''Not provided''
      | Some sa \<Rightarrow>
          line1 sa @ (if line2 sa \<noteq> [] then newline @ line2 sa else []) @ newline @
          city sa @ '', '' @ state sa @ '' '' @ postalCode sa @ newline @ country sa)"

definition orderSummary :: "cart_item list \<Rightarrow> string" where
  "orderSummary items =
     join newline (map (\<lambda>item. show_nat (quantity item) @ ''x '' @ productName item) items)"

definition totalPrice :: "cart_item list \<Rightarrow> rat" where
  "totalPrice items =
     foldl (\<lambda>sum item. sum + productPrice item * of_int (int (quantity item))) 0 items"

definition productIds :: "cart_item list \<Rightarrow> string" where
  "productIds items = join '', '' (map productId items)"

text \<open>The native address object: \<open>line2 || ''\<close>, the other members renamed only.\<close>

definition native_addresses :: "address option \<Rightarrow> address list" where
  "native_addresses a = (case a of None \<Rightarrow> [] | Some sa \<Rightarrow> [sa])"

text \<open>The tags pushed by the loop over the cart items.\<close>

fun product_tags :: "cart_item list \<Rightarrow> string list" where
  "product_tags [] = []"
| "product_tags (item # items) =
     (if productId item = ''cards-only'' then ''Destiny Cards - Cards Only'' # product_tags items
      else if productId item = ''cards-book-bundle'' then
        ''Destiny Cards - Cards + Book Bundle'' # product_tags items
      else product_tags items)"

definition base_tags :: "string list" where
  "base_tags =
     [''Destiny Cards - Order Received'',
      ''Destiny Cards - 1st Edition'',
      ''Destiny Cards - Awaiting Shipment'']"

definition preorder_tags :: "bool \<Rightarrow> string list" where
  "preorder_tags hp =
     (if hp then [''Destiny Cards - Pre-Order (Book Ships March 2026)'',
                  ''Destiny Cards - Pending Book Shipment'']
      else [])"

text \<open>\<open>parseFloat(content) || 0\<close>\<close>

definition or_zero :: "rat option \<Rightarrow> rat" where
  "or_zero v = (case v of None \<Rightarrow> 0 | Some x \<Rightarrow> x)"

section \<open>The webhook's sync (stripe-webhook.js, \<open>integrateWithKeap\<close>)\<close>

definition getOrCreateTag_webhook ::
    "'w provider \<Rightarrow> jsdate \<Rightarrow> string \<Rightarrow> 'w run \<Rightarrow> (error + nat) \<times> 'w run" where
  "getOrCreateTag_webhook crm now tagName s =
     (case fetch crm (TagSearch tagName) s of
        (searchResponse, s1) \<Rightarrow>
          if \<not> ok searchResponse then (Inl (TagSearchFailed (status searchResponse)), s1)
          else (case body_tags searchResponse of
                  Some (t # ts) \<Rightarrow> (Inr t, s1)
                | _ \<Rightarrow>
                   (case fetch crm (TagCreate tagName
                           (''Auto-created for Destiny Cards - '' @ toISOString now)) s1 of
                      (createResponse, s2) \<Rightarrow>
                        if \<not> ok createResponse then
                          (Inl (TagCreationFailed (status createResponse)), s2)
                        else (Inr (body_id createResponse), s2))))"

definition applyTagToContact_webhook ::
    "'w provider \<Rightarrow> nat \<Rightarrow> nat \<Rightarrow> 'w run \<Rightarrow> (error + unit) \<times> 'w run" where
  "applyTagToContact_webhook crm contactId tagId s =
     (case fetch crm (TagApply contactId tagId) s of
        (r, s1) \<Rightarrow>
          if \<not> ok r then (Inl (TagApplicationFailed (status r)), s1) else (Inr (), s1))"

text \<open>The loop over the tags: a tag that fails is logged and the loop goes on.\<close>

fun applyTags_webhook ::
    "'w provider \<Rightarrow> jsdate \<Rightarrow> nat \<Rightarrow> string list \<Rightarrow> 'w run \<Rightarrow> 'w run" where
  "applyTags_webhook crm now contactId [] s = s"
| "applyTags_webhook crm now contactId (tagName # tagNames) s =
     (case getOrCreateTag_webhook crm now tagName s of
        (Inl e, s1) \<Rightarrow> applyTags_webhook crm now contactId tagNames s1
      | (Inr tagId, s1) \<Rightarrow>
          (case applyTagToContact_webhook crm contactId tagId s1 of
             (r, s2) \<Rightarrow> applyTags_webhook crm now contactId tagNames s2))"

definition thisOrderEntry :: "jsdate \<Rightarrow> 'a order_scheme \<Rightarrow> string" where
  "thisOrderEntry now d =
     short_date now @ '': '' @ orderSummary (cartItems d) @ '' ($'' @ toFixed2 (amountPaid d) @ '')''"

definition history_separator :: string where
  "history_separator = newline @ ''---'' @ newline"

text \<open>
  The history and the total written by the webhook.  The argument is the custom fields of
  the contact-detail response when the customer is returning and that response is ok,
  and \<open>None\<close> otherwise (new customer, or a detail response that is not ok).
\<close>

definition merged_history :: "custom_field list option \<Rightarrow> string \<Rightarrow> string" where
  "merged_history existing entry =
     (case existing of
        None \<Rightarrow> entry
      | Some existingCustomFields \<Rightarrow>
          (case find_field ORDER_HISTORY existingCustomFields of
             None \<Rightarrow> entry
           | Some existingHistoryField \<Rightarrow>
               if truthy (content existingHistoryField) then
                 entry @ history_separator @ the (content existingHistoryField)
               else entry))"

definition merged_total :: "custom_field list option \<Rightarrow> rat \<Rightarrow> rat" where
  "merged_total existing paid =
     (case existing of
        None \<Rightarrow> paid
      | Some existingCustomFields \<Rightarrow>
          (case find_field TOTAL_SPENT existingCustomFields of
             None \<Rightarrow> paid
           | Some existingSpentField \<Rightarrow>
               if truthy (content existingSpentField) then
                 or_zero (parseFloat (the (content existingSpentField))) + paid
               else paid))"

definition webhook_customFields ::
    "jsdate \<Rightarrow> 'a order_scheme \<Rightarrow> string \<Rightarrow> rat \<Rightarrow> custom_field list" where
  "webhook_customFields now d orderHistory totalSpent =
     [\<lparr>cf_id = PRODUCT_ORDERED, content = Some (productIds (cartItems d))\<rparr>,
      \<lparr>cf_id = ORDER_SUMMARY, content = Some (orderSummary (cartItems d))\<rparr>,
      \<lparr>cf_id = PRODUCT_PRICE, content = Some (num_toString (totalPrice (cartItems d)))\<rparr>,
      \<lparr>cf_id = SHIPPING_ADDRESS, content = Some (shippingAddressFormatted (shippingAddress d))\<rparr>,
      \<lparr>cf_id = PAYMENT_ID, content = paymentId d\<rparr>,
      \<lparr>cf_id = ORDER_DATE, content = Some (iso_day now)\<rparr>,
      \<lparr>cf_id = HAS_PREORDER, content = Some (if hasPreOrder d then ''Yes'' else ''No'')\<rparr>,
      \<lparr>cf_id = ORDER_HISTORY, content = Some orderHistory\<rparr>,
      \<lparr>cf_id = TOTAL_SPENT, content = Some (toFixed2 totalSpent)\<rparr>]"

definition webhook_payload ::
    "webhook_order \<Rightarrow> custom_field list \<Rightarrow> contact_payload" where
  "webhook_payload d customFields =
     \<lparr>given_name = Some (firstName d),
      family_name = Some (lastName d),
      email_addresses = Some [email d],
      addresses = (if native_addresses (shippingAddress d) \<noteq> []
                   then Some (native_addresses (shippingAddress d)) else None),
      opt_in_reason = (if emailConsent d then Some (Some ''Destiny Cards Purchase'') else None),
      custom_fields = customFields\<rparr>"

definition webhook_tags :: "jsdate \<Rightarrow> bool \<Rightarrow> 'a order_scheme \<Rightarrow> string list" where
  "webhook_tags now isReturningCustomer d =
     base_tags
     @ (if isReturningCustomer then [''Destiny Cards - Repeat Customer''] else [])
     @ product_tags (cartItems d)
     @ preorder_tags (hasPreOrder d)
     @ [''Destiny Cards - '' @ month_year now]"

text \<open>
  \<open>integrateWithKeap\<close>.  \<open>now\<close> is the clock, read as one instant for the whole call.
  The result is the thrown error or the contact id.
\<close>

definition integrateWithKeap ::
    "'w provider \<Rightarrow> config \<Rightarrow> jsdate \<Rightarrow> webhook_order \<Rightarrow> 'w run \<Rightarrow> (error + nat) \<times> 'w run" where
  "integrateWithKeap crm cfg now d s =
     (if \<not> truthy (KEAP_ACCESS_TOKEN cfg) then
        (Inl (ConfigError ''Keap access token not configured''), s)
      else
        (case fetch crm (ContactSearch (email d) '''') s of
           (searchResponse, s1) \<Rightarrow>
             if \<not> ok searchResponse then
               (Inl (ContactSearchFailed (status searchResponse)), s1)
             else
               (case body_contacts searchResponse of
                  Some (c # cs) \<Rightarrow>
                    (case fetch crm (ContactDetail (contact_id c)) s1 of
                       (contactDetailResponse, s2) \<Rightarrow>
                         (let existing =
                                (if ok contactDetailResponse then
                                   Some (case body_custom_fields contactDetailResponse of
                                           None \<Rightarrow> [] | Some fs \<Rightarrow> fs)
                                 else None);
                              customFields = webhook_customFields now d
                                (merged_history existing (thisOrderEntry now d))
                                (merged_total existing (amountPaid d))
                          in (case fetch crm (ContactUpdate (contact_id c)
                                       (webhook_payload d customFields)) s2 of
                                (updateResponse, s3) \<Rightarrow>
                                  if \<not> ok updateResponse then
                                    (Inl (ContactUpdateFailed (status updateResponse)), s3)
                                  else
                                    (Inr (contact_id c),
                                     applyTags_webhook crm now (contact_id c)
                                       (webhook_tags now True d) s3))))
                | _ \<Rightarrow>
                    (let customFields = webhook_customFields now d
                           (merged_history None (thisOrderEntry now d))
                           (merged_total None (amountPaid d))
                     in (case fetch crm (ContactCreate (webhook_payload d customFields)) s1 of
                           (createResponse, s2) \<Rightarrow>
                             if \<not> ok createResponse then
                               (Inl (ContactCreationFailed (status createResponse)), s2)
                             else
                               (Inr (body_id createResponse),
                                applyTags_webhook crm now (body_id createResponse)
                                  (webhook_tags now False d) s2))))))"

section \<open>The backfill (backfill-keap.js)\<close>

text \<open>
  The payments provider is only read.  A checkout session carries what the handler
  reads of it; \<open>shipping_details\<close> and \<open>collected_shipping_details\<close> are the two places
  of the shipping details, each absent or an object with an optional address (whose
  \<open>line2\<close> is empty when it is null); \<open>session_created\<close> is the \<open>Date\<close> of \<open>created\<close>.
\<close>

datatype cart_meta = CartAbsent | CartParsed "cart_item list" | CartMalformed

record session =
  session_id :: string
  shipping_details :: "address option option"
  collected_shipping_details :: "address option option"
  customer_email :: "string option"
  customer_name :: "string option"
  metadata_cartItems :: cart_meta
  metadata_hasPreOrder :: "string option"
  metadata_emailConsent :: "string option"
  amount_total :: nat
  payment_intent :: "string option"
  session_created :: jsdate

datatype jsval = JUndefined | JNull | JBool bool | JNum nat | JStr string | JObject

fun js_truthy :: "jsval \<Rightarrow> bool" where
  "js_truthy JUndefined = False"
| "js_truthy JNull = False"
| "js_truthy (JBool b) = b"
| "js_truthy (JNum n) = (n \<noteq> 0)"
| "js_truthy (JStr s) = (s \<noteq> [])"
| "js_truthy JObject = True"

text \<open>
  \<open>sessions_list\<close> is \<open>stripe.checkout.sessions.list\<close> with status complete and the given
  limit, giving the ids of the sessions in \<open>data\<close>; \<open>sessions_retrieve\<close> is
  \<open>stripe.checkout.sessions.retrieve\<close>.  Either may throw (\<open>Inl\<close> the message).
\<close>

record stripe_api =
  sessions_list :: "jsval \<Rightarrow> string + string list"
  sessions_retrieve :: "string \<Rightarrow> string + session"

text \<open>
  \<open>findKeapContact\<close>: on 429 it waits and calls itself again, without a bound; any other
  response that is not ok gives \<open>null\<close>.
\<close>

partial_function (option) findKeapContact ::
    "'w provider \<Rightarrow> string \<Rightarrow> 'w run \<Rightarrow> (contact option \<times> 'w run) option" where
  "findKeapContact crm mail s =
     (case fetch crm (ContactSearch mail ''custom_fields'') s of
        (response, s1) \<Rightarrow>
          if \<not> ok response then
            (if status response = 429 then findKeapContact crm mail s1
             else Some (None, s1))
          else
            Some ((case body_contacts response of Some (c # cs) \<Rightarrow> Some c | _ \<Rightarrow> None), s1))"

declare findKeapContact.simps [code]

definition hasExistingOrderData :: "contact \<Rightarrow> bool" where
  "hasExistingOrderData c =
     (let customFields = (case contact_custom_fields c of None \<Rightarrow> [] | Some fs \<Rightarrow> fs);
          paymentIdField = find_field 311 customFields
      in has_content paymentIdField)"

partial_function (option) getOrCreateTag_backfill ::
    "'w provider \<Rightarrow> jsdate \<Rightarrow> string \<Rightarrow> 'w run \<Rightarrow> ((error + nat) \<times> 'w run) option" where
  "getOrCreateTag_backfill crm now tagName s =
     (case fetch crm (TagSearch tagName) s of
        (searchResponse, s1) \<Rightarrow>
          if \<not> ok searchResponse then
            (if status searchResponse = 429 then getOrCreateTag_backfill crm now tagName s1
             else Some (Inl (TagSearchFailed (status searchResponse)), s1))
          else (case body_tags searchResponse of
                  Some (t # ts) \<Rightarrow> Some (Inr t, s1)
                | _ \<Rightarrow>
                   (case fetch crm (TagCreate tagName
                           (''Auto-created for Destiny Cards - '' @ toISOString now)) s1 of
                      (createResponse, s2) \<Rightarrow>
                        if \<not> ok createResponse then
                          Some (Inl (TagCreationFailed (status createResponse)), s2)
                        else Some (Inr (body_id createResponse), s2))))"

declare getOrCreateTag_backfill.simps [code]

definition applyTagToContact_backfill ::
    "'w provider \<Rightarrow> nat \<Rightarrow> nat \<Rightarrow> 'w run \<Rightarrow> (error + unit) \<times> 'w run" where
  "applyTagToContact_backfill crm contactId tagId s =
     (case fetch crm (TagApply contactId tagId) s of
        (r, s1) \<Rightarrow>
          if \<not> ok r \<and> status r \<noteq> 429 then (Inl (TagApplicationFailed (status r)), s1)
          else (Inr (), s1))"

fun applyTags_backfill ::
    "'w provider \<Rightarrow> jsdate \<Rightarrow> nat \<Rightarrow> string list \<Rightarrow> 'w run \<Rightarrow> 'w run option" where
  "applyTags_backfill crm now contactId [] s = Some s"
| "applyTags_backfill crm now contactId (tagName # tagNames) s =
     (case getOrCreateTag_backfill crm now tagName s of
        None \<Rightarrow> None
      | Some (Inl e, s1) \<Rightarrow> applyTags_backfill crm now contactId tagNames s1
      | Some (Inr tagId, s1) \<Rightarrow>
          (case applyTagToContact_backfill crm contactId tagId s1 of
             (r, s2) \<Rightarrow> applyTags_backfill crm now contactId tagNames s2))"

text \<open>\<open>nameParts[0] || ''\<close> and \<open>nameParts.slice(1).join(' ') || ''\<close>\<close>

definition split_firstName :: "string \<Rightarrow> string" where
  "split_firstName nm = hd (split (CHR '' '') nm)"

definition split_lastName :: "string \<Rightarrow> string" where
  "split_lastName nm = join '' '' (tl (split (CHR '' '') nm))"

definition orderHistoryEntry :: "backfill_order \<Rightarrow> string" where
  "orderHistoryEntry d =
     short_date (created d) @ '': '' @ replace_first_newline (orderSummary (cartItems d))
     @ '' ($'' @ toFixed2 (amountPaid d) @ '')''"

definition backfill_customFields :: "backfill_order \<Rightarrow> custom_field list" where
  "backfill_customFields d =
     [\<lparr>cf_id = PRODUCT_ORDERED, content = Some (productIds (cartItems d))\<rparr>,
      \<lparr>cf_id = ORDER_SUMMARY, content = Some (orderSummary (cartItems d))\<rparr>,
      \<lparr>cf_id = PRODUCT_PRICE, content = Some (num_toString (totalPrice (cartItems d)))\<rparr>,
      \<lparr>cf_id = SHIPPING_ADDRESS, content = Some (shippingAddressFormatted (shippingAddress d))\<rparr>,
      \<lparr>cf_id = PAYMENT_ID, content = paymentId d\<rparr>,
      \<lparr>cf_id = ORDER_DATE, content = Some (iso_day (created d))\<rparr>,
      \<lparr>cf_id = HAS_PREORDER, content = Some (if hasPreOrder d then ''Yes'' else ''No'')\<rparr>,
      \<lparr>cf_id = ORDER_HISTORY, content = Some (orderHistoryEntry d)\<rparr>,
      \<lparr>cf_id = TOTAL_SPENT, content = Some (toFixed2 (amountPaid d))\<rparr>]"

definition backfill_payload :: "backfill_order \<Rightarrow> bool \<Rightarrow> contact_payload" where
  "backfill_payload d consent =
     \<lparr>given_name = Some (split_firstName (name d)),
      family_name = Some (split_lastName (name d)),
      email_addresses = Some [email d],
      addresses = Some (native_addresses (shippingAddress d)),
      opt_in_reason = Some (if consent then Some ''Destiny Cards Purchase'' else None),
      custom_fields = backfill_customFields d\<rparr>"

definition backfill_tags :: "backfill_order \<Rightarrow> string list" where
  "backfill_tags d =
     base_tags
     @ product_tags (cartItems d)
     @ preorder_tags (hasPreOrder d)
     @ [''Destiny Cards - '' @ month_year (created d)]"

text \<open>\<open>syncToKeap\<close>; \<open>None\<close> when a retry loop never ends.\<close>

definition syncToKeap ::
    "'w provider \<Rightarrow> jsdate \<Rightarrow> backfill_order \<Rightarrow> bool \<Rightarrow> 'w run \<Rightarrow>
     ((error + nat) \<times> 'w run) option" where
  "syncToKeap crm now d consent s =
     (case findKeapContact crm (email d) s of
        None \<Rightarrow> None
      | Some (Some existingContact, s1) \<Rightarrow>
          (case fetch crm (ContactUpdate (contact_id existingContact)
                     (backfill_payload d consent)) s1 of
             (updateResponse, s2) \<Rightarrow>
               if \<not> ok updateResponse then
                 Some (Inl (ContactUpdateFailed (status updateResponse)), s2)
               else
                 (case applyTags_backfill crm now (contact_id existingContact)
                         (backfill_tags d) s2 of
                    None \<Rightarrow> None
                  | Some s3 \<Rightarrow> Some (Inr (contact_id existingContact), s3)))
      | Some (None, s1) \<Rightarrow>
          (case fetch crm (ContactCreate (backfill_payload d consent)) s1 of
             (createResponse, s2) \<Rightarrow>
               if \<not> ok createResponse then
                 Some (Inl (ContactCreationFailed (status createResponse)), s2)
               else
                 (case applyTags_backfill crm now (body_id createResponse)
                         (backfill_tags d) s2 of
                    None \<Rightarrow> None
                  | Some s3 \<Rightarrow> Some (Inr (body_id createResponse), s3))))"

datatype detail =
    SkippedNoEmail string
  | SkippedHasOrderData string string
  | WouldSync string string string backfill_order
  | Synced string string

record results =
  processed :: nat
  synced :: nat
  skipped :: nat
  errors :: "(string \<times> string) list"
  details :: "detail list"

text \<open>\<open>session.shipping_details || session.collected_information?.shipping_details\<close>,
  then \<open>shippingDetails?.address\<close>.\<close>

definition session_address :: "session \<Rightarrow> address option" where
  "session_address se =
     (case shipping_details se of
        Some sd \<Rightarrow> sd
      | None \<Rightarrow> (case collected_shipping_details se of Some sd \<Rightarrow> sd | None \<Rightarrow> None))"

definition session_cartItems :: "session \<Rightarrow> cart_item list" where
  "session_cartItems se =
     (case metadata_cartItems se of CartParsed items \<Rightarrow> items | _ \<Rightarrow> [])"

text \<open>In the backfill \<open>hasPreOrder\<close> is set in the same \<open>try\<close> as the cart, after it.\<close>

definition session_hasPreOrder :: "session \<Rightarrow> bool" where
  "session_hasPreOrder se =
     (case metadata_cartItems se of
        CartMalformed \<Rightarrow> False
      | _ \<Rightarrow> metadata_hasPreOrder se = Some ''true'')"

definition build_orderData :: "session \<Rightarrow> backfill_order" where
  "build_orderData se =
     \<lparr>email = the (customer_email se),
      cartItems = session_cartItems se,
      shippingAddress = session_address se,
      paymentId = payment_intent se,
      amountPaid = of_int (int (amount_total se)) / 100,
      hasPreOrder = session_hasPreOrder se,
      sessionId = session_id se,
      name = (if truthy (customer_name se) then the (customer_name se) else ''''),
      created = session_created se\<rparr>"

text \<open>
  The body of the loop for one listed session, after \<open>results.processed++\<close>.
  \<open>None\<close> when a retry loop never ends.
\<close>

definition process_session ::
    "'w provider \<Rightarrow> stripe_api \<Rightarrow> jsdate \<Rightarrow> bool \<Rightarrow> string \<Rightarrow> results \<Rightarrow> 'w run \<Rightarrow>
     (results \<times> 'w run) option" where
  "process_session crm stripe now dryRun summaryId res s =
     (case sessions_retrieve stripe summaryId of
        Inl m \<Rightarrow> Some (res\<lparr>errors := errors res @ [(summaryId, m)]\<rparr>, s)
      | Inr se \<Rightarrow>
          if \<not> truthy (customer_email se) then
            Some (res\<lparr>skipped := skipped res + 1,
                      details := details res @ [SkippedNoEmail (session_id se)]\<rparr>, s)
          else
            (case findKeapContact crm (the (customer_email se)) s of
               None \<Rightarrow> None
             | Some (existingContact, s1) \<Rightarrow>
                 if (case existingContact of None \<Rightarrow> False | Some c \<Rightarrow> hasExistingOrderData c) then
                   Some (res\<lparr>skipped := skipped res + 1,
                             details := details res @
                               [SkippedHasOrderData (session_id se) (the (customer_email se))]\<rparr>, s1)
                 else if dryRun then
                   Some (res\<lparr>synced := synced res + 1,
                             details := details res @
                               [WouldSync (session_id se) (the (customer_email se))
                                  (name (build_orderData se)) (build_orderData se)]\<rparr>, s1)
                 else
                   (case syncToKeap crm now (build_orderData se)
                           (metadata_emailConsent se = Some ''true'') s1 of
                      None \<Rightarrow> None
                    | Some (Inl e, s2) \<Rightarrow>
                        Some (res\<lparr>errors := errors res @ [(summaryId, message e)]\<rparr>, s2)
                    | Some (Inr contactId, s2) \<Rightarrow>
                        Some (res\<lparr>synced := synced res + 1,
                                  details := details res @
                                    [Synced (session_id se) (the (customer_email se))]\<rparr>, s2))))"

fun backfill_loop ::
    "'w provider \<Rightarrow> stripe_api \<Rightarrow> jsdate \<Rightarrow> bool \<Rightarrow> string list \<Rightarrow> results \<Rightarrow> 'w run \<Rightarrow>
     (results \<times> 'w run) option" where
  "backfill_loop crm stripe now dryRun [] res s = Some (res, s)"
| "backfill_loop crm stripe now dryRun (summaryId # rest) res s =
     (case process_session crm stripe now dryRun summaryId
             (res\<lparr>processed := processed res + 1\<rparr>) s of
        None \<Rightarrow> None
      | Some (res', s') \<Rightarrow> backfill_loop crm stripe now dryRun rest res' s')"

text \<open>
  The request: \<open>backfill_options\<close> is what \<open>JSON.parse(event.body || '{}')\<close> gives:
  it throws (the options stay \<open>{}\<close>), or yields null, an object with its \<open>dryRun\<close> and
  \<open>limit\<close> members (\<open>JUndefined\<close> when absent), or a value without members.
\<close>

datatype parsed_options = ParseThrows | ParsedNull | ParsedObject jsval jsval | ParsedOther

record backfill_event =
  backfill_httpMethod :: string
  backfill_authorization :: "string option"
  backfill_options :: parsed_options

datatype backfill_body =
    BackfillEmpty
  | BackfillError string
  | BackfillFailed string
  | BackfillReport bool string results

definition options_dryRun :: "parsed_options \<Rightarrow> jsval" where
  "options_dryRun opts = (case opts of ParsedObject d l \<Rightarrow> d | _ \<Rightarrow> JUndefined)"

definition options_limit :: "parsed_options \<Rightarrow> jsval" where
  "options_limit opts = (case opts of ParsedObject d l \<Rightarrow> l | _ \<Rightarrow> JUndefined)"

text \<open>\<open>options.dryRun !== false\<close> and \<open>options.limit || 100\<close>\<close>

definition backfill_dryRun :: "parsed_options \<Rightarrow> bool" where
  "backfill_dryRun opts = (options_dryRun opts \<noteq> JBool False)"

definition backfill_limit :: "parsed_options \<Rightarrow> jsval" where
  "backfill_limit opts = (if js_truthy (options_limit opts) then options_limit opts else JNum 100)"

definition empty_results :: results where
  "empty_results = \<lparr>processed = 0, synced = 0, skipped = 0, errors = [], details = []\<rparr>"

definition report_message :: "bool \<Rightarrow> results \<Rightarrow> string" where
  "report_message dryRun res =
     (if dryRun then
        ''Dry run complete. '' @ show_nat (synced res)
        @ '' orders would be synced. Run with dryRun: false to execute.''
      else ''Backfill complete. '' @ show_nat (synced res) @ '' orders synced to Keap.'')"

text \<open>
  \<open>exports.handler\<close>.  The outer \<open>option\<close> is \<open>None\<close> when a retry loop never ends;
  \<open>Inl\<close> is the exception that leaves the handler (reading a member of null).
\<close>

definition backfill ::
    "'w provider \<Rightarrow> stripe_api \<Rightarrow> config \<Rightarrow> jsdate \<Rightarrow> backfill_event \<Rightarrow> 'w run \<Rightarrow>
     ((string + nat \<times> backfill_body) \<times> 'w run) option" where
  "backfill crm stripe cfg now event s =
     (if backfill_httpMethod event = ''OPTIONS'' then Some (Inr (200, BackfillEmpty), s)
      else if backfill_httpMethod event \<noteq> ''POST'' then
        Some (Inr (405, BackfillError ''Method not allowed. Use POST.''), s)
      else if unauthorized cfg (backfill_authorization event) then
        Some (Inr (401, BackfillError ''Unauthorized''), s)
      else if \<not> truthy (KEAP_ACCESS_TOKEN cfg) then
        Some (Inr (500, BackfillError ''KEAP_ACCESS_TOKEN not configured''), s)
      else if backfill_options event = ParsedNull then
        Some (Inl ''TypeError: Cannot read properties of null'', s)
      else
        (let dryRun = backfill_dryRun (backfill_options event);
             limit = backfill_limit (backfill_options event)
         in if \<not> truthy (STRIPE_SECRET_KEY cfg) then
              Some (Inr (500, BackfillFailed ''STRIPE_SECRET_KEY not configured''), s)
            else
              (case sessions_list stripe limit of
                 Inl m \<Rightarrow> Some (Inr (500, BackfillFailed m), s)
               | Inr summaries \<Rightarrow>
                   (case backfill_loop crm stripe now dryRun summaries empty_results s of
                      None \<Rightarrow> None
                    | Some (res, s') \<Rightarrow>
                        Some (Inr (200, BackfillReport dryRun (report_message dryRun res) res),
                              s')))))"

section \<open>The tracking update (update-tracking.js)\<close>

definition getOrCreateTag_tracking ::
    "'w provider \<Rightarrow> string \<Rightarrow> 'w run \<Rightarrow> (error + nat) \<times> 'w run" where
  "getOrCreateTag_tracking crm tagName s =
     (case fetch crm (TagSearch tagName) s of
        (searchResponse, s1) \<Rightarrow>
          if \<not> ok searchResponse then (Inl (TagSearchFailed (status searchResponse)), s1)
          else (case body_tags searchResponse of
                  Some (t # ts) \<Rightarrow> (Inr t, s1)
                | _ \<Rightarrow>
                   (case fetch crm (TagCreate tagName
                           ''Auto-created for Destiny Cards shipping'') s1 of
                      (createResponse, s2) \<Rightarrow>
                        if \<not> ok createResponse then
                          (Inl (TagCreationFailed (status createResponse)), s2)
                        else (Inr (body_id createResponse), s2))))"

text \<open>\<open>getTagId\<close>: \<open>searchData.tags?.[0]?.id || null\<close>, so the id 0 counts as no tag.\<close>

definition getTagId :: "'w provider \<Rightarrow> string \<Rightarrow> 'w run \<Rightarrow> nat option \<times> 'w run" where
  "getTagId crm tagName s =
     (case fetch crm (TagSearch tagName) s of
        (searchResponse, s1) \<Rightarrow>
          if \<not> ok searchResponse then (None, s1)
          else (case body_tags searchResponse of
                  Some (t # ts) \<Rightarrow> (if t \<noteq> 0 then Some t else None, s1)
                | _ \<Rightarrow> (None, s1)))"

definition removeTagFromContact ::
    "'w provider \<Rightarrow> nat \<Rightarrow> nat \<Rightarrow> 'w run \<Rightarrow> (error + unit) \<times> 'w run" where
  "removeTagFromContact crm contactId tagId s =
     (case fetch crm (TagRemove contactId tagId) s of
        (r, s1) \<Rightarrow>
          if \<not> ok r \<and> status r \<noteq> 404 then (Inl (TagRemovalFailed (status r)), s1)
          else (Inr (), s1))"

definition tracking_customFields :: "string \<Rightarrow> string \<Rightarrow> string \<Rightarrow> custom_field list" where
  "tracking_customFields shipmentType trackingNumber today =
     (if shipmentType = ''cards'' then
        [\<lparr>cf_id = CARDS_TRACKING_NUMBER, content = Some trackingNumber\<rparr>,
         \<lparr>cf_id = CARDS_SHIPPED_DATE, content = Some today\<rparr>]
      else
        [\<lparr>cf_id = BOOK_TRACKING_NUMBER, content = Some trackingNumber\<rparr>,
         \<lparr>cf_id = BOOK_SHIPPED_DATE, content = Some today\<rparr>])"

definition tracking_payload :: "custom_field list \<Rightarrow> contact_payload" where
  "tracking_payload customFields =
     \<lparr>given_name = None, family_name = None, email_addresses = None, addresses = None,
      opt_in_reason = None, custom_fields = customFields\<rparr>"

definition shippedTagName :: "string \<Rightarrow> string" where
  "shippedTagName shipmentType =
     (if shipmentType = ''cards'' then ''Destiny Cards - Cards Shipped''
      else ''Destiny Cards - Book Shipped'')"

definition awaitingTagName :: "string \<Rightarrow> string" where
  "awaitingTagName shipmentType =
     (if shipmentType = ''cards'' then ''Destiny Cards - Awaiting Shipment''
      else ''Destiny Cards - Pending Book Shipment'')"

text \<open>The two \<open>try\<close> blocks after the update; what they catch is only logged.\<close>

definition apply_shipped_tag :: "'w provider \<Rightarrow> nat \<Rightarrow> string \<Rightarrow> 'w run \<Rightarrow> 'w run" where
  "apply_shipped_tag crm contactId shipmentType s =
     (case getOrCreateTag_tracking crm (shippedTagName shipmentType) s of
        (Inl e, s1) \<Rightarrow> s1
      | (Inr shippedTagId, s1) \<Rightarrow>
          snd (applyTagToContact_webhook crm contactId shippedTagId s1))"

definition remove_awaiting_tag :: "'w provider \<Rightarrow> nat \<Rightarrow> string \<Rightarrow> 'w run \<Rightarrow> 'w run" where
  "remove_awaiting_tag crm contactId shipmentType s =
     (case getTagId crm (awaitingTagName shipmentType) s of
        (None, s1) \<Rightarrow> s1
      | (Some awaitingTagId, s1) \<Rightarrow> snd (removeTagFromContact crm contactId awaitingTagId s1))"

text \<open>\<open>updateTrackingInKeap\<close>; \<open>now\<close> is the clock.\<close>

definition updateTrackingInKeap ::
    "'w provider \<Rightarrow> config \<Rightarrow> jsdate \<Rightarrow> string \<Rightarrow> string \<Rightarrow> string \<Rightarrow> 'w run \<Rightarrow>
     (error + nat) \<times> 'w run" where
  "updateTrackingInKeap crm cfg now mail trackingNumber shipmentType s =
     (if \<not> truthy (KEAP_ACCESS_TOKEN cfg) then
        (Inl (ConfigError ''KEAP_ACCESS_TOKEN not configured''), s)
      else
        (case fetch crm (ContactSearch mail '''') s of
           (searchResponse, s1) \<Rightarrow>
             if \<not> ok searchResponse then
               (Inl (ContactSearchFailed (status searchResponse)), s1)
             else
               (case body_contacts searchResponse of
                  Some (c # cs) \<Rightarrow>
                    (case fetch crm (ContactUpdate (contact_id c)
                               (tracking_payload
                                  (tracking_customFields shipmentType trackingNumber (iso_day now))))
                            s1 of
                       (updateResponse, s2) \<Rightarrow>
                         if \<not> ok updateResponse then
                           (Inl (ContactUpdateFailed (status updateResponse)), s2)
                         else
                           (Inr (contact_id c),
                            remove_awaiting_tag crm (contact_id c) shipmentType
                              (apply_shipped_tag crm (contact_id c) shipmentType s2)))
                | _ \<Rightarrow> (Inl (NoContactFound mail), s1))))"

text \<open>
  The handler.  \<open>tracking_body\<close> is the parsed request body: \<open>None\<close> when
  \<open>JSON.parse\<close> or the destructuring throws, else the three members.
\<close>

record tracking_request =
  req_email :: "string option"
  req_trackingNumber :: "string option"
  req_shipmentType :: "string option"

record tracking_event =
  tracking_httpMethod :: string
  tracking_authorization :: "string option"
  tracking_body :: "tracking_request option"

datatype tracking_response =
    TrackingEmpty
  | TrackingText string
  | TrackingError string
  | TrackingSuccess string nat

definition update_tracking ::
    "'w provider \<Rightarrow> config \<Rightarrow> jsdate \<Rightarrow> tracking_event \<Rightarrow> 'w run \<Rightarrow>
     (nat \<times> tracking_response) \<times> 'w run" where
  "update_tracking crm cfg now event s =
     (if tracking_httpMethod event = ''OPTIONS'' then ((200, TrackingEmpty), s)
      else if tracking_httpMethod event \<noteq> ''POST'' then ((405, TrackingText ''Method not allowed''), s)
      else if unauthorized cfg (tracking_authorization event) then
        ((401, TrackingError ''Unauthorized''), s)
      else
        (case tracking_body event of
           None \<Rightarrow> ((500, TrackingError ''Unexpected token''), s)
         | Some b \<Rightarrow>
             if \<not> truthy (req_email b) \<or> \<not> truthy (req_trackingNumber b)
                \<or> \<not> truthy (req_shipmentType b) then
               ((400, TrackingError
                  ''Missing required fields: email, trackingNumber, shipmentType (cards or book)''), s)
             else if the (req_shipmentType b) \<notin> set [''cards'', ''book''] then
               ((400, TrackingError ''shipmentType must be \"cards\" or \"book\"''), s)
             else
               (case updateTrackingInKeap crm cfg now (the (req_email b))
                       (the (req_trackingNumber b)) (the (req_shipmentType b)) s of
                  (Inl e, s1) \<Rightarrow> ((500, TrackingError (message e)), s1)
                | (Inr contactId, s1) \<Rightarrow>
                    ((200, TrackingSuccess
                        (''Tracking number updated for '' @ the (req_email b)) contactId), s1))))"

section \<open>Observing a run\<close>

text \<open>The requests about tags, and the writes among the requests made so far.\<close>

fun is_tag_request :: "request \<Rightarrow> bool" where
  "is_tag_request (TagSearch _) = True"
| "is_tag_request (TagCreate _ _) = True"
| "is_tag_request (TagApply _ _) = True"
| "is_tag_request (TagRemove _ _) = True"
| "is_tag_request _ = False"

definition writes :: "'w run \<Rightarrow> request list" where
  "writes s = filter is_write (snd s)"

text \<open>The names of the tags looked up, in order.\<close>

fun tag_searches :: "request list \<Rightarrow> string list" where
  "tag_searches [] = []"
| "tag_searches (TagSearch n # rs) = n # tag_searches rs"
| "tag_searches (r # rs) = tag_searches rs"

text \<open>The bodies of the contact creates and updates, in order, and what they write to a
  custom field.\<close>

fun contact_writes :: "request list \<Rightarrow> contact_payload list" where
  "contact_writes [] = []"
| "contact_writes (ContactUpdate i p # rs) = p # contact_writes rs"
| "contact_writes (ContactCreate p # rs) = p # contact_writes rs"
| "contact_writes (r # rs) = contact_writes rs"

definition payload_field :: "nat \<Rightarrow> contact_payload \<Rightarrow> string option" where
  "payload_field i p =
     (case find_field i (custom_fields p) of None \<Rightarrow> None | Some f \<Rightarrow> content f)"

definition written :: "nat \<Rightarrow> 'w run \<Rightarrow> string option list" where
  "written i s = map (payload_field i) (contact_writes (snd s))"

text \<open>
  The claims' reading of a contact's existing total spent: the content of field 327
  parsed as a decimal, 0 when it does not parse (an absent or empty field does not).
\<close>

definition existing_total :: "custom_field list \<Rightarrow> rat" where
  "existing_total fs =
     or_zero (parseFloat
       (case find_field 327 fs of
          None \<Rightarrow> []
        | Some f \<Rightarrow> (case content f of None \<Rightarrow> [] | Some v \<Rightarrow> v)))"

text \<open>The custom fields of a contact-detail response: \<open>contactDetail.custom_fields || []\<close>.\<close>

definition detail_fields :: "response \<Rightarrow> custom_field list" where
  "detail_fields r = (case body_custom_fields r of None \<Rightarrow> [] | Some fs \<Rightarrow> fs)"

text \<open>Webhook syncs one after the other, each with the clock reading of its call.\<close>

fun webhook_syncs ::
    "'w provider \<Rightarrow> config \<Rightarrow> (jsdate \<times> webhook_order) list \<Rightarrow> 'w run \<Rightarrow> 'w run" where
  "webhook_syncs crm cfg [] s = s"
| "webhook_syncs crm cfg (x # rest) s =
     webhook_syncs crm cfg rest (snd (integrateWithKeap crm cfg (fst x) (snd x) s))"

text \<open>A provider that never answers with the rate-limit status.\<close>

definition never_429 :: "'w provider \<Rightarrow> bool" where
  "never_429 crm = (\<forall>req w. status (fst (crm req w)) \<noteq> 429)"

text \<open>The sessions of a report that fell into one of the three buckets.\<close>

definition tally :: "results \<Rightarrow> nat" where
  "tally res = synced res + skipped res + length (errors res)"

text \<open>An amount of whole cents, not negative.\<close>

definition is_cents :: "rat \<Rightarrow> bool" where
  "is_cents x = (0 \<le> x \<and> of_int \<lfloor>x * 100\<rfloor> = x * 100)"

section \<open>Concrete values for the worked instances\<close>

definition reply :: "nat \<Rightarrow> response" where
  "reply st = \<lparr>status = st, body_contacts = None, body_custom_fields = None,
     body_id = 0, body_tags = None\<rparr>"

text \<open>
  A reference provider, after the data model of the specification (section 3): a contact
  is found by its email, carries a mapping from custom-field id to content, and an update
  replaces the content of exactly the fields it lists; tags are global, found by name.
  It answers every call at once and never fails on its own.  It is used to state what
  two syncs in a row leave behind, and in the worked instances.
\<close>

record crm_state =
  by_email :: "string \<rightharpoonup> nat"
  stored_fields :: "nat \<rightharpoonup> custom_field list"
  tag_ids :: "string \<rightharpoonup> nat"
  applied_tags :: "nat \<Rightarrow> nat list"
  next_id :: nat

fun set_field :: "custom_field \<Rightarrow> custom_field list \<Rightarrow> custom_field list" where
  "set_field f [] = [f]"
| "set_field f (g # gs) = (if cf_id g = cf_id f then f # gs else g # set_field f gs)"

definition patch_fields :: "custom_field list \<Rightarrow> custom_field list \<Rightarrow> custom_field list" where
  "patch_fields new old = foldl (\<lambda>acc f. set_field f acc) old new"

fun keap :: "crm_state provider" where
  "keap (ContactSearch mail props) st =
     ((reply 200)\<lparr>body_contacts := Some
         (case by_email st mail of
            None \<Rightarrow> []
          | Some i \<Rightarrow> [\<lparr>contact_id = i,
                        contact_custom_fields =
                          (if props = [] then None else stored_fields st i)\<rparr>])\<rparr>, st)"
| "keap (ContactDetail i) st =
     (case stored_fields st i of
        None \<Rightarrow> (reply 404, st)
      | Some fs \<Rightarrow> ((reply 200)\<lparr>body_custom_fields := Some fs, body_id := i\<rparr>, st))"
| "keap (ContactUpdate i p) st =
     (case stored_fields st i of
        None \<Rightarrow> (reply 404, st)
      | Some fs \<Rightarrow>
          ((reply 200)\<lparr>body_id := i\<rparr>,
           st\<lparr>stored_fields := (stored_fields st)(i \<mapsto> patch_fields (custom_fields p) fs)\<rparr>))"
| "keap (ContactCreate p) st =
     ((reply 201)\<lparr>body_id := next_id st\<rparr>,
      st\<lparr>by_email := (case email_addresses p of
                        Some (e # es) \<Rightarrow> (by_email st)(e \<mapsto> next_id st)
                      | _ \<Rightarrow> by_email st),
         stored_fields := (stored_fields st)(next_id st \<mapsto> patch_fields (custom_fields p) []),
         next_id := Suc (next_id st)\<rparr>)"
| "keap (TagSearch nm) st =
     ((reply 200)\<lparr>body_tags := Some (case tag_ids st nm of None \<Rightarrow> [] | Some t \<Rightarrow> [t])\<rparr>, st)"
| "keap (TagCreate nm descr) st =
     ((reply 201)\<lparr>body_id := next_id st\<rparr>,
      st\<lparr>tag_ids := (tag_ids st)(nm \<mapsto> next_id st), next_id := Suc (next_id st)\<rparr>)"
| "keap (TagApply c t) st =
     (case stored_fields st c of
        None \<Rightarrow> (reply 404, st)
      | Some fs \<Rightarrow>
          (reply 200, st\<lparr>applied_tags := (applied_tags st)(c := List.insert t (applied_tags st c))\<rparr>))"
| "keap (TagRemove c t) st =
     (case stored_fields st c of
        None \<Rightarrow> (reply 404, st)
      | Some fs \<Rightarrow>
          if t \<in> set (applied_tags st c) then
            (reply 204, st\<lparr>applied_tags := (applied_tags st)(c := removeAll t (applied_tags st c))\<rparr>)
          else (reply 404, st))"

definition empty_crm :: crm_state where
  "empty_crm = \<lparr>by_email = Map.empty, stored_fields = Map.empty, tag_ids = Map.empty,
     applied_tags = (\<lambda>c. []), next_id = 1\<rparr>"

text \<open>The content stored in a field of the contact with the given email.\<close>

definition stored :: "crm_state \<Rightarrow> string \<Rightarrow> nat \<Rightarrow> string option" where
  "stored st mail i =
     (case by_email st mail of
        None \<Rightarrow> None
      | Some c \<Rightarrow>
          (case stored_fields st c of
             None \<Rightarrow> None
           | Some fs \<Rightarrow> (case find_field i fs of None \<Rightarrow> None | Some f \<Rightarrow> content f)))"

definition example_item :: cart_item where
  "example_item = \<lparr>productId = ''cards-only'', productName = ''Destiny Cards'',
     productPrice = 20, quantity = 1\<rparr>"

definition example_bundle :: cart_item where
  "example_bundle = \<lparr>productId = ''cards-book-bundle'', productName = ''Cards + Book'',
     productPrice = 71 / 2, quantity = 1\<rparr>"

text \<open>The reference provider with its contact-detail endpoint down.\<close>

definition keap_detail_down :: "crm_state provider" where
  "keap_detail_down req st =
     (case req of ContactDetail i \<Rightarrow> (reply 500, st) | _ \<Rightarrow> keap req st)"

definition first_order :: webhook_order where
  "first_order = \<lparr>email = ''a@example.com'', cartItems = [example_item],
     shippingAddress = None, paymentId = Some ''pi_1'', amountPaid = 20, hasPreOrder = False,
     firstName = ''Ada'', lastName = ''Lovelace'', emailConsent = False\<rparr>"

definition second_order :: webhook_order where
  "second_order = \<lparr>email = ''a@example.com'', cartItems = [example_bundle],
     shippingAddress = None, paymentId = Some ''pi_2'', amountPaid = 71 / 2, hasPreOrder = True,
     firstName = ''Ada'', lastName = ''Lovelace'', emailConsent = True\<rparr>"

definition december :: jsdate where
  "december = \<lparr>toISOString = ''2025-12-01T09:30:00.000Z'',
     loc_year = 2025, loc_month = 12, loc_day = 1\<rparr>"

definition example_session :: session where
  "example_session = \<lparr>session_id = ''cs_1'', shipping_details = None,
     collected_shipping_details = None, customer_email = Some ''a@example.com'',
     customer_name = Some ''Ada Lovelace'', metadata_cartItems = CartParsed [example_bundle],
     metadata_hasPreOrder = Some ''true'', metadata_emailConsent = Some ''true'',
     amount_total = 3550, payment_intent = Some ''pi_2'',
     session_created = \<lparr>toISOString = ''2026-01-05T10:00:00.000Z'',
       loc_year = 2026, loc_month = 1, loc_day = 5\<rparr>\<rparr>"

text \<open>Three listed sessions: one complete, one that cannot be retrieved, one without
  a customer email.\<close>

definition example_stripe :: stripe_api where
  "example_stripe =
     \<lparr>sessions_list = (\<lambda>limit. Inr [''cs_1'', ''cs_gone'', ''cs_2'']),
      sessions_retrieve = (\<lambda>i.
        if i = ''cs_1'' then Inr example_session
        else if i = ''cs_2'' then
          Inr (example_session\<lparr>session_id := ''cs_2'', customer_email := None\<rparr>)
        else Inl ''No such checkout.session'')\<rparr>"

definition example_event :: "jsval \<Rightarrow> backfill_event" where
  "example_event dryRun = \<lparr>backfill_httpMethod = ''POST'',
     backfill_authorization = Some ''Bearer admin-key'',
     backfill_options = ParsedObject dryRun JUndefined\<rparr>"

definition example_config :: config where
  "example_config = \<lparr>ADMIN_API_KEY = Some ''admin-key'',
     KEAP_ACCESS_TOKEN = Some ''KeapAK-token'', STRIPE_SECRET_KEY = Some ''sk_test_key''\<rparr>"

definition example_now :: jsdate where
  "example_now = \<lparr>toISOString = ''2026-01-05T10:00:00.000Z'',
     loc_year = 2026, loc_month = 1, loc_day = 5\<rparr>"

definition example_contact :: contact where
  "example_contact = \<lparr>contact_id = 7,
     contact_custom_fields = Some [\<lparr>cf_id = 311, content = Some ''pi_1''\<rparr>,
                                   \<lparr>cf_id = 325, content = Some ''Dec 1, 2025: 1x Destiny Cards ($20.00)''\<rparr>,
                                   \<lparr>cf_id = 327, content = Some ''20.00''\<rparr>]\<rparr>"

definition tracking_script :: "response list" where
  "tracking_script =
     [(reply 200)\<lparr>body_contacts := Some [example_contact]\<rparr>,
      reply 200,
      (reply 200)\<lparr>body_tags := Some [3]\<rparr>,
      reply 200,
      (reply 200)\<lparr>body_tags := Some [4]\<rparr>,
      reply 204]"

definition found_script :: "response list" where
  "found_script = [reply 429, (reply 200)\<lparr>body_contacts := Some [example_contact]\<rparr>]"

definition unknown_script :: "response list" where
  "unknown_script = [reply 429, (reply 200)\<lparr>body_contacts := Some []\<rparr>]"

definition subscriber :: contact where
  "subscriber = \<lparr>contact_id = 7, contact_custom_fields = Some []\<rparr>"

definition subscriber_script :: "response list" where
  "subscriber_script =
     [(reply 200)\<lparr>body_contacts := Some [subscriber]\<rparr>,
      (reply 200)\<lparr>body_contacts := Some [subscriber]\<rparr>,
      reply 200]
     @ concat (replicate 7 [(reply 200)\<lparr>body_tags := Some [5]\<rparr>, reply 200])"

definition repeat_script :: "response list" where
  "repeat_script =
     [(reply 200)\<lparr>body_contacts := Some [example_contact]\<rparr>,
      (reply 200)\<lparr>body_custom_fields := contact_custom_fields example_contact\<rparr>,
      reply 200]
     @ concat (replicate 8 [(reply 200)\<lparr>body_tags := Some [5]\<rparr>, reply 200])"

text \<open>A contact whose cards have shipped and whose book has not.\<close>

definition shipped_contact :: contact where
  "shipped_contact = \<lparr>contact_id = 7,
     contact_custom_fields = Some [\<lparr>cf_id = 311, content = Some ''pi_2''\<rparr>,
                                   \<lparr>cf_id = 315, content = Some ''9400111899223859''\<rparr>,
                                   \<lparr>cf_id = 317, content = Some ''2026-01-05''\<rparr>,
                                   \<lparr>cf_id = 319, content = Some []\<rparr>]\<rparr>"

definition check_request :: check_event where
  "check_request = \<lparr>check_httpMethod = ''GET'',
     check_authorization = Some ''Bearer admin-key'', check_email = Some ''a@example.com''\<rparr>"

text \<open>The answers to a webhook sync whose contact-detail read fails.\<close>

definition detail_down_script :: "response list" where
  "detail_down_script =
     [(reply 200)\<lparr>body_contacts := Some [example_contact]\<rparr>, reply 500, reply 200]"

text \<open>The guard's lookup is answered 500; the next search finds the contact, whose
  payment-id field is set, and the update is accepted.\<close>

definition lookup_error_script :: "response list" where
  "lookup_error_script =
     [reply 500, (reply 200)\<lparr>body_contacts := Some [example_contact]\<rparr>, reply 200]"

text \<open>The answers to a backfill run whose one complete session belongs to a customer the
  CRM already holds without order data: the guard's lookup, the sync's lookup, the update,
  and a lookup and an application for each of seven tags.\<close>

definition returning_script :: "response list" where
  "returning_script =
     [(reply 200)\<lparr>body_contacts := Some [subscriber]\<rparr>,
      (reply 200)\<lparr>body_contacts := Some [subscriber]\<rparr>,
      reply 200,
      (reply 200)\<lparr>body_tags := Some [11]\<rparr>, reply 200,
      (reply 200)\<lparr>body_tags := Some [12]\<rparr>, reply 200,
      (reply 200)\<lparr>body_tags := Some [13]\<rparr>, reply 200,
      (reply 200)\<lparr>body_tags := Some [14]\<rparr>, reply 200,
      (reply 200)\<lparr>body_tags := Some [15]\<rparr>, reply 200,
      (reply 200)\<lparr>body_tags := Some [16]\<rparr>, reply 200,
      (reply 200)\<lparr>body_tags := Some [17]\<rparr>, reply 200]"

text \<open>
  Where the exact arithmetic of this development and the doubles of the code give the same
  digits: an amount is a number of whole cents below \<open>10 ^ 9\<close>, and the text of an existing
  total either parses to an amount or does not parse and is not an \<open>Infinity\<close> literal
  (which \<open>parseFloat\<close> reads as infinite, not as NaN).
\<close>

definition is_amount :: "rat \<Rightarrow> bool" where
  "is_amount x = (is_cents x \<and> x < 10 ^ 9)"

definition infinity_literal :: "string \<Rightarrow> bool" where
  "infinity_literal s =
     (let r = dropWhile is_space s;
          r' = (case r of [] \<Rightarrow> [] | c # r1 \<Rightarrow> if c = CHR ''-'' \<or> c = CHR ''+'' then r1 else r)
      in take 8 r' = ''Infinity'')"

definition exact_total :: "custom_field list \<Rightarrow> bool" where
  "exact_total fs =
     (let txt = (case find_field 327 fs of
                   None \<Rightarrow> []
                 | Some f \<Rightarrow> (case content f of None \<Rightarrow> [] | Some v \<Rightarrow> v))
      in case parseFloat txt of None \<Rightarrow> \<not> infinity_literal txt | Some t \<Rightarrow> is_amount t)"

text \<open>
  The claims' reading of a contact's existing order history: the content of field 325,
  empty when the field is absent or its content is null.
\<close>

definition existing_history :: "custom_field list \<Rightarrow> string" where
  "existing_history fs =
     (case find_field 325 fs of
        None \<Rightarrow> []
      | Some f \<Rightarrow> (case content f of None \<Rightarrow> [] | Some v \<Rightarrow> v))"

definition after_first_order :: "crm_state run" where
  "after_first_order = webhook_syncs keap example_config [(december, first_order)] (empty_crm, [])"

definition new_script :: "response list" where
  "new_script = [(reply 200)\<lparr>body_contacts := Some []\<rparr>, (reply 201)\<lparr>body_id := 8\<rparr>]"

section \<open>Properties\<close>

lemma split_nonempty: "split c s \<noteq> []"
  by (induction s) (auto split: list.splits)

lemma is_digit_digit_char [simp]: "is_digit (digit_char d)"
proof -
  have "d mod 10 < 10" by simp
  then have "48 + d mod 10 < 256" by linarith
  then show ?thesis
    by (simp add: is_digit_def digit_char_def)
qed

lemma digit_val_digit_char [simp]: "digit_val (digit_char d) = d mod 10"
proof -
  have "d mod 10 < 10" by simp
  then have "48 + d mod 10 < 256" by linarith
  then show ?thesis
    by (simp add: digit_val_def digit_char_def)
qed

lemma foldl_digits_acc:
  "foldl (\<lambda>acc c. acc * 10 + digit_val c) a ys = a * 10 ^ length ys + digits_val ys"
proof (induction ys arbitrary: a)
  case Nil
  show ?case by (simp add: digits_val_def)
next
  case (Cons y ys)
  have "foldl (\<lambda>acc c. acc * 10 + digit_val c) a (y # ys)
      = (a * 10 + digit_val y) * 10 ^ length ys + digits_val ys"
    by (simp add: Cons[of "a * 10 + digit_val y"])
  moreover have "digits_val (y # ys) = digit_val y * 10 ^ length ys + digits_val ys"
    by (simp add: digits_val_def Cons[of "digit_val y"])
  ultimately show ?case by (simp add: distrib_right mult.assoc)
qed

lemma digits_val_Cons: "digits_val (c # cs) = digit_val c * 10 ^ length cs + digits_val cs"
  using foldl_digits_acc[of "digit_val c" cs] by (simp add: digits_val_def)

lemma digits_val_show_nat_fuel:
  "n < k \<Longrightarrow> digits_val (show_nat_fuel k n acc) = n * 10 ^ length acc + digits_val acc"
proof (induction k arbitrary: n acc)
  case 0
  then show ?case by simp
next
  case (Suc k)
  show ?case
  proof (cases "n < 10")
    case True
    then show ?thesis by (simp add: digits_val_Cons)
  next
    case False
    with Suc.prems have lt: "n div 10 < k" by auto
    have "digits_val (show_nat_fuel (Suc k) n acc)
        = digits_val (show_nat_fuel k (n div 10) (digit_char n # acc))"
      using False by simp
    also have "\<dots> = (n div 10) * 10 ^ length (digit_char n # acc) + digits_val (digit_char n # acc)"
      by (rule Suc.IH[OF lt])
    also have "\<dots> = n div 10 * (10 * 10 ^ length acc) + n mod 10 * 10 ^ length acc
        + digits_val acc"
      by (simp add: digits_val_Cons)
    also have "n div 10 * (10 * 10 ^ length acc) + n mod 10 * 10 ^ length acc = n * 10 ^ length acc"
    proof -
      have "(n div 10 * 10 + n mod 10) * 10 ^ length acc = n * 10 ^ length acc" by simp
      then show ?thesis by (simp only: distrib_right mult.assoc)
    qed
    finally show ?thesis .
  qed
qed

lemma digits_val_show_nat [simp]: "digits_val (show_nat n) = n"
  unfolding show_nat_def
  by (subst digits_val_show_nat_fuel) (simp_all add: digits_val_def)

lemma show_nat_fuel_digits:
  "list_all is_digit acc \<Longrightarrow> list_all is_digit (show_nat_fuel k n acc)"
  by (induction k n acc rule: show_nat_fuel.induct) auto

lemma show_nat_digits [simp]: "list_all is_digit (show_nat n)"
  by (simp add: show_nat_def show_nat_fuel_digits)

lemma show_nat_fuel_nonempty: "show_nat_fuel (Suc k) n acc \<noteq> []"
proof (induction k arbitrary: n acc)
  case 0
  show ?case by simp
next
  case (Suc k)
  show ?case using Suc[of "n div 10" "digit_char n # acc"] by (cases "n < 10") auto
qed

lemma show_nat_nonempty [simp]: "show_nat n \<noteq> []"
  by (simp add: show_nat_def show_nat_fuel_nonempty del: show_nat_fuel.simps)


lemma is_centsE:
  assumes "is_cents x"
  obtains n :: nat where "x = of_int (int n) / 100"
proof -
  from assms have x0: "0 \<le> x" and fl: "of_int \<lfloor>x * 100\<rfloor> = x * 100"
    by (auto simp: is_cents_def)
  from x0 have "0 \<le> \<lfloor>x * 100\<rfloor>" by simp
  then have "int (nat \<lfloor>x * 100\<rfloor>) = \<lfloor>x * 100\<rfloor>" by simp
  then have "(of_int (int (nat \<lfloor>x * 100\<rfloor>)) :: rat) = of_int \<lfloor>x * 100\<rfloor>"
    by (simp only:)
  with fl have "(of_int (int (nat \<lfloor>x * 100\<rfloor>)) :: rat) = x * 100" by (simp only:)
  then have "x = of_int (int (nat \<lfloor>x * 100\<rfloor>)) / 100" by simp
  then show ?thesis by (rule that)
qed

lemma is_cents_add: "is_cents x \<Longrightarrow> is_cents y \<Longrightarrow> is_cents (x + y)"
proof -
  assume a: "is_cents x" "is_cents y"
  from a(1) obtain n :: nat where x: "x = of_int (int n) / 100" by (rule is_centsE)
  from a(2) obtain m :: nat where y: "y = of_int (int m) / 100" by (rule is_centsE)
  have "x + y = of_int (int (n + m)) / 100" by (simp add: x y add_divide_distrib)
  then show ?thesis by (simp add: is_cents_def del: of_int_of_nat_eq of_nat_add)
qed

lemma toFixed2_cents:
  "toFixed2 (of_int (int n) / 100)
     = show_nat (n div 100) @ ''.'' @ [digit_char (n mod 100 div 10), digit_char (n mod 10)]"
proof -
  have "\<lfloor>(of_int (int n) :: rat) + 1 / 2\<rfloor> = int n"
    by (rule floor_unique) auto
  then show ?thesis
    by (simp add: toFixed2_def)
qed

lemma not_space_digit: "is_digit c \<Longrightarrow> \<not> is_space c"
  by (auto simp: is_digit_def is_space_def)

lemma dot_not_digit [simp]: "\<not> is_digit (CHR ''.'')"
  by (simp add: is_digit_def)

lemma parse_unsigned_decimal:
  assumes "list_all is_digit ip" "ip \<noteq> []" "is_digit d1" "is_digit d2"
  shows "parse_unsigned (ip @ ''.'' @ [d1, d2])
           = Some (of_int (int (digits_val ip)) + of_int (int (digits_val [d1, d2])) / 100)"
proof -
  from assms(1) have tw: "takeWhile is_digit (ip @ CHR ''.'' # [d1, d2]) = ip"
    by (simp add: takeWhile_tail list_all_iff)
  from assms(1) have dw: "dropWhile is_digit (ip @ CHR ''.'' # [d1, d2]) = CHR ''.'' # [d1, d2]"
    by (simp add: dropWhile_append3 list_all_iff)
  show ?thesis
    using assms(2-4)
    by (simp add: parse_unsigned_def tw dw parse_exponent_def pow10_def)
qed

lemma parseFloat_toFixed2:
  assumes "is_cents x"
  shows "parseFloat (toFixed2 x) = Some x"
proof -
  from assms obtain n :: nat where x: "x = of_int (int n) / 100" by (rule is_centsE)
  obtain c cs where sn: "show_nat (n div 100) = c # cs"
    using show_nat_nonempty[of "n div 100"] by (cases "show_nat (n div 100)") auto
  have dig: "list_all is_digit (c # cs)" using show_nat_digits[of "n div 100"] sn by simp
  then have c: "is_digit c" by simp
  then have cns: "\<not> is_space c" by (rule not_space_digit)
  from c have cm: "c \<noteq> CHR ''-''" "c \<noteq> CHR ''+''" by (auto simp: is_digit_def)
  have pu: "parse_unsigned ((c # cs) @ ''.'' @ [digit_char (n mod 100 div 10), digit_char (n mod 10)])
      = Some (of_int (int (digits_val (c # cs)))
              + of_int (int (digits_val [digit_char (n mod 100 div 10), digit_char (n mod 10)])) / 100)"
    by (rule parse_unsigned_decimal[OF dig]) simp_all
  have dv: "digits_val (c # cs) = n div 100" using digits_val_show_nat[of "n div 100"] sn by simp
  have dv2: "digits_val [digit_char (n mod 100 div 10), digit_char (n mod 10)] = n mod 100"
  proof -
    have "n mod 100 div 10 < 10" by (simp add: less_mult_imp_div_less)
    then have "n mod 100 div 10 mod 10 = n mod 100 div 10" by simp
    moreover have "n mod 10 = n mod 100 mod 10" by (simp add: mod_mod_cancel)
    ultimately show ?thesis by (simp add: digits_val_Cons digits_val_def)
  qed
  have val: "(of_int (int (n div 100)) :: rat) + of_int (int (n mod 100)) / 100 = of_int (int n) / 100"
  proof -
    have "int n = int (n div 100 * 100 + n mod 100)" by simp
    also have "\<dots> = int (n div 100) * 100 + int (n mod 100)"
      by (simp only: of_nat_add of_nat_mult of_nat_numeral)
    finally have "int n = int (n div 100) * 100 + int (n mod 100)" .
    then have "(of_int (int n) :: rat) = of_int (int (n div 100)) * 100 + of_int (int (n mod 100))"
      by (metis of_int_add of_int_mult of_int_numeral)
    then show ?thesis by (simp add: add_divide_distrib)
  qed
  have "parseFloat (toFixed2 x)
      = parse_unsigned ((c # cs) @ ''.'' @ [digit_char (n mod 100 div 10), digit_char (n mod 10)])"
    unfolding x toFixed2_cents sn parseFloat_def using cns cm by simp
  also have "\<dots> = Some x" unfolding pu dv dv2 val x ..
  finally show ?thesis .
qed

lemma fetch_trace: "fetch crm req s = (r, s') \<Longrightarrow> snd s' = snd s @ [req]"
  by (auto simp: fetch_def split: prod.splits)

lemma getOrCreateTag_tracking_trace:
  "getOrCreateTag_tracking crm n s = (r, s') \<Longrightarrow>
     \<exists>ext. snd s' = snd s @ ext \<and> list_all is_tag_request ext"
  by (auto simp: getOrCreateTag_tracking_def split: prod.splits if_splits option.splits list.splits
      dest!: fetch_trace)

lemma applyTagToContact_webhook_trace:
  "applyTagToContact_webhook crm c t s = (r, s') \<Longrightarrow> snd s' = snd s @ [TagApply c t]"
  by (auto simp: applyTagToContact_webhook_def split: prod.splits if_splits dest!: fetch_trace)

lemma apply_shipped_tag_trace:
  "\<exists>ext. snd (apply_shipped_tag crm c st s) = snd s @ ext \<and> list_all is_tag_request ext"
proof -
  obtain r s1 where Pair: "getOrCreateTag_tracking crm (shippedTagName st) s = (r, s1)"
    by (metis surj_pair)
  from getOrCreateTag_tracking_trace[OF Pair] obtain ext1
    where e1: "snd s1 = snd s @ ext1" "list_all is_tag_request ext1" by blast
  show ?thesis
  proof (cases r)
    case (Inl e)
    with Pair e1 show ?thesis by (auto simp: apply_shipped_tag_def)
  next
    case (Inr t)
    obtain r2 s2 where a: "applyTagToContact_webhook crm c t s1 = (r2, s2)" by (metis surj_pair)
    from applyTagToContact_webhook_trace[OF a] e1 Pair Inr a show ?thesis
      by (auto simp: apply_shipped_tag_def)
  qed
qed

lemma getTagId_trace:
  "getTagId crm n s = (r, s') \<Longrightarrow> snd s' = snd s @ [TagSearch n]"
  by (auto simp: getTagId_def split: prod.splits if_splits option.splits list.splits dest!: fetch_trace)

lemma removeTagFromContact_trace:
  "removeTagFromContact crm c t s = (r, s') \<Longrightarrow> snd s' = snd s @ [TagRemove c t]"
  by (auto simp: removeTagFromContact_def split: prod.splits if_splits dest!: fetch_trace)

lemma remove_awaiting_tag_trace:
  "\<exists>ext. snd (remove_awaiting_tag crm c st s) = snd s @ ext \<and> list_all is_tag_request ext"
proof -
  obtain r s1 where Pair: "getTagId crm (awaitingTagName st) s = (r, s1)"
    by (metis surj_pair)
  note e1 = getTagId_trace[OF Pair]
  show ?thesis
  proof (cases r)
    case None
    with Pair e1 show ?thesis by (auto simp: remove_awaiting_tag_def)
  next
    case (Some t)
    obtain r2 s2 where a: "removeTagFromContact crm c t s1 = (r2, s2)" by (metis surj_pair)
    from removeTagFromContact_trace[OF a] e1 Pair Some a show ?thesis
      by (auto simp: remove_awaiting_tag_def)
  qed
qed

lemma updateTracking_success_trace:
  assumes "updateTrackingInKeap crm cfg now mail tn st s = (Inr cid, s')"
  shows "\<exists>ext. snd s' = snd s @ [ContactSearch mail [],
            ContactUpdate cid (tracking_payload (tracking_customFields st tn (iso_day now)))] @ ext
          \<and> list_all is_tag_request ext"
proof -
  obtain r1 s1 where f1: "fetch crm (ContactSearch mail []) s = (r1, s1)" by (metis surj_pair)
  from assms f1 obtain c cs where c: "body_contacts r1 = Some (c # cs)"
    by (auto simp: updateTrackingInKeap_def split: if_splits option.splits list.splits prod.splits)
  obtain r2 s2 where f2: "fetch crm (ContactUpdate (contact_id c)
      (tracking_payload (tracking_customFields st tn (iso_day now)))) s1 = (r2, s2)" by (metis surj_pair)
  from assms f1 c f2 have cid: "cid = contact_id c"
    and s': "s' = remove_awaiting_tag crm cid st (apply_shipped_tag crm cid st s2)"
    by (auto simp: updateTrackingInKeap_def split: if_splits)
  from apply_shipped_tag_trace[of crm cid st s2] obtain e1 where
    e1: "snd (apply_shipped_tag crm cid st s2) = snd s2 @ e1" "list_all is_tag_request e1" by blast
  from remove_awaiting_tag_trace[of crm cid st "apply_shipped_tag crm cid st s2"] obtain e2 where
    e2: "snd s' = snd (apply_shipped_tag crm cid st s2) @ e2" "list_all is_tag_request e2"
    unfolding s' by blast
  from fetch_trace[OF f1] fetch_trace[OF f2] e1 e2 cid show ?thesis by auto
qed

lemma updateTracking_notfound:
  assumes "truthy (KEAP_ACCESS_TOKEN cfg)"
      and "crm (ContactSearch mail []) w = (r, w')"
      and "ok r"
      and "body_contacts r = None \<or> body_contacts r = Some []"
  shows "updateTrackingInKeap crm cfg now mail tn st (w, tr)
          = (Inl (NoContactFound mail), (w', tr @ [ContactSearch mail []]))"
  using assms by (auto simp: updateTrackingInKeap_def fetch_def)

lemma fetch_not_429: "never_429 crm \<Longrightarrow> fetch crm req s = (r, s') \<Longrightarrow> status r \<noteq> 429"
  by (auto simp: never_429_def fetch_def split: prod.splits) (metis fst_conv)

lemma findKeapContact_trace_aux:
  assumes "findKeapContact crm mail s = Some y"
  shows "\<exists>n. snd (snd y) = snd s @ replicate n (ContactSearch mail ''custom_fields'')"
proof (rule findKeapContact.raw_induct
    [where P = "\<lambda>crm mail s y.
       \<exists>n. snd (snd y) = snd s @ replicate n (ContactSearch mail ''custom_fields'')", OF _ assms])
  fix f :: "'a provider \<Rightarrow> string \<Rightarrow> 'a run \<Rightarrow> (contact option \<times> 'a run) option"
    and crm mail s y
  assume IH: "\<And>crm mail s y. f crm mail s = Some y \<Longrightarrow>
      \<exists>n. snd (snd y) = snd s @ replicate n (ContactSearch mail ''custom_fields'')"
    and eq: "(case fetch crm (ContactSearch mail ''custom_fields'') s of
      (response, s1) \<Rightarrow>
        if \<not> ok response
        then if status response = 429 then f crm mail s1
             else Some (None, s1)
        else Some
              (case body_contacts response of None \<Rightarrow> None | Some [] \<Rightarrow> None
               | Some (c # cs) \<Rightarrow> Some c,
               s1)) = Some y"
  obtain r1 s1 where f1: "fetch crm (ContactSearch mail ''custom_fields'') s = (r1, s1)"
    by (metis surj_pair)
  note t1 = fetch_trace[OF f1]
  show "\<exists>n. snd (snd y) = snd s @ replicate n (ContactSearch mail ''custom_fields'')"
  proof (cases "\<not> ok r1 \<and> status r1 = 429")
    case True
    with eq f1 have "f crm mail s1 = Some y" by simp
    from IH[OF this] obtain n where "snd (snd y) = snd s1 @ replicate n (ContactSearch mail ''custom_fields'')"
      by blast
    with t1 have "snd (snd y) = snd s @ replicate (Suc n) (ContactSearch mail ''custom_fields'')"
      by (simp add: replicate_append_same)
    then show ?thesis by blast
  next
    case False
    with eq f1 have "snd y = s1" by (auto split: if_splits)
    with t1 have "snd (snd y) = snd s @ replicate 1 (ContactSearch mail ''custom_fields'')" by simp
    then show ?thesis by blast
  qed
qed

lemma findKeapContact_trace:
  "findKeapContact crm mail s = Some (r, s') \<Longrightarrow>
     \<exists>n. snd s' = snd s @ replicate n (ContactSearch mail ''custom_fields'')"
  by (drule findKeapContact_trace_aux) simp

lemma findKeapContact_writes:
  "findKeapContact crm mail s = Some (r, s') \<Longrightarrow> writes s' = writes s"
  by (auto dest!: findKeapContact_trace simp: writes_def)

lemma findKeapContact_first:
  assumes "fetch crm (ContactSearch mail ''custom_fields'') s = (r, s1)"
      and "status r \<noteq> 429"
  shows "findKeapContact crm mail s =
           Some (if ok r then (case body_contacts r of Some (c # cs) \<Rightarrow> Some c | _ \<Rightarrow> None) else None, s1)"
  using assms by (subst findKeapContact.simps) (auto split: option.splits list.splits)

lemma findKeapContact_terminates:
  "never_429 crm \<Longrightarrow> \<exists>y. findKeapContact crm mail s = Some y"
  by (metis findKeapContact_first fetch_not_429 surj_pair)


lemma getOrCreateTag_backfill_terminates:
  assumes "never_429 crm"
  shows "\<exists>y. getOrCreateTag_backfill crm now n s = Some y"
proof -
  obtain r1 s1 where f1: "fetch crm (TagSearch n) s = (r1, s1)" by (metis surj_pair)
  from fetch_not_429[OF assms f1] f1 show ?thesis
    by (subst getOrCreateTag_backfill.simps) (auto split: option.splits list.splits prod.splits)
qed

lemma applyTags_backfill_terminates:
  assumes "never_429 crm"
  shows "\<exists>s'. applyTags_backfill crm now c tags s = Some s'"
proof (induction tags arbitrary: s)
  case Nil
  show ?case by simp
next
  case (Cons t ts)
  from getOrCreateTag_backfill_terminates[OF assms] obtain r s1
    where g: "getOrCreateTag_backfill crm now t s = Some (r, s1)" by (metis surj_pair)
  show ?case
  proof (cases r)
    case (Inl e)
    with g Cons[of s1] show ?thesis by simp
  next
    case (Inr tagId)
    obtain r2 s2 where a: "applyTagToContact_backfill crm c tagId s1 = (r2, s2)" by (metis surj_pair)
    with g Inr Cons[of s2] show ?thesis by simp
  qed
qed

lemma syncToKeap_terminates:
  assumes "never_429 crm"
  shows "\<exists>y. syncToKeap crm now d consent s = Some y"
proof -
  from findKeapContact_terminates[OF assms] obtain c s1
    where f: "findKeapContact crm (email d) s = Some (c, s1)" by (metis surj_pair)
  show ?thesis
  proof (cases c)
    case None
    obtain r2 s2 where u: "fetch crm (ContactCreate (backfill_payload d consent)) s1 = (r2, s2)"
      by (metis surj_pair)
    from applyTags_backfill_terminates[OF assms] obtain s3
      where "applyTags_backfill crm now (body_id r2) (backfill_tags d) s2 = Some s3" by blast
    with f None u show ?thesis by (simp add: syncToKeap_def)
  next
    case (Some ec)
    obtain r2 s2 where u: "fetch crm (ContactUpdate (contact_id ec) (backfill_payload d consent)) s1 = (r2, s2)"
      by (metis surj_pair)
    from applyTags_backfill_terminates[OF assms] obtain s3
      where "applyTags_backfill crm now (contact_id ec) (backfill_tags d) s2 = Some s3" by blast
    with f Some u show ?thesis by (simp add: syncToKeap_def)
  qed
qed

lemma process_session_tally:
  assumes "process_session crm stripe now dryRun sid res s = Some (res', s')"
  shows "processed res' = processed res \<and> tally res' = Suc (tally res)"
  using assms
  by (auto simp: process_session_def tally_def
      split: sum.splits if_splits option.splits prod.splits)

lemma process_session_terminates:
  assumes "never_429 crm"
  shows "\<exists>y. process_session crm stripe now dryRun sid res s = Some y"
proof (cases "sessions_retrieve stripe sid")
  case (Inl m)
  then show ?thesis by (simp add: process_session_def)
next
  case (Inr se)
  from findKeapContact_terminates[OF assms] obtain c s1
    where f: "findKeapContact crm (the (customer_email se)) s = Some (c, s1)" by (metis surj_pair)
  from syncToKeap_terminates[OF assms] obtain r2 s2
    where y: "syncToKeap crm now (build_orderData se) (metadata_emailConsent se = Some ''true'') s1
              = Some (r2, s2)" by (metis surj_pair)
  from Inr f y show ?thesis
    by (cases r2) (auto simp: process_session_def)
qed

lemma process_session_dry:
  assumes "process_session crm stripe now True sid res s = Some (res', s')"
  shows "writes s' = writes s"
  using assms
  by (auto simp: process_session_def dest: findKeapContact_writes
      split: sum.splits if_splits option.splits prod.splits)

lemma backfill_loop_tally:
  "backfill_loop crm stripe now dryRun ids res s = Some (res', s') \<Longrightarrow>
     processed res' = processed res + length ids \<and> tally res' = tally res + length ids"
proof (induction ids arbitrary: res s)
  case Nil
  then show ?case by simp
next
  case (Cons sid ids)
  from Cons.prems obtain res1 s1 where
    p: "process_session crm stripe now dryRun sid (res\<lparr>processed := processed res + 1\<rparr>) s = Some (res1, s1)"
    and l: "backfill_loop crm stripe now dryRun ids res1 s1 = Some (res', s')"
    by (auto split: option.splits)
  from process_session_tally[OF p] Cons.IH[OF l] show ?case by (simp add: tally_def)
qed

lemma backfill_loop_terminates:
  assumes "never_429 crm"
  shows "\<exists>y. backfill_loop crm stripe now dryRun ids res s = Some y"
proof (induction ids arbitrary: res s)
  case Nil
  show ?case by simp
next
  case (Cons sid ids)
  from process_session_terminates[OF assms] obtain res1 s1 where
    "process_session crm stripe now dryRun sid (res\<lparr>processed := processed res + 1\<rparr>) s = Some (res1, s1)"
    by (metis surj_pair)
  with Cons[of res1 s1] show ?case by simp
qed

lemma backfill_loop_dry:
  "backfill_loop crm stripe now True ids res s = Some (res', s') \<Longrightarrow> writes s' = writes s"
proof (induction ids arbitrary: res s)
  case Nil
  then show ?case by simp
next
  case (Cons sid ids)
  from Cons.prems obtain res1 s1 where
    p: "process_session crm stripe now True sid (res\<lparr>processed := processed res + 1\<rparr>) s = Some (res1, s1)"
    and l: "backfill_loop crm stripe now True ids res1 s1 = Some (res', s')"
    by (auto split: option.splits)
  from process_session_dry[OF p] Cons.IH[OF l] show ?case by simp
qed

lemma tracking_of_contact_shipped:
  "cardsShipped (tracking_of_contact c) = (field_value 315 c \<noteq> [])"
  "bookShipped (tracking_of_contact c) = (field_value 319 c \<noteq> [])"
  by (auto simp: tracking_of_contact_def field_value_def has_content_def truthy_def Let_def
      find_field_def CARDS_TRACKING_ID_def BOOK_TRACKING_ID_def split: option.splits)

text \<open>
  C7. \<open>updateTrackingInKeap\<close> for an email the contact search answers with no contact
  throws "No contact found" after that one search: no contact is updated and no tag is
  created, applied or removed.
\<close>

theorem update_tracking_unknown_email:
  assumes "truthy (KEAP_ACCESS_TOKEN cfg)"
      and "crm (ContactSearch mail []) w = (r, w')"
      and "ok r"
      and "body_contacts r = None \<or> body_contacts r = Some []"
  shows "updateTrackingInKeap crm cfg now mail tn st (w, tr)
           = (Inl (NoContactFound mail), (w', tr @ [ContactSearch mail []]))
         \<and> writes (w', tr @ [ContactSearch mail []]) = writes (w, tr)"
  using assms by (auto simp: updateTrackingInKeap_def fetch_def writes_def)

theorem update_tracking_unknown_email_witness:
  "truthy (KEAP_ACCESS_TOKEN example_config)
   \<and> scripted (ContactSearch ''a@example.com'' []) [(reply 200)\<lparr>body_contacts := Some []\<rparr>]
       = ((reply 200)\<lparr>body_contacts := Some []\<rparr>, [])
   \<and> ok ((reply 200)\<lparr>body_contacts := Some []\<rparr>)
   \<and> updateTrackingInKeap scripted example_config example_now ''a@example.com'' ''1Z999'' ''cards''
        ([(reply 200)\<lparr>body_contacts := Some []\<rparr>], [])
       = (Inl (NoContactFound ''a@example.com''), ([], [ContactSearch ''a@example.com'' []]))
   \<and> writes (([] :: response list), [ContactSearch ''a@example.com'' []]) = []"
proof -
  have h1: "truthy (KEAP_ACCESS_TOKEN example_config)"
    by (simp add: truthy_def example_config_def)
  have h2: "scripted (ContactSearch ''a@example.com'' []) [(reply 200)\<lparr>body_contacts := Some []\<rparr>]
       = ((reply 200)\<lparr>body_contacts := Some []\<rparr>, [])"
    by (simp add: scripted_def)
  have h3: "ok ((reply 200)\<lparr>body_contacts := Some []\<rparr>)"
    by (simp add: ok_def reply_def)
  have h4: "body_contacts ((reply 200)\<lparr>body_contacts := Some []\<rparr>) = None
      \<or> body_contacts ((reply 200)\<lparr>body_contacts := Some []\<rparr>) = Some []"
    by simp
  from update_tracking_unknown_email[where crm = scripted and cfg = example_config
      and mail = "''a@example.com''" and w = "[(reply 200)\<lparr>body_contacts := Some []\<rparr>]"
      and r = "(reply 200)\<lparr>body_contacts := Some []\<rparr>" and w' = "[]"
      and now = example_now and tn = "''1Z999''" and st = "''cards''" and tr = "[]",
      OF h1 h2 h3 h4]
  show ?thesis using h1 h2 h3 by (simp add: writes_def)
qed

text \<open>
  C10. A successful \<open>updateTrackingInKeap\<close> makes one contact update, whose body has the
  \<open>custom_fields\<close> member only, with exactly the tracking number and the shipped date of
  the requested leg (315 and 317 for the cards, 319 and 321 for the book); every other
  request of the call is about tags.
\<close>

theorem tracking_update_fields:
  assumes "updateTrackingInKeap crm cfg now mail tn st s = (Inr cid, s')"
  shows "\<exists>ext. snd s' = snd s @
            [ContactSearch mail [],
             ContactUpdate cid
               \<lparr>given_name = None, family_name = None, email_addresses = None,
                addresses = None, opt_in_reason = None,
                custom_fields =
                  (if st = ''cards'' then
                     [\<lparr>cf_id = 315, content = Some tn\<rparr>, \<lparr>cf_id = 317, content = Some (iso_day now)\<rparr>]
                   else
                     [\<lparr>cf_id = 319, content = Some tn\<rparr>, \<lparr>cf_id = 321, content = Some (iso_day now)\<rparr>])\<rparr>]
            @ ext
          \<and> list_all is_tag_request ext"
  using updateTracking_success_trace[OF assms]
  unfolding tracking_payload_def tracking_customFields_def CARDS_TRACKING_NUMBER_def
      CARDS_SHIPPED_DATE_def BOOK_TRACKING_NUMBER_def BOOK_SHIPPED_DATE_def
  by (cases "st = ''cards''") auto

theorem tracking_update_fields_witness:
  "updateTrackingInKeap scripted example_config example_now ''a@example.com'' ''1Z999'' ''book''
        (tracking_script, [])
       = (Inr 7, ([], [ContactSearch ''a@example.com'' [],
             ContactUpdate 7
               \<lparr>given_name = None, family_name = None, email_addresses = None,
                addresses = None, opt_in_reason = None,
                custom_fields = [\<lparr>cf_id = 319, content = Some ''1Z999''\<rparr>, \<lparr>cf_id = 321, content = Some ''2026-01-05''\<rparr>]\<rparr>,
             TagSearch ''Destiny Cards - Book Shipped'', TagApply 7 3,
             TagSearch ''Destiny Cards - Pending Book Shipment'', TagRemove 7 4]))
   \<and> (\<exists>ext. [ContactSearch ''a@example.com'' [],
             ContactUpdate 7
               \<lparr>given_name = None, family_name = None, email_addresses = None,
                addresses = None, opt_in_reason = None,
                custom_fields = [\<lparr>cf_id = 319, content = Some ''1Z999''\<rparr>, \<lparr>cf_id = 321, content = Some ''2026-01-05''\<rparr>]\<rparr>,
             TagSearch ''Destiny Cards - Book Shipped'', TagApply 7 3,
             TagSearch ''Destiny Cards - Pending Book Shipment'', TagRemove 7 4]
          = [ContactSearch ''a@example.com'' [],
             ContactUpdate 7
               \<lparr>given_name = None, family_name = None, email_addresses = None,
                addresses = None, opt_in_reason = None,
                custom_fields = [\<lparr>cf_id = 319, content = Some ''1Z999''\<rparr>, \<lparr>cf_id = 321, content = Some (iso_day example_now)\<rparr>]\<rparr>] @ ext
          \<and> list_all is_tag_request ext)"
proof -
  have h: "updateTrackingInKeap scripted example_config example_now ''a@example.com'' ''1Z999'' ''book''
        (tracking_script, [])
       = (Inr 7, ([], [ContactSearch ''a@example.com'' [],
             ContactUpdate 7
               \<lparr>given_name = None, family_name = None, email_addresses = None,
                addresses = None, opt_in_reason = None,
                custom_fields = [\<lparr>cf_id = 319, content = Some ''1Z999''\<rparr>, \<lparr>cf_id = 321, content = Some ''2026-01-05''\<rparr>]\<rparr>,
             TagSearch ''Destiny Cards - Book Shipped'', TagApply 7 3,
             TagSearch ''Destiny Cards - Pending Book Shipment'', TagRemove 7 4]))"
    by code_simp
  from tracking_update_fields[OF h] show ?thesis using h by simp
qed

lemma hasExistingOrderData_iff: "hasExistingOrderData c = (field_value 311 c \<noteq> [])"
  by (auto simp: hasExistingOrderData_def field_value_def has_content_def truthy_def Let_def
      find_field_def split: option.splits)

lemma never_429_keap: "never_429 keap"
  unfolding never_429_def
proof (intro allI)
  fix req w
  show "status (fst (keap req w)) \<noteq> 429"
    by (cases req) (auto simp: reply_def split: option.splits)
qed

lemma backfill_terminates:
  assumes "never_429 crm"
  shows "\<exists>y. backfill crm stripe cfg now event s = Some y"
proof -
  have nn: "backfill_loop crm stripe now d ids empty_results s = None \<Longrightarrow> False" for d ids
    using backfill_loop_terminates[OF assms, of stripe now d ids empty_results s] by auto
  show ?thesis
    by (auto simp: backfill_def Let_def split: sum.splits option.splits dest: nn)
qed

lemma backfill_dry:
  assumes "backfill_dryRun (backfill_options event)"
      and "backfill crm stripe cfg now event s = Some (r, s')"
  shows "writes s' = writes s"
  using assms
  by (auto simp: backfill_def Let_def dest: backfill_loop_dry
      split: sum.splits option.splits if_splits)

lemma backfill_report:
  assumes "backfill crm stripe cfg now event s = Some (Inr (code, BackfillReport d m res), s')"
  shows "\<exists>ids. sessions_list stripe (backfill_limit (backfill_options event)) = Inr ids
           \<and> processed res = length ids \<and> tally res = length ids"
  using assms
  by (auto simp: backfill_def Let_def empty_results_def tally_def dest!: backfill_loop_tally
      split: sum.splits option.splits if_splits)

text \<open>
  When the guard's lookup of a session's customer email finds a contact whose
  payment-id field (311) is non-empty, the session is counted as skipped, recorded as
  "Already has order data", and nothing more is asked of the CRM for it: no sync.  This
  is so for either value of \<open>dryRun\<close>.
\<close>

lemma backfill_guard_skips:
  assumes "sessions_retrieve stripe summaryId = Inr se"
      and "customer_email se = Some mail" and "mail \<noteq> []"
      and "findKeapContact crm mail s = Some (Some c, s1)"
      and "field_value 311 c \<noteq> []"
  shows "process_session crm stripe now dryRun summaryId res s =
           Some (res\<lparr>skipped := skipped res + 1,
                     details := details res @ [SkippedHasOrderData (session_id se) mail]\<rparr>, s1)
         \<and> writes s1 = writes s"
  using assms findKeapContact_writes[OF assms(4)]
  by (simp add: process_session_def truthy_def hasExistingOrderData_iff)

lemma backfill_guard_skips_instance:
  "sessions_retrieve example_stripe ''cs_1'' = Inr example_session
   \<and> customer_email example_session = Some ''a@example.com''
   \<and> findKeapContact scripted ''a@example.com'' (found_script, [])
       = Some (Some example_contact,
               ([], [ContactSearch ''a@example.com'' ''custom_fields'',
                     ContactSearch ''a@example.com'' ''custom_fields'']))
   \<and> field_value 311 example_contact = ''pi_1''
   \<and> process_session scripted example_stripe example_now False ''cs_1'' empty_results
         (found_script, [])
       = Some (empty_results\<lparr>skipped := 1,
                 details := [SkippedHasOrderData ''cs_1'' ''a@example.com'']\<rparr>,
               ([], [ContactSearch ''a@example.com'' ''custom_fields'',
                     ContactSearch ''a@example.com'' ''custom_fields'']))
   \<and> process_session scripted example_stripe example_now True ''cs_1'' empty_results
         (found_script, [])
       = Some (empty_results\<lparr>skipped := 1,
                 details := [SkippedHasOrderData ''cs_1'' ''a@example.com'']\<rparr>,
               ([], [ContactSearch ''a@example.com'' ''custom_fields'',
                     ContactSearch ''a@example.com'' ''custom_fields'']))"
proof -
  have h1: "sessions_retrieve example_stripe ''cs_1'' = Inr example_session"
    by (simp add: example_stripe_def)
  have h2: "customer_email example_session = Some ''a@example.com''"
    by (simp add: example_session_def)
  have h3: "''a@example.com'' \<noteq> []" by simp
  have h4: "findKeapContact scripted ''a@example.com'' (found_script, [])
       = Some (Some example_contact,
               ([], [ContactSearch ''a@example.com'' ''custom_fields'',
                     ContactSearch ''a@example.com'' ''custom_fields'']))"
    by code_simp
  have h5: "field_value 311 example_contact = ''pi_1''" by code_simp
  have h5': "field_value 311 example_contact \<noteq> []" by (simp add: h5)
  note t = backfill_guard_skips[where crm = scripted, OF h1 h2 h3 h4 h5']
  from t[of example_now False empty_results] t[of example_now True empty_results] h1 h2 h4 h5
  show ?thesis by (simp add: empty_results_def example_session_def)
qed

text \<open>
  C4. Whenever the body's \<open>dryRun\<close> is anything but the literal false (also when it is
  left out), a backfill run that ends has made no write to the CRM: the writes among the
  requests are those made before the run.  The run ends whenever the CRM never answers
  429.
\<close>

theorem dry_run_no_writes:
  assumes "options_dryRun (backfill_options event) \<noteq> JBool False"
  shows "(\<forall>r s'. backfill crm stripe cfg now event s = Some (r, s') \<longrightarrow> writes s' = writes s)
         \<and> (never_429 crm \<longrightarrow> (\<exists>y. backfill crm stripe cfg now event s = Some y))"
  using assms backfill_dry[of event crm stripe cfg now s] backfill_terminates[of crm stripe cfg now event s]
  by (auto simp: backfill_dryRun_def)

theorem dry_run_no_writes_witness:
  "options_dryRun (backfill_options (example_event JUndefined)) = JUndefined
   \<and> map_option snd
         (backfill scripted example_stripe example_config example_now (example_event JUndefined)
           (unknown_script, [ContactCreate (tracking_payload [])]))
       = Some ([], [ContactCreate (tracking_payload []),
                    ContactSearch ''a@example.com'' ''custom_fields'',
                    ContactSearch ''a@example.com'' ''custom_fields''])
   \<and> writes (([] :: response list), [ContactCreate (tracking_payload []),
                     ContactSearch ''a@example.com'' ''custom_fields'',
                     ContactSearch ''a@example.com'' ''custom_fields''])
       = writes (unknown_script, [ContactCreate (tracking_payload [])])
   \<and> never_429 keap
   \<and> (\<exists>y. backfill keap example_stripe example_config example_now (example_event JUndefined)
          (empty_crm, []) = Some y)"
proof -
  have h1: "options_dryRun (backfill_options (example_event JUndefined)) = JUndefined"
    by (simp add: example_event_def options_dryRun_def)
  have h1': "options_dryRun (backfill_options (example_event JUndefined)) \<noteq> JBool False"
    by (simp add: h1)
  have h2: "map_option snd
         (backfill scripted example_stripe example_config example_now (example_event JUndefined)
           (unknown_script, [ContactCreate (tracking_payload [])]))
       = Some ([], [ContactCreate (tracking_payload []),
                    ContactSearch ''a@example.com'' ''custom_fields'',
                    ContactSearch ''a@example.com'' ''custom_fields''])"
    by code_simp
  then obtain r where h3:
    "backfill scripted example_stripe example_config example_now (example_event JUndefined)
           (unknown_script, [ContactCreate (tracking_payload [])])
       = Some (r, ([], [ContactCreate (tracking_payload []),
                    ContactSearch ''a@example.com'' ''custom_fields'',
                    ContactSearch ''a@example.com'' ''custom_fields'']))"
    by auto
  note t1 = dry_run_no_writes[where crm = scripted and stripe = example_stripe and cfg = example_config
      and now = example_now and s = "(unknown_script, [ContactCreate (tracking_payload [])])", OF h1']
  note t2 = dry_run_no_writes[where crm = keap and stripe = example_stripe and cfg = example_config
      and now = example_now and s = "(empty_crm, [])", OF h1']
  from t1 h3 have w: "writes (([] :: response list), [ContactCreate (tracking_payload []),
                     ContactSearch ''a@example.com'' ''custom_fields'',
                     ContactSearch ''a@example.com'' ''custom_fields''])
       = writes (unknown_script, [ContactCreate (tracking_payload [])])" by blast
  from t2 never_429_keap have e: "\<exists>y. backfill keap example_stripe example_config example_now
      (example_event JUndefined) (empty_crm, []) = Some y" by blast
  from h1 h2 w e never_429_keap show ?thesis by blast
qed

text \<open>
  C9. In every report, \<open>processed\<close> is the number of sessions listed, and equals
  \<open>synced + skipped\<close> plus the number of entries of \<open>errors\<close>: a session that fails
  goes to \<open>errors\<close> and the loop goes on.  The run ends whenever the CRM never answers
  429.
\<close>

theorem backfill_report_tally:
  "(\<forall>code d m res s'.
      backfill crm stripe cfg now event s = Some (Inr (code, BackfillReport d m res), s') \<longrightarrow>
        processed res = synced res + skipped res + length (errors res)
        \<and> (\<exists>ids. sessions_list stripe (backfill_limit (backfill_options event)) = Inr ids
              \<and> processed res = length ids))
   \<and> (never_429 crm \<longrightarrow> (\<exists>y. backfill crm stripe cfg now event s = Some y))"
  using backfill_report[of crm stripe cfg now event s] backfill_terminates[of crm stripe cfg now event s]
  by (fastforce simp: tally_def)

theorem backfill_report_tally_witness:
  "backfill scripted example_stripe example_config example_now (example_event (JBool False))
     (unknown_script @ [(reply 200)\<lparr>body_contacts := Some [example_contact]\<rparr>, reply 503], [])
   = Some (Inr (200, BackfillReport False ''Backfill complete. 0 orders synced to Keap.''
        \<lparr>processed = 3, synced = 0, skipped = 1,
           errors = [(''cs_1'', ''Contact update failed: 503''),
                     (''cs_gone'', ''No such checkout.session'')],
           details = [SkippedNoEmail ''cs_2'']\<rparr>),
      ([], [ContactSearch ''a@example.com'' ''custom_fields'',
            ContactSearch ''a@example.com'' ''custom_fields'',
            ContactSearch ''a@example.com'' ''custom_fields'',
            ContactUpdate 7 (backfill_payload (build_orderData example_session) True)]))
   \<and> (3::nat) = 0 + 1 + length [(''cs_1'', ''Contact update failed: 503''),
                     (''cs_gone'', ''No such checkout.session'')]
   \<and> sessions_list example_stripe (backfill_limit (backfill_options (example_event (JBool False))))
       = Inr [''cs_1'', ''cs_gone'', ''cs_2'']
   \<and> never_429 keap
   \<and> (\<exists>y. backfill keap example_stripe example_config example_now (example_event (JBool False))
          (empty_crm, []) = Some y)"
proof -
  have h: "backfill scripted example_stripe example_config example_now (example_event (JBool False))
     (unknown_script @ [(reply 200)\<lparr>body_contacts := Some [example_contact]\<rparr>, reply 503], [])
   = Some (Inr (200, BackfillReport False ''Backfill complete. 0 orders synced to Keap.''
        \<lparr>processed = 3, synced = 0, skipped = 1,
           errors = [(''cs_1'', ''Contact update failed: 503''),
                     (''cs_gone'', ''No such checkout.session'')],
           details = [SkippedNoEmail ''cs_2'']\<rparr>),
      ([], [ContactSearch ''a@example.com'' ''custom_fields'',
            ContactSearch ''a@example.com'' ''custom_fields'',
            ContactSearch ''a@example.com'' ''custom_fields'',
            ContactUpdate 7 (backfill_payload (build_orderData example_session) True)]))"
    by code_simp
  note t1 = backfill_report_tally[where crm = scripted and stripe = example_stripe
      and cfg = example_config and now = example_now and event = "example_event (JBool False)"
      and s = "(unknown_script @ [(reply 200)\<lparr>body_contacts := Some [example_contact]\<rparr>, reply 503], [])"]
  note t2 = backfill_report_tally[where crm = keap and stripe = example_stripe
      and cfg = example_config and now = example_now and event = "example_event (JBool False)"
      and s = "(empty_crm, [])"]
  from t1 h have a: "(3::nat) = 0 + 1 + length [(''cs_1'', ''Contact update failed: 503''),
                     (''cs_gone'', ''No such checkout.session'')]" by simp
  have b: "sessions_list example_stripe (backfill_limit (backfill_options (example_event (JBool False))))
       = Inr [''cs_1'', ''cs_gone'', ''cs_2'']" by (simp add: example_stripe_def)
  from t2 never_429_keap have e: "\<exists>y. backfill keap example_stripe example_config example_now
      (example_event (JBool False)) (empty_crm, []) = Some y" by blast
  from h a b e never_429_keap show ?thesis by blast
qed

lemma tag_searches_append [simp]: "tag_searches (xs @ ys) = tag_searches xs @ tag_searches ys"
  by (induction xs rule: tag_searches.induct) auto

lemma contact_writes_append [simp]: "contact_writes (xs @ ys) = contact_writes xs @ contact_writes ys"
  by (induction xs rule: contact_writes.induct) auto

lemma contact_writes_tags: "list_all is_tag_request ext \<Longrightarrow> contact_writes ext = []"
  by (induction ext rule: contact_writes.induct) auto

lemma getOrCreateTag_webhook_trace:
  "getOrCreateTag_webhook crm now n s = (r, s') \<Longrightarrow>
     \<exists>ext. snd s' = snd s @ ext \<and> list_all is_tag_request ext \<and> tag_searches ext = [n]"
  by (auto simp: getOrCreateTag_webhook_def split: prod.splits if_splits option.splits list.splits
      dest!: fetch_trace)

lemma applyTags_webhook_trace:
  "\<exists>ext. snd (applyTags_webhook crm now c tags s) = snd s @ ext
     \<and> list_all is_tag_request ext \<and> tag_searches ext = tags"
proof (induction tags arbitrary: s)
  case Nil
  show ?case by simp
next
  case (Cons t ts)
  obtain r s1 where g: "getOrCreateTag_webhook crm now t s = (r, s1)" by (metis surj_pair)
  from getOrCreateTag_webhook_trace[OF g] obtain e1 where
    e1: "snd s1 = snd s @ e1" "list_all is_tag_request e1" "tag_searches e1 = [t]" by blast
  show ?case
  proof (cases r)
    case (Inl e)
    from Cons[of s1] obtain e2 where
      e2: "snd (applyTags_webhook crm now c ts s1) = snd s1 @ e2" "list_all is_tag_request e2"
        "tag_searches e2 = ts" by blast
    have "snd (applyTags_webhook crm now c (t # ts) s) = snd s @ (e1 @ e2)"
      using g Inl e1 e2 by simp
    moreover have "list_all is_tag_request (e1 @ e2)" using e1 e2 by simp
    moreover have "tag_searches (e1 @ e2) = t # ts" using e1 e2 by simp
    ultimately show ?thesis by blast
  next
    case (Inr tagId)
    obtain r2 s2 where a: "applyTagToContact_webhook crm c tagId s1 = (r2, s2)" by (metis surj_pair)
    note t2 = applyTagToContact_webhook_trace[OF a]
    from Cons[of s2] obtain e2 where
      e2: "snd (applyTags_webhook crm now c ts s2) = snd s2 @ e2" "list_all is_tag_request e2"
        "tag_searches e2 = ts" by blast
    have "snd (applyTags_webhook crm now c (t # ts) s) = snd s @ (e1 @ TagApply c tagId # e2)"
      using g Inr a e1 e2 t2 by simp
    moreover have "list_all is_tag_request (e1 @ TagApply c tagId # e2)" using e1 e2 by simp
    moreover have "tag_searches (e1 @ TagApply c tagId # e2) = t # ts" using e1 e2 by simp
    ultimately show ?thesis by blast
  qed
qed

lemma integrate_existing_trace:
  assumes "truthy (KEAP_ACCESS_TOKEN cfg)"
      and "crm (ContactSearch (email d) []) w = (r, w1)" and "ok r"
      and "body_contacts r = Some (c # cs)"
      and "crm (ContactDetail (contact_id c)) w1 = (dr, w2)"
  shows "\<exists>ext. snd (snd (integrateWithKeap crm cfg now d (w, tr))) =
           tr @ [ContactSearch (email d) [], ContactDetail (contact_id c),
                 ContactUpdate (contact_id c) (webhook_payload d (webhook_customFields now d
                   (merged_history (if ok dr then Some (detail_fields dr) else None)
                      (thisOrderEntry now d))
                   (merged_total (if ok dr then Some (detail_fields dr) else None)
                      (amountPaid d))))] @ ext
         \<and> list_all is_tag_request ext
         \<and> (\<forall>cid. fst (integrateWithKeap crm cfg now d (w, tr)) = Inr cid \<longrightarrow>
                tag_searches ext = webhook_tags now True d)"
proof -
  let ?p = "webhook_payload d (webhook_customFields now d
                   (merged_history (if ok dr then Some (detail_fields dr) else None)
                      (thisOrderEntry now d))
                   (merged_total (if ok dr then Some (detail_fields dr) else None)
                      (amountPaid d)))"
  obtain ur w3 where u: "crm (ContactUpdate (contact_id c) ?p) w2 = (ur, w3)" by (metis surj_pair)
  let ?s3 = "(w3, tr @ [ContactSearch (email d) [], ContactDetail (contact_id c),
                 ContactUpdate (contact_id c) ?p])"
  have res: "integrateWithKeap crm cfg now d (w, tr) =
      (if \<not> ok ur then (Inl (ContactUpdateFailed (status ur)), ?s3)
       else (Inr (contact_id c),
             applyTags_webhook crm now (contact_id c) (webhook_tags now True d) ?s3))"
  proof (cases "ok dr")
    case True
    with assms u show ?thesis
      by (simp add: integrateWithKeap_def fetch_def detail_fields_def Let_def)
  next
    case False
    with assms u show ?thesis
      by (simp add: integrateWithKeap_def fetch_def detail_fields_def Let_def)
  qed
  show ?thesis
  proof (cases "ok ur")
    case False
    with res show ?thesis by simp
  next
    case True
    from applyTags_webhook_trace[of crm now "contact_id c" "webhook_tags now True d" ?s3]
    obtain ext where "snd (applyTags_webhook crm now (contact_id c) (webhook_tags now True d) ?s3)
        = snd ?s3 @ ext" "list_all is_tag_request ext" "tag_searches ext = webhook_tags now True d"
      by blast
    with res True show ?thesis by simp
  qed
qed

lemma integrate_new_trace:
  assumes "truthy (KEAP_ACCESS_TOKEN cfg)"
      and "crm (ContactSearch (email d) []) w = (r, w1)" and "ok r"
      and "body_contacts r = None \<or> body_contacts r = Some []"
  shows "\<exists>ext. snd (snd (integrateWithKeap crm cfg now d (w, tr))) =
           tr @ [ContactSearch (email d) [],
                 ContactCreate (webhook_payload d (webhook_customFields now d
                   (thisOrderEntry now d) (amountPaid d)))] @ ext
         \<and> list_all is_tag_request ext
         \<and> (\<forall>cid. fst (integrateWithKeap crm cfg now d (w, tr)) = Inr cid \<longrightarrow>
                tag_searches ext = webhook_tags now False d)"
proof -
  let ?p = "webhook_payload d (webhook_customFields now d (thisOrderEntry now d) (amountPaid d))"
  obtain ur w3 where u: "crm (ContactCreate ?p) w1 = (ur, w3)" by (metis surj_pair)
  let ?s3 = "(w3, tr @ [ContactSearch (email d) [], ContactCreate ?p])"
  have res: "integrateWithKeap crm cfg now d (w, tr) =
      (if \<not> ok ur then (Inl (ContactCreationFailed (status ur)), ?s3)
       else (Inr (body_id ur),
             applyTags_webhook crm now (body_id ur) (webhook_tags now False d) ?s3))"
    using assms u
    by (auto simp: integrateWithKeap_def fetch_def Let_def merged_history_def merged_total_def)
  show ?thesis
  proof (cases "ok ur")
    case False
    with res show ?thesis by simp
  next
    case True
    from applyTags_webhook_trace[of crm now "body_id ur" "webhook_tags now False d" ?s3]
    obtain ext where "snd (applyTags_webhook crm now (body_id ur) (webhook_tags now False d) ?s3)
        = snd ?s3 @ ext" "list_all is_tag_request ext" "tag_searches ext = webhook_tags now False d"
      by blast
    with res True show ?thesis by simp
  qed
qed

lemma payload_field_webhook:
  "payload_field 327 (webhook_payload d (webhook_customFields now d h t)) = Some (toFixed2 t)"
  "payload_field 325 (webhook_payload d (webhook_customFields now d h t)) = Some h"
  by (simp_all add: payload_field_def webhook_payload_def webhook_customFields_def find_field_def
      PRODUCT_ORDERED_def ORDER_SUMMARY_def PRODUCT_PRICE_def SHIPPING_ADDRESS_def PAYMENT_ID_def
      ORDER_DATE_def HAS_PREORDER_def ORDER_HISTORY_def TOTAL_SPENT_def)

lemma payload_field_backfill:
  "payload_field 327 (backfill_payload b consent) = Some (toFixed2 (amountPaid b))"
  "payload_field 325 (backfill_payload b consent) = Some (orderHistoryEntry b)"
  by (simp_all add: payload_field_def backfill_payload_def backfill_customFields_def find_field_def
      PRODUCT_ORDERED_def ORDER_SUMMARY_def PRODUCT_PRICE_def SHIPPING_ADDRESS_def PAYMENT_ID_def
      ORDER_DATE_def HAS_PREORDER_def ORDER_HISTORY_def TOTAL_SPENT_def)

lemma merged_total_existing: "merged_total (Some fs) paid = existing_total fs + paid"
proof -
  have "parseFloat [] = None" by (simp add: parseFloat_def)
  then show ?thesis
    by (auto simp: merged_total_def existing_total_def TOTAL_SPENT_def truthy_def or_zero_def
        split: option.splits)
qed

lemma tag_searches_replicate_search [simp]:
  "tag_searches (replicate n (ContactSearch m p)) = []"
  by (induction n) auto

lemma contact_writes_replicate_search [simp]:
  "contact_writes (replicate n (ContactSearch m p)) = []"
  by (induction n) auto

lemma getOrCreateTag_backfill_trace_aux:
  assumes "getOrCreateTag_backfill crm now n s = Some y"
  shows "\<exists>ext k. snd (snd y) = snd s @ ext \<and> list_all is_tag_request ext
           \<and> tag_searches ext = replicate (Suc k) n"
proof (rule getOrCreateTag_backfill.raw_induct
    [where P = "\<lambda>crm now n s y. \<exists>ext k. snd (snd y) = snd s @ ext \<and> list_all is_tag_request ext
           \<and> tag_searches ext = replicate (Suc k) n", OF _ assms])
  fix f :: "'a provider \<Rightarrow> jsdate \<Rightarrow> string \<Rightarrow> 'a run \<Rightarrow> ((error + nat) \<times> 'a run) option"
    and crm now n s y
  assume IH: "\<And>crm now n s y. f crm now n s = Some y \<Longrightarrow>
      \<exists>ext k. snd (snd y) = snd s @ ext \<and> list_all is_tag_request ext
           \<and> tag_searches ext = replicate (Suc k) n"
    and eq: "(case fetch crm (TagSearch n) s of
      (searchResponse, s1) \<Rightarrow>
        if \<not> ok searchResponse
        then if status searchResponse = 429
             then f crm now n s1
             else Some (Inl (TagSearchFailed (status searchResponse)), s1)
        else case body_tags searchResponse of
             None \<Rightarrow>
               case fetch crm
                     (TagCreate n
                       (''Auto-created for Destiny Cards - '' @
                        toISOString now))
                     s1 of
               (createResponse, s2) \<Rightarrow>
                 if \<not> ok createResponse
                 then Some
                       (Inl (TagCreationFailed (status createResponse)), s2)
                 else Some (Inr (body_id createResponse), s2)
             | Some [] \<Rightarrow>
                 case fetch crm
                       (TagCreate n
                         (''Auto-created for Destiny Cards - '' @
                          toISOString now))
                       s1 of
                 (createResponse, s2) \<Rightarrow>
                   if \<not> ok createResponse
                   then Some
                         (Inl (TagCreationFailed (status createResponse)),
                          s2)
                   else Some (Inr (body_id createResponse), s2)
             | Some (t # ts) \<Rightarrow> Some (Inr t, s1)) = Some y"
  obtain r1 s1 where f1: "fetch crm (TagSearch n) s = (r1, s1)" by (metis surj_pair)
  note t1 = fetch_trace[OF f1]
  obtain r2 s2 where f2: "fetch crm (TagCreate n
      (''Auto-created for Destiny Cards - '' @ toISOString now)) s1 = (r2, s2)" by (metis surj_pair)
  note t2 = fetch_trace[OF f2]
  show "\<exists>ext k. snd (snd y) = snd s @ ext \<and> list_all is_tag_request ext
           \<and> tag_searches ext = replicate (Suc k) n"
  proof (cases "\<not> ok r1 \<and> status r1 = 429")
    case True
    with eq f1 have "f crm now n s1 = Some y" by simp
    from IH[OF this] obtain ext k where e: "snd (snd y) = snd s1 @ ext" "list_all is_tag_request ext"
      "tag_searches ext = replicate (Suc k) n" by blast
    have "snd (snd y) = snd s @ (TagSearch n # ext)" using e t1 by simp
    moreover have "list_all is_tag_request (TagSearch n # ext)" using e by simp
    moreover have "tag_searches (TagSearch n # ext) = replicate (Suc (Suc k)) n" using e by simp
    ultimately show ?thesis by blast
  next
    case False
    with eq f1 f2 have "snd y = s1 \<or> snd y = s2"
      by (auto split: if_splits option.splits list.splits)
    then have "snd (snd y) = snd s @ [TagSearch n] \<or> snd (snd y) = snd s @ [TagSearch n,
        TagCreate n (''Auto-created for Destiny Cards - '' @ toISOString now)]"
      using t1 t2 by auto
    then show ?thesis
    proof
      assume "snd (snd y) = snd s @ [TagSearch n]"
      moreover have "list_all is_tag_request [TagSearch n]" by simp
      moreover have "tag_searches [TagSearch n] = replicate (Suc 0) n" by simp
      ultimately show ?thesis by blast
    next
      let ?e = "[TagSearch n, TagCreate n (''Auto-created for Destiny Cards - '' @ toISOString now)]"
      assume "snd (snd y) = snd s @ ?e"
      moreover have "list_all is_tag_request ?e" by simp
      moreover have "tag_searches ?e = replicate (Suc 0) n" by simp
      ultimately show ?thesis by blast
    qed
  qed
qed

lemma applyTagToContact_backfill_trace:
  "applyTagToContact_backfill crm c t s = (r, s') \<Longrightarrow> snd s' = snd s @ [TagApply c t]"
  by (auto simp: applyTagToContact_backfill_def split: prod.splits if_splits dest!: fetch_trace)

lemma applyTags_backfill_trace:
  "applyTags_backfill crm now c tags s = Some s' \<Longrightarrow>
     \<exists>ext. snd s' = snd s @ ext \<and> list_all is_tag_request ext
       \<and> set (tag_searches ext) = set tags"
proof (induction tags arbitrary: s)
  case Nil
  then show ?case by simp
next
  case (Cons t ts)
  from Cons.prems obtain r s1 where g: "getOrCreateTag_backfill crm now t s = Some (r, s1)"
    by (auto split: option.splits)
  from getOrCreateTag_backfill_trace_aux[OF g] obtain e1 k where
    e1: "snd s1 = snd s @ e1" "list_all is_tag_request e1" "tag_searches e1 = replicate (Suc k) t"
    by auto
  have st: "set (tag_searches e1) = {t}" unfolding e1(3) by (simp only: set_replicate)
  show ?case
  proof (cases r)
    case (Inl e)
    with Cons.prems g have "applyTags_backfill crm now c ts s1 = Some s'" by simp
    from Cons.IH[OF this] obtain e2 where
      e2: "snd s' = snd s1 @ e2" "list_all is_tag_request e2" "set (tag_searches e2) = set ts"
      by blast
    have "snd s' = snd s @ (e1 @ e2)" using e1 e2 by simp
    moreover have "list_all is_tag_request (e1 @ e2)" using e1 e2 by simp
    moreover have "set (tag_searches (e1 @ e2)) = set (t # ts)" using st e2 by simp
    ultimately show ?thesis by blast
  next
    case (Inr tagId)
    obtain r2 s2 where a: "applyTagToContact_backfill crm c tagId s1 = (r2, s2)" by (metis surj_pair)
    note t2 = applyTagToContact_backfill_trace[OF a]
    from Cons.prems g Inr a have "applyTags_backfill crm now c ts s2 = Some s'" by simp
    from Cons.IH[OF this] obtain e2 where
      e2: "snd s' = snd s2 @ e2" "list_all is_tag_request e2" "set (tag_searches e2) = set ts"
      by blast
    have "snd s' = snd s @ (e1 @ TagApply c tagId # e2)" using e1 e2 t2 by simp
    moreover have "list_all is_tag_request (e1 @ TagApply c tagId # e2)" using e1 e2 by simp
    moreover have "set (tag_searches (e1 @ TagApply c tagId # e2)) = set (t # ts)"
      using st e2 by simp
    ultimately show ?thesis by blast
  qed
qed

lemma syncToKeap_trace:
  assumes "syncToKeap crm now b consent s = Some (res, s')"
  shows "contact_writes (snd s') = contact_writes (snd s) @ [backfill_payload b consent]
         \<and> (\<forall>cid. res = Inr cid \<longrightarrow>
               set (tag_searches (snd s')) = set (tag_searches (snd s)) \<union> set (backfill_tags b))"
proof -
  from assms obtain ec s1 where f: "findKeapContact crm (email b) s = Some (ec, s1)"
    by (auto simp: syncToKeap_def split: option.splits)
  from findKeapContact_trace[OF f] obtain n where
    t1: "snd s1 = snd s @ replicate n (ContactSearch (email b) ''custom_fields'')" by blast
  let ?req = "case ec of Some c \<Rightarrow> ContactUpdate (contact_id c) (backfill_payload b consent)
                | None \<Rightarrow> ContactCreate (backfill_payload b consent)"
  obtain r2 s2 where u: "fetch crm ?req s1 = (r2, s2)" by (metis surj_pair)
  note t2 = fetch_trace[OF u]
  have cw2: "contact_writes (snd s2) = contact_writes (snd s) @ [backfill_payload b consent]"
    using t1 t2 by (cases ec) auto
  have ts2: "tag_searches (snd s2) = tag_searches (snd s)"
    using t1 t2 by (cases ec) auto
  show ?thesis
  proof (cases "ok r2")
    case False
    with assms f u have "s' = s2 \<and> (\<forall>cid. res \<noteq> Inr cid)"
      by (cases ec) (auto simp: syncToKeap_def)
    with cw2 show ?thesis by simp
  next
    case True
    let ?cid = "case ec of Some c \<Rightarrow> contact_id c | None \<Rightarrow> body_id r2"
    from assms f u True have a: "applyTags_backfill crm now ?cid (backfill_tags b) s2 = Some s'"
      by (cases ec) (auto simp: syncToKeap_def split: option.splits)
    from applyTags_backfill_trace[OF a] obtain ext where
      e: "snd s' = snd s2 @ ext" "list_all is_tag_request ext"
         "set (tag_searches ext) = set (backfill_tags b)" by blast
    from e cw2 ts2 show ?thesis by (simp add: contact_writes_tags)
  qed
qed

lemma find_field_set_field:
  "find_field i (set_field f fs) = (if cf_id f = i then Some f else find_field i fs)"
  by (induction fs) (auto simp: find_field_def)

lemma find_field_patch_history:
  "find_field 325 (patch_fields (webhook_customFields now d h t) fs)
     = Some \<lparr>cf_id = 325, content = Some h\<rparr>"
  by (simp add: patch_fields_def webhook_customFields_def find_field_set_field
      PRODUCT_ORDERED_def ORDER_SUMMARY_def PRODUCT_PRICE_def SHIPPING_ADDRESS_def PAYMENT_ID_def
      ORDER_DATE_def HAS_PREORDER_def ORDER_HISTORY_def TOTAL_SPENT_def)

lemma find_field_patch_total:
  "find_field 327 (patch_fields (webhook_customFields now d h t) fs)
     = Some \<lparr>cf_id = 327, content = Some (toFixed2 t)\<rparr>"
  by (simp add: patch_fields_def webhook_customFields_def find_field_set_field
      PRODUCT_ORDERED_def ORDER_SUMMARY_def PRODUCT_PRICE_def SHIPPING_ADDRESS_def PAYMENT_ID_def
      ORDER_DATE_def HAS_PREORDER_def ORDER_HISTORY_def TOTAL_SPENT_def)

text \<open>On the reference provider the tag calls leave the contacts and their fields alone.\<close>

lemma keap_tag_frame:
  assumes "is_tag_request req"
  shows "by_email (snd (keap req st)) = by_email st
       \<and> stored_fields (snd (keap req st)) = stored_fields st"
  using assms by (cases req) (auto split: option.splits)

lemma fetch_keap_tag_frame:
  assumes "is_tag_request req"
  shows "by_email (fst (snd (fetch keap req s))) = by_email (fst s)
       \<and> stored_fields (fst (snd (fetch keap req s))) = stored_fields (fst s)"
  using keap_tag_frame[OF assms, of "fst s"]
  by (cases s) (auto simp: fetch_def split: prod.splits)

lemma getOrCreateTag_webhook_keap_frame:
  "by_email (fst (snd (getOrCreateTag_webhook keap now n s))) = by_email (fst s)
   \<and> stored_fields (fst (snd (getOrCreateTag_webhook keap now n s))) = stored_fields (fst s)"
proof -
  obtain r1 s1 where f1: "fetch keap (TagSearch n) s = (r1, s1)" by (metis surj_pair)
  obtain r2 s2 where f2: "fetch keap (TagCreate n
      (''Auto-created for Destiny Cards - '' @ toISOString now)) s1 = (r2, s2)" by (metis surj_pair)
  from fetch_keap_tag_frame[of "TagSearch n" s] f1
  have a: "by_email (fst s1) = by_email (fst s) \<and> stored_fields (fst s1) = stored_fields (fst s)"
    by simp
  from fetch_keap_tag_frame[of "TagCreate n (''Auto-created for Destiny Cards - '' @ toISOString now)" s1] f2
  have b: "by_email (fst s2) = by_email (fst s1) \<and> stored_fields (fst s2) = stored_fields (fst s1)"
    by simp
  from f1 f2 a b show ?thesis
    by (auto simp: getOrCreateTag_webhook_def split: option.splits list.splits)
qed

lemma applyTags_webhook_keap_frame:
  "by_email (fst (applyTags_webhook keap now c tags s)) = by_email (fst s)
   \<and> stored_fields (fst (applyTags_webhook keap now c tags s)) = stored_fields (fst s)"
proof (induction tags arbitrary: s)
  case Nil
  show ?case by simp
next
  case (Cons t ts)
  obtain r s1 where g: "getOrCreateTag_webhook keap now t s = (r, s1)" by (metis surj_pair)
  from getOrCreateTag_webhook_keap_frame[of now t s] g
  have a: "by_email (fst s1) = by_email (fst s) \<and> stored_fields (fst s1) = stored_fields (fst s)"
    by simp
  show ?case
  proof (cases r)
    case (Inl e)
    with g a Cons[of s1] show ?thesis by simp
  next
    case (Inr tagId)
    obtain r2 s2 where ap: "applyTagToContact_webhook keap c tagId s1 = (r2, s2)" by (metis surj_pair)
    then have "s2 = snd (fetch keap (TagApply c tagId) s1)"
      by (auto simp: applyTagToContact_webhook_def split: prod.splits if_splits)
    with fetch_keap_tag_frame[of "TagApply c tagId" s1]
    have b: "by_email (fst s2) = by_email (fst s1) \<and> stored_fields (fst s2) = stored_fields (fst s1)"
      by simp
    from g Inr ap a b Cons[of s2] show ?thesis by simp
  qed
qed

lemma keap_sync_new:
  assumes "truthy (KEAP_ACCESS_TOKEN cfg)" and "by_email st (email d) = None"
  shows "by_email (fst (snd (integrateWithKeap keap cfg now d (st, tr)))) (email d) = Some (next_id st)
       \<and> stored_fields (fst (snd (integrateWithKeap keap cfg now d (st, tr)))) (next_id st)
           = Some (patch_fields (webhook_customFields now d (thisOrderEntry now d) (amountPaid d)) [])"
proof -
  let ?p = "webhook_payload d (webhook_customFields now d (thisOrderEntry now d) (amountPaid d))"
  let ?st1 = "snd (keap (ContactCreate ?p) st)"
  have "snd (integrateWithKeap keap cfg now d (st, tr))
      = applyTags_webhook keap now (next_id st) (webhook_tags now False d)
          (?st1, tr @ [ContactSearch (email d) [], ContactCreate ?p])"
    using assms
    by (simp add: integrateWithKeap_def fetch_def reply_def ok_def merged_history_def
        merged_total_def Let_def)
  then obtain tr' where e: "snd (integrateWithKeap keap cfg now d (st, tr))
      = applyTags_webhook keap now (next_id st) (webhook_tags now False d) (?st1, tr')" by blast
  have "by_email ?st1 (email d) = Some (next_id st)"
    by (simp add: webhook_payload_def)
  moreover have "stored_fields ?st1 (next_id st)
      = Some (patch_fields (webhook_customFields now d (thisOrderEntry now d) (amountPaid d)) [])"
    by (simp add: webhook_payload_def)
  ultimately show ?thesis
    using applyTags_webhook_keap_frame[of now "next_id st" "webhook_tags now False d" "(?st1, tr')"]
    unfolding e by simp
qed

lemma keap_sync_existing:
  assumes "truthy (KEAP_ACCESS_TOKEN cfg)" and "by_email st (email d) = Some c"
      and "stored_fields st c = Some fs"
  shows "by_email (fst (snd (integrateWithKeap keap cfg now d (st, tr)))) (email d) = Some c
       \<and> stored_fields (fst (snd (integrateWithKeap keap cfg now d (st, tr)))) c
           = Some (patch_fields (webhook_customFields now d
                     (merged_history (Some fs) (thisOrderEntry now d))
                     (merged_total (Some fs) (amountPaid d))) fs)"
proof -
  let ?p = "webhook_payload d (webhook_customFields now d
                     (merged_history (Some fs) (thisOrderEntry now d))
                     (merged_total (Some fs) (amountPaid d)))"
  let ?st1 = "snd (keap (ContactUpdate c ?p) st)"
  have "snd (integrateWithKeap keap cfg now d (st, tr))
      = applyTags_webhook keap now c (webhook_tags now True d)
          (?st1, tr @ [ContactSearch (email d) [], ContactDetail c, ContactUpdate c ?p])"
    using assms
    by (simp add: integrateWithKeap_def fetch_def reply_def ok_def Let_def)
  then obtain tr' where e: "snd (integrateWithKeap keap cfg now d (st, tr))
      = applyTags_webhook keap now c (webhook_tags now True d) (?st1, tr')" by blast
  have "by_email ?st1 (email d) = Some c"
    using assms by simp
  moreover have "stored_fields ?st1 c = Some (patch_fields (webhook_customFields now d
                     (merged_history (Some fs) (thisOrderEntry now d))
                     (merged_total (Some fs) (amountPaid d))) fs)"
    using assms by (simp add: webhook_payload_def)
  ultimately show ?thesis
    using applyTags_webhook_keap_frame[of now c "webhook_tags now True d" "(?st1, tr')"]
    unfolding e by simp
qed

lemma join_Cons: "zs \<noteq> [] \<Longrightarrow> join sep (y # zs) = y @ sep @ join sep zs"
  by (cases zs) auto

lemma join_snoc2: "join sep (ys @ [a @ sep @ b]) = join sep (ys @ [a, b])"
  by (induction ys) (auto simp: join_Cons)

lemma foldl_join:
  "foldl (\<lambda>h x. e x @ sep @ h) h xs = join sep (map e (rev xs) @ [h])"
proof (induction xs arbitrary: h)
  case Nil
  show ?case by simp
next
  case (Cons x xs)
  have "foldl (\<lambda>h x. e x @ sep @ h) h (x # xs) = join sep (map e (rev xs) @ [e x @ sep @ h])"
    by (simp add: Cons)
  also have "\<dots> = join sep (map e (rev xs) @ [e x, h])" by (rule join_snoc2)
  finally show ?case by simp
qed

lemma thisOrderEntry_nonempty: "thisOrderEntry now d \<noteq> []"
  by (simp add: thisOrderEntry_def)

lemma toFixed2_nonempty: "toFixed2 x \<noteq> []"
  by (simp add: toFixed2_def Let_def)

lemma merged_history_existing:
  assumes "find_field 325 fs = Some \<lparr>cf_id = 325, content = Some h\<rparr>" and "h \<noteq> []"
  shows "merged_history (Some fs) entry = entry @ history_separator @ h"
  using assms by (simp add: merged_history_def ORDER_HISTORY_def truthy_def)

lemma merged_total_cents:
  assumes "find_field 327 fs = Some \<lparr>cf_id = 327, content = Some (toFixed2 t)\<rparr>" and "is_cents t"
  shows "merged_total (Some fs) paid = t + paid"
  using assms
  by (simp add: merged_total_def TOTAL_SPENT_def truthy_def toFixed2_nonempty
      parseFloat_toFixed2 or_zero_def)

lemma keap_syncs_invariant:
  assumes tok: "truthy (KEAP_ACCESS_TOKEN cfg)"
      and ods: "\<forall>x \<in> set ods. email (snd x) = mail \<and> is_cents (amountPaid (snd x))"
      and c: "by_email st mail = Some c" and fs: "stored_fields st c = Some fs"
      and h: "find_field 325 fs = Some \<lparr>cf_id = 325, content = Some h\<rparr>" "h \<noteq> []"
      and t: "find_field 327 fs = Some \<lparr>cf_id = 327, content = Some (toFixed2 t)\<rparr>" "is_cents t"
  shows "stored (fst (webhook_syncs keap cfg ods (st, tr))) mail 325
           = Some (foldl (\<lambda>h x. thisOrderEntry (fst x) (snd x) @ history_separator @ h) h ods)
       \<and> stored (fst (webhook_syncs keap cfg ods (st, tr))) mail 327
           = Some (toFixed2 (t + sum_list (map (\<lambda>x. amountPaid (snd x)) ods)))"
  using ods c fs h t
proof (induction ods arbitrary: st tr fs h t)
  case Nil
  then show ?case by (simp add: stored_def)
next
  case (Cons x rest)
  let ?d = "snd x" and ?now = "fst x"
  from Cons.prems(1) have em: "email ?d = mail" and cents: "is_cents (amountPaid ?d)" by auto
  obtain st1 tr1 where s1: "snd (integrateWithKeap keap cfg ?now ?d (st, tr)) = (st1, tr1)"
    by (metis surj_pair)
  let ?fs' = "patch_fields (webhook_customFields ?now ?d
                (merged_history (Some fs) (thisOrderEntry ?now ?d))
                (merged_total (Some fs) (amountPaid ?d))) fs"
  from keap_sync_existing[OF tok, of st ?d c fs ?now tr] Cons.prems(2,3) em s1
  have c1: "by_email st1 mail = Some c" and fs1: "stored_fields st1 c = Some ?fs'" by auto
  have mh: "merged_history (Some fs) (thisOrderEntry ?now ?d)
      = thisOrderEntry ?now ?d @ history_separator @ h"
    by (rule merged_history_existing[OF Cons.prems(4,5)])
  have mt: "merged_total (Some fs) (amountPaid ?d) = t + amountPaid ?d"
    by (rule merged_total_cents[OF Cons.prems(6,7)])
  have h1: "find_field 325 ?fs'
      = Some \<lparr>cf_id = 325, content = Some (thisOrderEntry ?now ?d @ history_separator @ h)\<rparr>"
    by (simp add: find_field_patch_history mh)
  have t1: "find_field 327 ?fs' = Some \<lparr>cf_id = 327, content = Some (toFixed2 (t + amountPaid ?d))\<rparr>"
    by (simp add: find_field_patch_total mt)
  have ne: "thisOrderEntry ?now ?d @ history_separator @ h \<noteq> []"
    by (simp add: thisOrderEntry_nonempty)
  have ct: "is_cents (t + amountPaid ?d)" by (rule is_cents_add[OF Cons.prems(7) cents])
  from Cons.prems(1) have rest: "\<forall>x \<in> set rest. email (snd x) = mail \<and> is_cents (amountPaid (snd x))"
    by simp
  from Cons.IH[OF rest c1 fs1 h1 ne t1 ct, of tr1] s1
  show ?case by (simp add: add.assoc)
qed

lemma keap_syncs_from_new:
  assumes tok: "truthy (KEAP_ACCESS_TOKEN cfg)"
      and ods: "\<forall>x \<in> set ods. email (snd x) = mail \<and> is_cents (amountPaid (snd x))"
      and new: "by_email st mail = None" and ne: "ods \<noteq> []"
  shows "stored (fst (webhook_syncs keap cfg ods (st, tr))) mail 325
           = Some (join history_separator (map (\<lambda>x. thisOrderEntry (fst x) (snd x)) (rev ods)))
       \<and> stored (fst (webhook_syncs keap cfg ods (st, tr))) mail 327
           = Some (toFixed2 (sum_list (map (\<lambda>x. amountPaid (snd x)) ods)))"
proof -
  from ne obtain x rest where xr: "ods = x # rest" by (cases ods) auto
  let ?d = "snd x" and ?now = "fst x"
  from ods xr have em: "email ?d = mail" and cents: "is_cents (amountPaid ?d)" by auto
  obtain st1 tr1 where s1: "snd (integrateWithKeap keap cfg ?now ?d (st, tr)) = (st1, tr1)"
    by (metis surj_pair)
  let ?fs' = "patch_fields (webhook_customFields ?now ?d (thisOrderEntry ?now ?d) (amountPaid ?d)) []"
  from keap_sync_new[OF tok, of st ?d ?now tr] new em s1
  have c1: "by_email st1 mail = Some (next_id st)" and fs1: "stored_fields st1 (next_id st) = Some ?fs'"
    by auto
  have h1: "find_field 325 ?fs' = Some \<lparr>cf_id = 325, content = Some (thisOrderEntry ?now ?d)\<rparr>"
    by (simp add: find_field_patch_history)
  have t1: "find_field 327 ?fs' = Some \<lparr>cf_id = 327, content = Some (toFixed2 (amountPaid ?d))\<rparr>"
    by (simp add: find_field_patch_total)
  from ods xr have rest: "\<forall>x \<in> set rest. email (snd x) = mail \<and> is_cents (amountPaid (snd x))"
    by simp
  from keap_syncs_invariant[OF tok rest c1 fs1 h1 thisOrderEntry_nonempty t1 cents, of tr1] s1 xr
  show ?thesis by (simp add: foldl_join)
qed

lemma findKeapContact_swallows:
  assumes "crm (ContactSearch mail ''custom_fields'') w = (r, w')" "\<not> ok r" "status r \<noteq> 429"
  shows "findKeapContact crm mail (w, tr) = Some (None, (w', tr @ [ContactSearch mail ''custom_fields'']))"
  using assms by (subst findKeapContact.simps) (simp add: fetch_def)

lemma getOrCreateTag_backfill_fails:
  assumes "crm (TagSearch n) w = (r, w')" "\<not> ok r" "status r \<noteq> 429"
  shows "getOrCreateTag_backfill crm now n (w, tr)
           = Some (Inl (TagSearchFailed (status r)), (w', tr @ [TagSearch n]))"
  using assms by (subst getOrCreateTag_backfill.simps) (simp add: fetch_def)

lemma product_tags_concat:
  "product_tags items =
     concat (map (\<lambda>item.
       if productId item = ''cards-only'' then [''Destiny Cards - Cards Only'']
       else if productId item = ''cards-book-bundle'' then [''Destiny Cards - Cards + Book Bundle'']
       else []) items)"
  by (induction items) auto

text \<open>
  The tags a sync looks up.  A webhook sync that gets past its contact write looks up, in
  this order: the three base tags; "Repeat Customer" when the contact search found a
  contact; one tag per cart item whose \<open>productId\<close> is \<open>cards-only\<close> or
  \<open>cards-book-bundle\<close> (no tag for any other id); the two pre-order tags when
  \<open>hasPreOrder\<close>; and the month and year of the clock.  A backfill sync
  (\<open>syncToKeap\<close>) looks up the base tags, the product tags, the pre-order tags and the
  month and year of the order's \<open>created\<close> date.
\<close>

lemma sync_tag_searches:
  "(truthy (KEAP_ACCESS_TOKEN cfg) \<and> crm (ContactSearch (email d) []) w = (r, w1) \<and> ok r
      \<and> integrateWithKeap crm cfg now d (w, tr) = (Inr cid, s') \<longrightarrow>
      tag_searches (snd s') =
        tag_searches tr
        @ [''Destiny Cards - Order Received'', ''Destiny Cards - 1st Edition'',
           ''Destiny Cards - Awaiting Shipment'']
        @ (case body_contacts r of
             Some (c # cs) \<Rightarrow> [''Destiny Cards - Repeat Customer'']
           | _ \<Rightarrow> [])
        @ product_tags (cartItems d)
        @ (if hasPreOrder d then [''Destiny Cards - Pre-Order (Book Ships March 2026)'',
                                  ''Destiny Cards - Pending Book Shipment''] else [])
        @ [''Destiny Cards - '' @ month_year now])
   \<and> (syncToKeap crm now b consent s = Some (Inr cid, s2) \<longrightarrow>
      set (tag_searches (snd s2)) =
        set (tag_searches (snd s))
        \<union> set ([''Destiny Cards - Order Received'', ''Destiny Cards - 1st Edition'',
                 ''Destiny Cards - Awaiting Shipment'']
               @ product_tags (cartItems b)
               @ (if hasPreOrder b then [''Destiny Cards - Pre-Order (Book Ships March 2026)'',
                                         ''Destiny Cards - Pending Book Shipment''] else [])
               @ [''Destiny Cards - '' @ month_year (created b)]))
   \<and> product_tags items =
       concat (map (\<lambda>item.
         if productId item = ''cards-only'' then [''Destiny Cards - Cards Only'']
         else if productId item = ''cards-book-bundle'' then [''Destiny Cards - Cards + Book Bundle'']
         else []) items)"
proof (intro conjI impI)
  assume a: "truthy (KEAP_ACCESS_TOKEN cfg) \<and> crm (ContactSearch (email d) []) w = (r, w1) \<and> ok r
      \<and> integrateWithKeap crm cfg now d (w, tr) = (Inr cid, s')"
  show "tag_searches (snd s') =
        tag_searches tr
        @ [''Destiny Cards - Order Received'', ''Destiny Cards - 1st Edition'',
           ''Destiny Cards - Awaiting Shipment'']
        @ (case body_contacts r of
             Some (c # cs) \<Rightarrow> [''Destiny Cards - Repeat Customer'']
           | _ \<Rightarrow> [])
        @ product_tags (cartItems d)
        @ (if hasPreOrder d then [''Destiny Cards - Pre-Order (Book Ships March 2026)'',
                                  ''Destiny Cards - Pending Book Shipment''] else [])
        @ [''Destiny Cards - '' @ month_year now]"
  proof (cases "\<exists>c cs. body_contacts r = Some (c # cs)")
    case True
    then obtain c cs where c: "body_contacts r = Some (c # cs)" by blast
    obtain dr w2 where f2: "crm (ContactDetail (contact_id c)) w1 = (dr, w2)" by (metis surj_pair)
    from a have tok: "truthy (KEAP_ACCESS_TOKEN cfg)"
      and f1: "crm (ContactSearch (email d) []) w = (r, w1)" and okr: "ok r" by auto
    from integrate_existing_trace[where crm = crm, OF tok f1 okr c f2, of now tr] a
    obtain ext where "snd s' = tr @ [ContactSearch (email d) [], ContactDetail (contact_id c),
                 ContactUpdate (contact_id c) (webhook_payload d (webhook_customFields now d
                   (merged_history (if ok dr then Some (detail_fields dr) else None)
                      (thisOrderEntry now d))
                   (merged_total (if ok dr then Some (detail_fields dr) else None)
                      (amountPaid d))))] @ ext"
      "tag_searches ext = webhook_tags now True d" by auto
    with c show ?thesis
      by (simp add: webhook_tags_def base_tags_def preorder_tags_def)
  next
    case False
    have n: "body_contacts r = None \<or> body_contacts r = Some []"
    proof (cases "body_contacts r")
      case None
      then show ?thesis by simp
    next
      case (Some a)
      with False show ?thesis by (cases a) auto
    qed
    from a have tok: "truthy (KEAP_ACCESS_TOKEN cfg)"
      and f1: "crm (ContactSearch (email d) []) w = (r, w1)" and okr: "ok r" by auto
    from integrate_new_trace[where crm = crm, OF tok f1 okr n, of now tr] a
    obtain ext where "snd s' = tr @ [ContactSearch (email d) [],
                 ContactCreate (webhook_payload d (webhook_customFields now d
                   (thisOrderEntry now d) (amountPaid d)))] @ ext"
      "tag_searches ext = webhook_tags now False d" by auto
    with n show ?thesis
      by (auto simp: webhook_tags_def base_tags_def preorder_tags_def)
  qed
next
  assume "syncToKeap crm now b consent s = Some (Inr cid, s2)"
  from syncToKeap_trace[OF this]
  show "set (tag_searches (snd s2)) =
        set (tag_searches (snd s))
        \<union> set ([''Destiny Cards - Order Received'', ''Destiny Cards - 1st Edition'',
                 ''Destiny Cards - Awaiting Shipment'']
               @ product_tags (cartItems b)
               @ (if hasPreOrder b then [''Destiny Cards - Pre-Order (Book Ships March 2026)'',
                                         ''Destiny Cards - Pending Book Shipment''] else [])
               @ [''Destiny Cards - '' @ month_year (created b)])"
    by (simp add: backfill_tags_def base_tags_def preorder_tags_def)
next
  show "product_tags items =
       concat (map (\<lambda>item.
         if productId item = ''cards-only'' then [''Destiny Cards - Cards Only'']
         else if productId item = ''cards-book-bundle'' then [''Destiny Cards - Cards + Book Bundle'']
         else []) items)"
    by (rule product_tags_concat)
qed

text \<open>
  C5. In get-orders.js and in check-fulfillment.js the shipped flags of an order are read
  off the first contact the CRM search returns for the customer's email: a leg counts as
  shipped exactly when that contact's tracking-number field (315 for the cards, 319 for the
  book) is non-empty.  The overall status get-orders.js reports is a function of
  \<open>hasPreOrder\<close> and the two flags: pending when the cards have not shipped; otherwise,
  with a pre-order, partial until the book has shipped too and fulfilled then; without one,
  fulfilled.
\<close>

theorem fulfillment_status_derivation:
  "fulfillmentStatus preorder cards book =
     (if \<not> cards then pending
      else if preorder then (if book then fulfilled else partial)
      else fulfilled)
   \<and> (truthy (KEAP_ACCESS_TOKEN cfg) \<and> customer = Some mail \<and> mail \<noteq> []
        \<and> crm (ContactSearch mail ''custom_fields,tag_ids'') w = (r, w1) \<and> ok r
        \<and> body_contacts r = Some (c # cs) \<longrightarrow>
        getKeapFulfillmentStatus crm mail (w, tr)
          = (Inr (tracking_of_contact c), (w1, tr @ [ContactSearch mail ''custom_fields,tag_ids'']))
        \<and> fst (order_fulfillment crm cfg customer preorder (w, tr))
          = (if field_value 315 c = [] then pending
             else if preorder then (if field_value 319 c = [] then partial else fulfilled)
             else fulfilled,
             tracking_of_contact c))
   \<and> (check_httpMethod event = ''GET'' \<and> \<not> unauthorized cfg (check_authorization event)
        \<and> check_email event = Some mail \<and> mail \<noteq> [] \<and> truthy (KEAP_ACCESS_TOKEN cfg)
        \<and> crm (ContactSearch mail ''custom_fields'') w = (r, w1) \<and> ok r
        \<and> body_contacts r = Some (c # cs) \<longrightarrow>
        fst (check_fulfillment crm cfg event (w, tr)) = (200, CheckFound (tracking_of_contact c)))
   \<and> cardsShipped (tracking_of_contact c) = (field_value 315 c \<noteq> [])
   \<and> bookShipped (tracking_of_contact c) = (field_value 319 c \<noteq> [])
   \<and> fst (fst (order_fulfillment crm cfg customer preorder s)) =
       fulfillmentStatus preorder
         (cardsShipped (snd (fst (order_fulfillment crm cfg customer preorder s))))
         (bookShipped (snd (fst (order_fulfillment crm cfg customer preorder s))))"
proof (intro conjI impI)
  show "fulfillmentStatus preorder cards book =
     (if \<not> cards then pending
      else if preorder then (if book then fulfilled else partial)
      else fulfilled)"
    by (simp add: fulfillmentStatus_def)
next
  assume a: "truthy (KEAP_ACCESS_TOKEN cfg) \<and> customer = Some mail \<and> mail \<noteq> []
        \<and> crm (ContactSearch mail ''custom_fields,tag_ids'') w = (r, w1) \<and> ok r
        \<and> body_contacts r = Some (c # cs)"
  then show g: "getKeapFulfillmentStatus crm mail (w, tr)
          = (Inr (tracking_of_contact c), (w1, tr @ [ContactSearch mail ''custom_fields,tag_ids'']))"
    by (simp add: getKeapFulfillmentStatus_def fetch_def)
  from a show "fst (order_fulfillment crm cfg customer preorder (w, tr))
          = (if field_value 315 c = [] then pending
             else if preorder then (if field_value 319 c = [] then partial else fulfilled)
             else fulfilled,
             tracking_of_contact c)"
    by (simp add: order_fulfillment_def g truthy_def fulfillmentStatus_def
        tracking_of_contact_shipped)
next
  assume "check_httpMethod event = ''GET'' \<and> \<not> unauthorized cfg (check_authorization event)
        \<and> check_email event = Some mail \<and> mail \<noteq> [] \<and> truthy (KEAP_ACCESS_TOKEN cfg)
        \<and> crm (ContactSearch mail ''custom_fields'') w = (r, w1) \<and> ok r
        \<and> body_contacts r = Some (c # cs)"
  then show "fst (check_fulfillment crm cfg event (w, tr)) = (200, CheckFound (tracking_of_contact c))"
    by (simp add: check_fulfillment_def fetch_def truthy_def)
next
  show "cardsShipped (tracking_of_contact c) = (field_value 315 c \<noteq> [])"
    by (simp add: tracking_of_contact_shipped)
  show "bookShipped (tracking_of_contact c) = (field_value 319 c \<noteq> [])"
    by (simp add: tracking_of_contact_shipped)
  show "fst (fst (order_fulfillment crm cfg customer preorder s)) =
       fulfillmentStatus preorder
         (cardsShipped (snd (fst (order_fulfillment crm cfg customer preorder s))))
         (bookShipped (snd (fst (order_fulfillment crm cfg customer preorder s))))"
    by (simp add: order_fulfillment_def split: prod.splits)
qed

theorem fulfillment_status_derivation_witness:
  "field_value 315 shipped_contact = ''9400111899223859''
   \<and> field_value 319 shipped_contact = []
   \<and> fst (order_fulfillment scripted example_config (Some ''a@example.com'') True
            ([(reply 200)\<lparr>body_contacts := Some [shipped_contact]\<rparr>], []))
       = (partial, \<lparr>cardsShipped = True, bookShipped = False,
                     cardsTrackingNumber = Some ''9400111899223859'', bookTrackingNumber = None\<rparr>)
   \<and> fst (order_fulfillment scripted example_config (Some ''a@example.com'') False
            ([(reply 200)\<lparr>body_contacts := Some [shipped_contact]\<rparr>], []))
       = (fulfilled, \<lparr>cardsShipped = True, bookShipped = False,
                     cardsTrackingNumber = Some ''9400111899223859'', bookTrackingNumber = None\<rparr>)
   \<and> fst (check_fulfillment scripted example_config check_request
            ([(reply 200)\<lparr>body_contacts := Some [shipped_contact]\<rparr>], []))
       = (200, CheckFound \<lparr>cardsShipped = True, bookShipped = False,
                     cardsTrackingNumber = Some ''9400111899223859'', bookTrackingNumber = None\<rparr>)"
proof -
  let ?r = "(reply 200)\<lparr>body_contacts := Some [shipped_contact]\<rparr>"
  have f1: "field_value 315 shipped_contact = ''9400111899223859''"
    and f2: "field_value 319 shipped_contact = []"
    by (simp_all add: field_value_def shipped_contact_def find_field_def)
  have tc: "tracking_of_contact shipped_contact
      = \<lparr>cardsShipped = True, bookShipped = False,
         cardsTrackingNumber = Some ''9400111899223859'', bookTrackingNumber = None\<rparr>"
    by (simp add: tracking_of_contact_def shipped_contact_def find_field_def has_content_def
        content_or_null_def truthy_def CARDS_TRACKING_ID_def BOOK_TRACKING_ID_def)
  have h1: "truthy (KEAP_ACCESS_TOKEN example_config)" by (simp add: truthy_def example_config_def)
  have h2: "scripted req [?r] = (?r, [])" for req by (simp add: scripted_def)
  have h3: "ok ?r" by (simp add: ok_def reply_def)
  have h4: "\<not> unauthorized example_config (check_authorization check_request)"
    by (simp add: unauthorized_def example_config_def check_request_def truthy_def)
  have h5: "check_httpMethod check_request = ''GET''"
    "check_email check_request = Some ''a@example.com''"
    by (simp_all add: check_request_def)
  note t = fulfillment_status_derivation[where crm = scripted and cfg = example_config
      and customer = "Some ''a@example.com''" and mail = "''a@example.com''" and w = "[?r]"
      and r = ?r and ?w1.0 = "[]" and c = shipped_contact and cs = "[]" and tr = "[]"
      and event = check_request]
  from t[where preorder = True] t[where preorder = False] h1 h2 h3 h4 h5 f1 f2 tc
  show ?thesis by simp
qed

lemma findKeapContact_answered:
  assumes "crm (ContactSearch mail ''custom_fields'') w = (r, w')" "ok r"
  shows "findKeapContact crm mail (w, tr)
           = Some ((case body_contacts r of Some (c # cs) \<Rightarrow> Some c | _ \<Rightarrow> None),
                   (w', tr @ [ContactSearch mail ''custom_fields'']))"
  using assms by (subst findKeapContact.simps) (simp add: fetch_def)

theorem crm_errors_counterexample:
  "\<not> ok (reply 404) \<and> status (reply 404) \<noteq> 429
   \<and> removeTagFromContact scripted 7 4 ([reply 404], []) = (Inr (), ([], [TagRemove 7 4]))
   \<and> \<not> ok (reply 500) \<and> status (reply 500) \<noteq> 429
   \<and> findKeapContact scripted ''a@example.com'' ([reply 500], [])
       = Some (None, ([], [ContactSearch ''a@example.com'' ''custom_fields'']))
   \<and> getTagId scripted ''Destiny Cards - Awaiting Shipment'' ([reply 500], [])
       = (None, ([], [TagSearch ''Destiny Cards - Awaiting Shipment'']))
   \<and> fst (integrateWithKeap scripted example_config example_now second_order
            (detail_down_script, [])) = Inr 7"
  by code_simp

text \<open>
  C8, as amended.  A response that is neither 2xx nor 429 makes the call that received it
  throw an error that carries the status, and this for every call of the CRM but three:
  the contact searches of \<open>integrateWithKeap\<close>, \<open>updateTrackingInKeap\<close>,
  \<open>getKeapFulfillmentStatus\<close> and check-fulfillment.js (none of them reports that there
  is no contact); the contact create and the contact update of \<open>integrateWithKeap\<close> and of
  \<open>syncToKeap\<close> and the contact update of \<open>updateTrackingInKeap\<close>; the tag search and the
  tag creation of the three \<open>getOrCreateTag\<close>; both \<open>applyTagToContact\<close>; and
  \<open>removeTagFromContact\<close>.  The three: \<open>removeTagFromContact\<close> takes 404 as success,
  \<open>getTagId\<close> gives null, and \<open>integrateWithKeap\<close> goes on from a failed contact-detail
  read to update the contact with this order's history entry and amount alone.  Nothing is
  said here of \<open>findKeapContact\<close>.
\<close>

theorem crm_errors_carry_status:
  assumes "\<not> ok r" and "status r \<noteq> 429"
  shows "(truthy (KEAP_ACCESS_TOKEN cfg) \<and> crm (ContactSearch (email d) []) w = (r, w') \<longrightarrow>
            fst (integrateWithKeap crm cfg now d (w, tr)) = Inl (ContactSearchFailed (status r)))
       \<and> (truthy (KEAP_ACCESS_TOKEN cfg) \<and> crm (ContactSearch mail []) w = (r, w') \<longrightarrow>
            fst (updateTrackingInKeap crm cfg now mail tn st (w, tr))
              = Inl (ContactSearchFailed (status r)))
       \<and> (crm (ContactSearch mail ''custom_fields,tag_ids'') w = (r, w') \<longrightarrow>
            fst (getKeapFulfillmentStatus crm mail (w, tr)) = Inl (KeapSearchFailed (status r)))
       \<and> (check_httpMethod event = ''GET'' \<and> \<not> unauthorized cfg (check_authorization event)
            \<and> truthy (check_email event) \<and> truthy (KEAP_ACCESS_TOKEN cfg)
            \<and> crm (ContactSearch (the (check_email event)) ''custom_fields'') w = (r, w') \<longrightarrow>
            fst (check_fulfillment crm cfg event (w, tr))
              = (500, CheckError (message (KeapSearchFailed (status r)))))
       \<and> (truthy (KEAP_ACCESS_TOKEN cfg) \<and> crm (ContactSearch (email d) []) w0 = (r0, w) \<and> ok r0
            \<and> (body_contacts r0 = None \<or> body_contacts r0 = Some [])
            \<and> crm (ContactCreate (webhook_payload d (webhook_customFields now d
                       (thisOrderEntry now d) (amountPaid d)))) w = (r, w') \<longrightarrow>
            fst (integrateWithKeap crm cfg now d (w0, tr)) = Inl (ContactCreationFailed (status r)))
       \<and> (truthy (KEAP_ACCESS_TOKEN cfg) \<and> crm (ContactSearch (email d) []) w0 = (r0, wd) \<and> ok r0
            \<and> body_contacts r0 = Some (c0 # cs)
            \<and> crm (ContactDetail (contact_id c0)) wd = (dr, w)
            \<and> crm (ContactUpdate (contact_id c0) (webhook_payload d (webhook_customFields now d
                       (merged_history (if ok dr then Some (detail_fields dr) else None)
                          (thisOrderEntry now d))
                       (merged_total (if ok dr then Some (detail_fields dr) else None)
                          (amountPaid d))))) w = (r, w') \<longrightarrow>
            fst (integrateWithKeap crm cfg now d (w0, tr)) = Inl (ContactUpdateFailed (status r)))
       \<and> (truthy (KEAP_ACCESS_TOKEN cfg) \<and> crm (ContactSearch mail []) w0 = (r0, w) \<and> ok r0
            \<and> body_contacts r0 = Some (c0 # cs)
            \<and> crm (ContactUpdate (contact_id c0)
                      (tracking_payload (tracking_customFields st tn (iso_day now)))) w = (r, w') \<longrightarrow>
            fst (updateTrackingInKeap crm cfg now mail tn st (w0, tr))
              = Inl (ContactUpdateFailed (status r)))
       \<and> (crm (ContactSearch (email b) ''custom_fields'') w0 = (r0, w) \<and> ok r0
            \<and> (body_contacts r0 = None \<or> body_contacts r0 = Some [])
            \<and> crm (ContactCreate (backfill_payload b consent)) w = (r, w') \<longrightarrow>
            map_option fst (syncToKeap crm now b consent (w0, tr))
              = Some (Inl (ContactCreationFailed (status r))))
       \<and> (crm (ContactSearch (email b) ''custom_fields'') w0 = (r0, w) \<and> ok r0
            \<and> body_contacts r0 = Some (c0 # cs)
            \<and> crm (ContactUpdate (contact_id c0) (backfill_payload b consent)) w = (r, w') \<longrightarrow>
            map_option fst (syncToKeap crm now b consent (w0, tr))
              = Some (Inl (ContactUpdateFailed (status r))))
       \<and> (crm (TagSearch n) w = (r, w') \<longrightarrow>
            fst (getOrCreateTag_webhook crm now n (w, tr)) = Inl (TagSearchFailed (status r))
            \<and> fst (getOrCreateTag_tracking crm n (w, tr)) = Inl (TagSearchFailed (status r))
            \<and> map_option fst (getOrCreateTag_backfill crm now n (w, tr))
                = Some (Inl (TagSearchFailed (status r)))
            \<and> fst (getTagId crm n (w, tr)) = None)
       \<and> (crm (TagSearch n) w0 = (r0, w) \<and> ok r0
            \<and> (body_tags r0 = None \<or> body_tags r0 = Some [])
            \<and> crm (TagCreate n (''Auto-created for Destiny Cards - '' @ toISOString now)) w
                = (r, w') \<longrightarrow>
            fst (getOrCreateTag_webhook crm now n (w0, tr)) = Inl (TagCreationFailed (status r))
            \<and> map_option fst (getOrCreateTag_backfill crm now n (w0, tr))
                = Some (Inl (TagCreationFailed (status r))))
       \<and> (crm (TagSearch n) w0 = (r0, w) \<and> ok r0
            \<and> (body_tags r0 = None \<or> body_tags r0 = Some [])
            \<and> crm (TagCreate n ''Auto-created for Destiny Cards shipping'') w = (r, w') \<longrightarrow>
            fst (getOrCreateTag_tracking crm n (w0, tr)) = Inl (TagCreationFailed (status r)))
       \<and> (crm (TagApply c t) w = (r, w') \<longrightarrow>
            fst (applyTagToContact_webhook crm c t (w, tr)) = Inl (TagApplicationFailed (status r))
            \<and> fst (applyTagToContact_backfill crm c t (w, tr))
                = Inl (TagApplicationFailed (status r)))
       \<and> (crm (TagRemove c t) w = (r, w') \<longrightarrow>
            fst (removeTagFromContact crm c t (w, tr))
              = (if status r = 404 then Inr () else Inl (TagRemovalFailed (status r))))
       \<and> (truthy (KEAP_ACCESS_TOKEN cfg) \<and> crm (ContactSearch (email d) []) w0 = (r0, w) \<and> ok r0
            \<and> body_contacts r0 = Some (c0 # cs)
            \<and> crm (ContactDetail (contact_id c0)) w = (r, w') \<longrightarrow>
            (\<exists>ext. snd (snd (integrateWithKeap crm cfg now d (w0, tr))) =
               tr @ [ContactSearch (email d) [], ContactDetail (contact_id c0),
                     ContactUpdate (contact_id c0) (webhook_payload d (webhook_customFields now d
                       (thisOrderEntry now d) (amountPaid d)))] @ ext))"
proof (intro conjI impI)
  assume "truthy (KEAP_ACCESS_TOKEN cfg) \<and> crm (ContactSearch (email d) []) w = (r, w')"
  with assms show "fst (integrateWithKeap crm cfg now d (w, tr)) = Inl (ContactSearchFailed (status r))"
    by (simp add: integrateWithKeap_def fetch_def)
next
  assume "truthy (KEAP_ACCESS_TOKEN cfg) \<and> crm (ContactSearch mail []) w = (r, w')"
  with assms show "fst (updateTrackingInKeap crm cfg now mail tn st (w, tr))
              = Inl (ContactSearchFailed (status r))"
    by (simp add: updateTrackingInKeap_def fetch_def)
next
  assume "crm (ContactSearch mail ''custom_fields,tag_ids'') w = (r, w')"
  with assms show "fst (getKeapFulfillmentStatus crm mail (w, tr)) = Inl (KeapSearchFailed (status r))"
    by (simp add: getKeapFulfillmentStatus_def fetch_def)
next
  assume "check_httpMethod event = ''GET'' \<and> \<not> unauthorized cfg (check_authorization event)
            \<and> truthy (check_email event) \<and> truthy (KEAP_ACCESS_TOKEN cfg)
            \<and> crm (ContactSearch (the (check_email event)) ''custom_fields'') w = (r, w')"
  with assms show "fst (check_fulfillment crm cfg event (w, tr))
              = (500, CheckError (message (KeapSearchFailed (status r))))"
    by (simp add: check_fulfillment_def fetch_def)
next
  assume "truthy (KEAP_ACCESS_TOKEN cfg) \<and> crm (ContactSearch (email d) []) w0 = (r0, w) \<and> ok r0
            \<and> (body_contacts r0 = None \<or> body_contacts r0 = Some [])
            \<and> crm (ContactCreate (webhook_payload d (webhook_customFields now d
                       (thisOrderEntry now d) (amountPaid d)))) w = (r, w')"
  with assms show "fst (integrateWithKeap crm cfg now d (w0, tr)) = Inl (ContactCreationFailed (status r))"
    by (auto simp: integrateWithKeap_def fetch_def merged_history_def merged_total_def)
next
  assume a: "truthy (KEAP_ACCESS_TOKEN cfg) \<and> crm (ContactSearch (email d) []) w0 = (r0, wd) \<and> ok r0
            \<and> body_contacts r0 = Some (c0 # cs)
            \<and> crm (ContactDetail (contact_id c0)) wd = (dr, w)
            \<and> crm (ContactUpdate (contact_id c0) (webhook_payload d (webhook_customFields now d
                       (merged_history (if ok dr then Some (detail_fields dr) else None)
                          (thisOrderEntry now d))
                       (merged_total (if ok dr then Some (detail_fields dr) else None)
                          (amountPaid d))))) w = (r, w')"
  show "fst (integrateWithKeap crm cfg now d (w0, tr)) = Inl (ContactUpdateFailed (status r))"
  proof (cases "ok dr")
    case True
    with a assms show ?thesis
      by (simp add: integrateWithKeap_def fetch_def detail_fields_def Let_def)
  next
    case False
    with a assms show ?thesis
      by (simp add: integrateWithKeap_def fetch_def detail_fields_def Let_def)
  qed
next
  assume "truthy (KEAP_ACCESS_TOKEN cfg) \<and> crm (ContactSearch mail []) w0 = (r0, w) \<and> ok r0
            \<and> body_contacts r0 = Some (c0 # cs)
            \<and> crm (ContactUpdate (contact_id c0)
                      (tracking_payload (tracking_customFields st tn (iso_day now)))) w = (r, w')"
  with assms show "fst (updateTrackingInKeap crm cfg now mail tn st (w0, tr))
              = Inl (ContactUpdateFailed (status r))"
    by (simp add: updateTrackingInKeap_def fetch_def)
next
  assume a: "crm (ContactSearch (email b) ''custom_fields'') w0 = (r0, w) \<and> ok r0
            \<and> (body_contacts r0 = None \<or> body_contacts r0 = Some [])
            \<and> crm (ContactCreate (backfill_payload b consent)) w = (r, w')"
  then have "findKeapContact crm (email b) (w0, tr)
      = Some (None, (w, tr @ [ContactSearch (email b) ''custom_fields'']))"
    using findKeapContact_answered[where crm = crm, of "email b" w0 r0 w tr] by auto
  with a assms show "map_option fst (syncToKeap crm now b consent (w0, tr))
              = Some (Inl (ContactCreationFailed (status r)))"
    by (simp add: syncToKeap_def fetch_def)
next
  assume a: "crm (ContactSearch (email b) ''custom_fields'') w0 = (r0, w) \<and> ok r0
            \<and> body_contacts r0 = Some (c0 # cs)
            \<and> crm (ContactUpdate (contact_id c0) (backfill_payload b consent)) w = (r, w')"
  then have "findKeapContact crm (email b) (w0, tr)
      = Some (Some c0, (w, tr @ [ContactSearch (email b) ''custom_fields'']))"
    using findKeapContact_answered[where crm = crm, of "email b" w0 r0 w tr] by auto
  with a assms show "map_option fst (syncToKeap crm now b consent (w0, tr))
              = Some (Inl (ContactUpdateFailed (status r)))"
    by (simp add: syncToKeap_def fetch_def)
next
  assume a: "crm (TagSearch n) w = (r, w')"
  with assms show "fst (getOrCreateTag_webhook crm now n (w, tr)) = Inl (TagSearchFailed (status r))"
    by (simp add: getOrCreateTag_webhook_def fetch_def)
  from a assms show "fst (getOrCreateTag_tracking crm n (w, tr)) = Inl (TagSearchFailed (status r))"
    by (simp add: getOrCreateTag_tracking_def fetch_def)
  from getOrCreateTag_backfill_fails[where crm = crm, OF a assms]
  show "map_option fst (getOrCreateTag_backfill crm now n (w, tr))
                = Some (Inl (TagSearchFailed (status r)))" by simp
  from a assms show "fst (getTagId crm n (w, tr)) = None"
    by (simp add: getTagId_def fetch_def)
next
  assume a: "crm (TagSearch n) w0 = (r0, w) \<and> ok r0
            \<and> (body_tags r0 = None \<or> body_tags r0 = Some [])
            \<and> crm (TagCreate n (''Auto-created for Destiny Cards - '' @ toISOString now)) w
                = (r, w')"
  with assms show "fst (getOrCreateTag_webhook crm now n (w0, tr)) = Inl (TagCreationFailed (status r))"
    by (auto simp: getOrCreateTag_webhook_def fetch_def)
  from a assms show "map_option fst (getOrCreateTag_backfill crm now n (w0, tr))
                = Some (Inl (TagCreationFailed (status r)))"
    by (subst getOrCreateTag_backfill.simps) (auto simp: fetch_def)
next
  assume "crm (TagSearch n) w0 = (r0, w) \<and> ok r0
            \<and> (body_tags r0 = None \<or> body_tags r0 = Some [])
            \<and> crm (TagCreate n ''Auto-created for Destiny Cards shipping'') w = (r, w')"
  with assms show "fst (getOrCreateTag_tracking crm n (w0, tr)) = Inl (TagCreationFailed (status r))"
    by (auto simp: getOrCreateTag_tracking_def fetch_def)
next
  assume a: "crm (TagApply c t) w = (r, w')"
  with assms show "fst (applyTagToContact_webhook crm c t (w, tr)) = Inl (TagApplicationFailed (status r))"
    by (simp add: applyTagToContact_webhook_def fetch_def)
  from a assms show "fst (applyTagToContact_backfill crm c t (w, tr))
                = Inl (TagApplicationFailed (status r))"
    by (simp add: applyTagToContact_backfill_def fetch_def)
next
  assume a: "crm (TagRemove c t) w = (r, w')"
  with assms show "fst (removeTagFromContact crm c t (w, tr))
              = (if status r = 404 then Inr () else Inl (TagRemovalFailed (status r)))"
    by (simp add: removeTagFromContact_def fetch_def)
next
  assume a: "truthy (KEAP_ACCESS_TOKEN cfg) \<and> crm (ContactSearch (email d) []) w0 = (r0, w) \<and> ok r0
            \<and> body_contacts r0 = Some (c0 # cs)
            \<and> crm (ContactDetail (contact_id c0)) w = (r, w')"
  then have tok: "truthy (KEAP_ACCESS_TOKEN cfg)"
    and f1: "crm (ContactSearch (email d) []) w0 = (r0, w)" and okr: "ok r0"
    and c: "body_contacts r0 = Some (c0 # cs)"
    and f2: "crm (ContactDetail (contact_id c0)) w = (r, w')" by auto
  from integrate_existing_trace[where crm = crm, OF tok f1 okr c f2, of now tr] assms
  show "\<exists>ext. snd (snd (integrateWithKeap crm cfg now d (w0, tr))) =
               tr @ [ContactSearch (email d) [], ContactDetail (contact_id c0),
                     ContactUpdate (contact_id c0) (webhook_payload d (webhook_customFields now d
                       (thisOrderEntry now d) (amountPaid d)))] @ ext"
    by (auto simp: merged_history_def merged_total_def)
qed

theorem crm_errors_carry_status_witness:
  "\<not> ok (reply 500) \<and> status (reply 500) \<noteq> 429
   \<and> truthy (KEAP_ACCESS_TOKEN example_config)
   \<and> fst (integrateWithKeap scripted example_config example_now second_order ([reply 500], []))
       = Inl (ContactSearchFailed 500)
   \<and> fst (updateTrackingInKeap scripted example_config example_now ''a@example.com'' ''1Z999''
            ''cards'' ([reply 500], []))
       = Inl (ContactSearchFailed 500)
   \<and> fst (getKeapFulfillmentStatus scripted ''a@example.com'' ([reply 500], []))
       = Inl (KeapSearchFailed 500)
   \<and> fst (check_fulfillment scripted example_config check_request ([reply 500], []))
       = (500, CheckError (message (KeapSearchFailed 500)))
   \<and> fst (getOrCreateTag_webhook scripted example_now ''Destiny Cards - 1st Edition''
            ([reply 500], []))
       = Inl (TagSearchFailed 500)
   \<and> fst (applyTagToContact_webhook scripted 7 3 ([reply 500], [])) = Inl (TagApplicationFailed 500)
   \<and> fst (removeTagFromContact scripted 7 3 ([reply 500], [])) = Inl (TagRemovalFailed 500)
   \<and> fst (integrateWithKeap scripted example_config example_now first_order
            ([(reply 200)\<lparr>body_contacts := Some []\<rparr>, reply 500], []))
       = Inl (ContactCreationFailed 500)
   \<and> fst (integrateWithKeap scripted example_config example_now second_order
            ([(reply 200)\<lparr>body_contacts := Some [example_contact]\<rparr>, reply 200, reply 500], []))
       = Inl (ContactUpdateFailed 500)
   \<and> map_option fst (syncToKeap scripted example_now (build_orderData example_session) True
            ([(reply 200)\<lparr>body_contacts := Some [example_contact]\<rparr>, reply 500], []))
       = Some (Inl (ContactUpdateFailed 500))
   \<and> map_option fst (syncToKeap scripted example_now (build_orderData example_session) True
            ([(reply 200)\<lparr>body_contacts := Some []\<rparr>, reply 500], []))
       = Some (Inl (ContactCreationFailed 500))
   \<and> fst (getOrCreateTag_tracking scripted ''Destiny Cards - Cards Shipped''
            ([(reply 200)\<lparr>body_tags := Some []\<rparr>, reply 500], []))
       = Inl (TagCreationFailed 500)
   \<and> (\<exists>ext. snd (snd (integrateWithKeap scripted example_config example_now second_order
                  (detail_down_script, []))) =
          [ContactSearch (email second_order) [], ContactDetail (contact_id example_contact),
           ContactUpdate (contact_id example_contact)
             (webhook_payload second_order (webhook_customFields example_now second_order
                (thisOrderEntry example_now second_order) (amountPaid second_order)))] @ ext)"
proof -
  let ?found = "(reply 200)\<lparr>body_contacts := Some [example_contact]\<rparr>"
  let ?none = "(reply 200)\<lparr>body_contacts := Some []\<rparr>"
  have h1: "\<not> ok (reply 500)" by (simp add: ok_def reply_def)
  have h2: "status (reply 500) \<noteq> 429" by (simp add: reply_def)
  have h3: "truthy (KEAP_ACCESS_TOKEN example_config)" by (simp add: truthy_def example_config_def)
  have sc: "scripted req (x # xs) = (x, xs)" for req x xs by (simp add: scripted_def)
  have oks: "ok ?found" "ok ?none" "ok (reply 200)" "ok ((reply 200)\<lparr>body_tags := Some []\<rparr>)"
    by (simp_all add: ok_def reply_def)
  have st: "status (reply 500) = 500" by (simp add: reply_def)
  have ck: "check_httpMethod check_request = ''GET''"
    "\<not> unauthorized example_config (check_authorization check_request)"
    "truthy (check_email check_request)"
    by (simp_all add: check_request_def unauthorized_def example_config_def truthy_def)
  note t = crm_errors_carry_status[where crm = scripted and r = "reply 500" and cfg = example_config
      and w' = "[]" and tr = "[]" and now = example_now, OF h1 h2]
  note a = t[where w = "[reply 500]" and d = second_order and mail = "''a@example.com''"
      and tn = "''1Z999''" and st = "''cards''" and n = "''Destiny Cards - 1st Edition''"
      and c = 7 and t = 3 and event = check_request]
  from a h3 sc st ck have a1:
    "fst (integrateWithKeap scripted example_config example_now second_order ([reply 500], []))
       = Inl (ContactSearchFailed 500)"
    "fst (updateTrackingInKeap scripted example_config example_now ''a@example.com'' ''1Z999''
            ''cards'' ([reply 500], []))
       = Inl (ContactSearchFailed 500)"
    "fst (getKeapFulfillmentStatus scripted ''a@example.com'' ([reply 500], []))
       = Inl (KeapSearchFailed 500)"
    "fst (check_fulfillment scripted example_config check_request ([reply 500], []))
       = (500, CheckError (message (KeapSearchFailed 500)))"
    "fst (getOrCreateTag_webhook scripted example_now ''Destiny Cards - 1st Edition''
            ([reply 500], []))
       = Inl (TagSearchFailed 500)"
    "fst (applyTagToContact_webhook scripted 7 3 ([reply 500], [])) = Inl (TagApplicationFailed 500)"
    "fst (removeTagFromContact scripted 7 3 ([reply 500], [])) = Inl (TagRemovalFailed 500)"
    by simp_all
  note b = t[where w = "[reply 500]" and ?w0.0 = "[?none, reply 500]" and ?r0.0 = ?none
      and d = first_order and b = "build_orderData example_session" and consent = True]
  from b h3 sc st oks have b1:
    "fst (integrateWithKeap scripted example_config example_now first_order
            ([?none, reply 500], [])) = Inl (ContactCreationFailed 500)"
    "map_option fst (syncToKeap scripted example_now (build_orderData example_session) True
            ([?none, reply 500], [])) = Some (Inl (ContactCreationFailed 500))"
    by simp_all
  note c = t[where w = "[reply 500]" and ?w0.0 = "[?found, reply 200, reply 500]" and ?r0.0 = ?found
      and wd = "[reply 200, reply 500]" and dr = "reply 200"
      and d = second_order and ?c0.0 = example_contact and cs = "[]"]
  from c h3 sc st oks have c1:
    "fst (integrateWithKeap scripted example_config example_now second_order
            ([?found, reply 200, reply 500], [])) = Inl (ContactUpdateFailed 500)"
    by simp
  note d = t[where w = "[reply 500]" and ?w0.0 = "[?found, reply 500]" and ?r0.0 = ?found
      and ?c0.0 = example_contact and cs = "[]"
      and b = "build_orderData example_session" and consent = True]
  from d sc st oks have d1:
    "map_option fst (syncToKeap scripted example_now (build_orderData example_session) True
            ([?found, reply 500], [])) = Some (Inl (ContactUpdateFailed 500))"
    by simp
  note e = t[where w = "[reply 500]"
      and ?w0.0 = "[(reply 200)\<lparr>body_tags := Some []\<rparr>, reply 500]"
      and ?r0.0 = "(reply 200)\<lparr>body_tags := Some []\<rparr>" and n = "''Destiny Cards - Cards Shipped''"]
  from e sc st oks have e1:
    "fst (getOrCreateTag_tracking scripted ''Destiny Cards - Cards Shipped''
            ([(reply 200)\<lparr>body_tags := Some []\<rparr>, reply 500], []))
       = Inl (TagCreationFailed 500)"
    by simp
  note f = crm_errors_carry_status[where crm = scripted and r = "reply 500" and cfg = example_config
      and w' = "[reply 200]" and tr = "[]" and now = example_now and w = "[reply 500, reply 200]"
      and ?w0.0 = detail_down_script and ?r0.0 = ?found and d = second_order
      and ?c0.0 = example_contact and cs = "[]", OF h1 h2]
  have ds: "detail_down_script = [?found, reply 500, reply 200]" by (simp add: detail_down_script_def)
  from f h3 sc oks have f1:
    "\<exists>ext. snd (snd (integrateWithKeap scripted example_config example_now second_order
                  (detail_down_script, []))) =
          [ContactSearch (email second_order) [], ContactDetail (contact_id example_contact),
           ContactUpdate (contact_id example_contact)
             (webhook_payload second_order (webhook_customFields example_now second_order
                (thisOrderEntry example_now second_order) (amountPaid second_order)))] @ ext"
    unfolding ds by simp
  from h1 h2 h3 a1 b1 c1 d1 e1 f1 show ?thesis by blast
qed

text \<open>
  C3.  A backfill run over a session of a customer whose contact has the payment-id field
  (311) set to \<open>pi_1\<close>, where the guard's lookup is answered 500: \<open>findKeapContact\<close>
  gives null, the session is not skipped but counted as synced, and the live run updates
  the contact, writing \<open>pi_2\<close> over the payment id; the dry run lists the session as one
  it would sync.
\<close>

theorem backfill_guard_lookup_error:
  "field_value 311 example_contact = ''pi_1''
   \<and> map_option (\<lambda>y. (fst y, writes (snd y), written 311 (snd y)))
       (backfill scripted example_stripe example_config example_now (example_event (JBool False))
          (lookup_error_script, []))
     = Some (Inr (200, BackfillReport False ''Backfill complete. 1 orders synced to Keap.''
               \<lparr>processed = 3, synced = 1, skipped = 1,
                  errors = [(''cs_gone'', ''No such checkout.session'')],
                  details = [Synced ''cs_1'' ''a@example.com'', SkippedNoEmail ''cs_2'']\<rparr>),
             [ContactUpdate 7 (backfill_payload (build_orderData example_session) True)],
             [Some ''pi_2''])
   \<and> map_option (\<lambda>y. (synced (fst y), skipped (fst y), details (fst y)))
       (process_session scripted example_stripe example_now True ''cs_1'' empty_results
          (lookup_error_script, []))
     = Some (1, 0, [WouldSync ''cs_1'' ''a@example.com'' ''Ada Lovelace''
                      (build_orderData example_session)])"
  by code_simp

text \<open>
  C6.  A live backfill run syncs the order of a customer whose contact existed before the
  sync.  The tags it looks up and applies to the contact are the three base tags, the
  product tag, the two pre-order tags and the month and year of the order: "Repeat
  Customer" is neither looked up nor applied.  The webhook's sync of an order of a
  customer the CRM already holds looks it up and applies it, after the base tags.
\<close>

theorem backfill_sync_no_repeat_tag:
  "map_option (\<lambda>y. (fst y, filter is_tag_request (snd (snd y))))
     (backfill scripted example_stripe example_config example_now (example_event (JBool False))
        (returning_script, []))
   = Some (Inr (200, BackfillReport False ''Backfill complete. 1 orders synced to Keap.''
             \<lparr>processed = 3, synced = 1, skipped = 1,
                errors = [(''cs_gone'', ''No such checkout.session'')],
                details = [Synced ''cs_1'' ''a@example.com'', SkippedNoEmail ''cs_2'']\<rparr>),
           [TagSearch ''Destiny Cards - Order Received'', TagApply 7 11,
            TagSearch ''Destiny Cards - 1st Edition'', TagApply 7 12,
            TagSearch ''Destiny Cards - Awaiting Shipment'', TagApply 7 13,
            TagSearch ''Destiny Cards - Cards + Book Bundle'', TagApply 7 14,
            TagSearch ''Destiny Cards - Pre-Order (Book Ships March 2026)'', TagApply 7 15,
            TagSearch ''Destiny Cards - Pending Book Shipment'', TagApply 7 16,
            TagSearch ''Destiny Cards - January 2026'', TagApply 7 17])
   \<and> filter is_tag_request
       (snd (snd (integrateWithKeap scripted example_config example_now second_order
          (repeat_script, []))))
     = [TagSearch ''Destiny Cards - Order Received'', TagApply 7 5,
        TagSearch ''Destiny Cards - 1st Edition'', TagApply 7 5,
        TagSearch ''Destiny Cards - Awaiting Shipment'', TagApply 7 5,
        TagSearch ''Destiny Cards - Repeat Customer'', TagApply 7 5,
        TagSearch ''Destiny Cards - Cards + Book Bundle'', TagApply 7 5,
        TagSearch ''Destiny Cards - Pre-Order (Book Ships March 2026)'', TagApply 7 5,
        TagSearch ''Destiny Cards - Pending Book Shipment'', TagApply 7 5,
        TagSearch ''Destiny Cards - January 2026'', TagApply 7 5]"
  by code_simp

lemma merged_history_eq:
  "merged_history (Some fs) entry =
     (if existing_history fs = [] then entry else entry @ history_separator @ existing_history fs)"
  by (auto simp: merged_history_def existing_history_def ORDER_HISTORY_def truthy_def
      split: option.splits)

lemma getOrCreateTag_webhook_cong:
  assumes "\<And>req st. is_tag_request req \<Longrightarrow> crm req st = keap req st"
  shows "getOrCreateTag_webhook crm now n s = getOrCreateTag_webhook keap now n s"
  by (cases s) (auto simp: getOrCreateTag_webhook_def fetch_def assms split: list.splits)

lemma applyTags_webhook_cong:
  assumes "\<And>req st. is_tag_request req \<Longrightarrow> crm req st = keap req st"
  shows "applyTags_webhook crm now c tags s = applyTags_webhook keap now c tags s"
proof (induction tags arbitrary: s)
  case Nil
  show ?case by simp
next
  case (Cons t ts)
  have a: "applyTagToContact_webhook crm c tagId s1 = applyTagToContact_webhook keap c tagId s1"
    for tagId s1
    by (cases s1) (simp add: applyTagToContact_webhook_def fetch_def assms)
  show ?case
    by (simp add: getOrCreateTag_webhook_cong[OF assms] a Cons split: prod.splits sum.splits)
qed

lemma keap_detail_down_tags: "is_tag_request req \<Longrightarrow> keap_detail_down req st = keap req st"
  by (cases req) (simp_all add: keap_detail_down_def)

lemma keap_detail_down_sync:
  assumes "truthy (KEAP_ACCESS_TOKEN cfg)" and "by_email st (email d) = Some c"
      and "stored_fields st c = Some fs"
  shows "by_email (fst (snd (integrateWithKeap keap_detail_down cfg now d (st, tr)))) (email d) = Some c
       \<and> stored_fields (fst (snd (integrateWithKeap keap_detail_down cfg now d (st, tr)))) c
           = Some (patch_fields (webhook_customFields now d (thisOrderEntry now d) (amountPaid d)) fs)"
proof -
  let ?p = "webhook_payload d (webhook_customFields now d (thisOrderEntry now d) (amountPaid d))"
  let ?st1 = "snd (keap (ContactUpdate c ?p) st)"
  have "snd (integrateWithKeap keap_detail_down cfg now d (st, tr))
      = applyTags_webhook keap_detail_down now c (webhook_tags now True d)
          (?st1, tr @ [ContactSearch (email d) [], ContactDetail c, ContactUpdate c ?p])"
    using assms
    by (simp add: integrateWithKeap_def fetch_def reply_def ok_def Let_def keap_detail_down_def
        merged_history_def merged_total_def)
  then have e: "snd (integrateWithKeap keap_detail_down cfg now d (st, tr))
      = applyTags_webhook keap now c (webhook_tags now True d)
          (?st1, tr @ [ContactSearch (email d) [], ContactDetail c, ContactUpdate c ?p])"
    by (simp add: applyTags_webhook_cong[of keap_detail_down, OF keap_detail_down_tags])
  have "by_email ?st1 (email d) = Some c"
    using assms by simp
  moreover have "stored_fields ?st1 c
      = Some (patch_fields (webhook_customFields now d (thisOrderEntry now d) (amountPaid d)) fs)"
    using assms by (simp add: webhook_payload_def)
  ultimately show ?thesis
    using applyTags_webhook_keap_frame[of now c "webhook_tags now True d"
        "(?st1, tr @ [ContactSearch (email d) [], ContactDetail c, ContactUpdate c ?p])"]
    unfolding e by simp
qed

lemma after_first_order_state:
  "by_email (fst after_first_order) ''a@example.com'' = Some 1
   \<and> stored_fields (fst after_first_order) 1
       = Some (patch_fields (webhook_customFields december first_order
                 (thisOrderEntry december first_order) (amountPaid first_order)) [])"
proof -
  have tok: "truthy (KEAP_ACCESS_TOKEN example_config)" by (simp add: truthy_def example_config_def)
  have new: "by_email empty_crm (email first_order) = None" by (simp add: empty_crm_def)
  have em: "email first_order = ''a@example.com''" by (simp add: first_order_def)
  have nx: "next_id empty_crm = 1" by (simp add: empty_crm_def)
  from keap_sync_new[OF tok new, of december "[]"] show ?thesis
    unfolding after_first_order_def em nx by simp
qed

lemma written_append_tags:
  assumes "snd s' = tr @ reqs @ ext" and "list_all is_tag_request ext"
  shows "written i s' = written i (w, tr) @ map (payload_field i) (contact_writes reqs)"
  using assms by (simp add: written_def contact_writes_append contact_writes_tags)

lemma written_existing:
  assumes "truthy (KEAP_ACCESS_TOKEN cfg)"
      and "crm (ContactSearch (email d) []) w = (r, w1)" and "ok r"
      and "body_contacts r = Some (c # cs)"
      and "crm (ContactDetail (contact_id c)) w1 = (dr, w2)"
  shows "written i (snd (integrateWithKeap crm cfg now d (w, tr))) =
           written i (w, tr) @ [payload_field i (webhook_payload d (webhook_customFields now d
                   (merged_history (if ok dr then Some (detail_fields dr) else None)
                      (thisOrderEntry now d))
                   (merged_total (if ok dr then Some (detail_fields dr) else None)
                      (amountPaid d))))]"
proof -
  from integrate_existing_trace[where crm = crm, OF assms, of now tr]
  obtain ext where e: "snd (snd (integrateWithKeap crm cfg now d (w, tr))) =
           tr @ [ContactSearch (email d) [], ContactDetail (contact_id c),
                 ContactUpdate (contact_id c) (webhook_payload d (webhook_customFields now d
                   (merged_history (if ok dr then Some (detail_fields dr) else None)
                      (thisOrderEntry now d))
                   (merged_total (if ok dr then Some (detail_fields dr) else None)
                      (amountPaid d))))] @ ext"
    and t: "list_all is_tag_request ext" by blast
  show ?thesis
    using written_append_tags[OF e t, of i w] by simp
qed

lemma written_new:
  assumes "truthy (KEAP_ACCESS_TOKEN cfg)"
      and "crm (ContactSearch (email d) []) w = (r, w1)" and "ok r"
      and "body_contacts r = None \<or> body_contacts r = Some []"
  shows "written i (snd (integrateWithKeap crm cfg now d (w, tr))) =
           written i (w, tr) @ [payload_field i (webhook_payload d (webhook_customFields now d
                   (thisOrderEntry now d) (amountPaid d)))]"
proof -
  from integrate_new_trace[where crm = crm, OF assms, of now tr]
  obtain ext where e: "snd (snd (integrateWithKeap crm cfg now d (w, tr))) =
           tr @ [ContactSearch (email d) [],
                 ContactCreate (webhook_payload d (webhook_customFields now d
                   (thisOrderEntry now d) (amountPaid d)))] @ ext"
    and t: "list_all is_tag_request ext" by blast
  show ?thesis
    using written_append_tags[OF e t, of i w] by simp
qed

lemma merged_None: "merged_total None paid = paid" "merged_history None entry = entry"
  by (simp_all add: merged_total_def merged_history_def)

lemma example_amounts:
  "amountPaid first_order = 20" "amountPaid second_order = 71 / 2"
  "email first_order = ''a@example.com''" "email second_order = ''a@example.com''"
  by (simp_all add: first_order_def second_order_def)

lemma example_cents: "is_cents 20" "is_cents (71 / 2)"
  by (simp_all add: is_cents_def)

lemma amounts_exact:
  "toFixed2 20 = ''20.00''" "toFixed2 (71 / 2) = ''35.50''" "toFixed2 (111 / 2) = ''55.50''"
  by code_simp+

lemma after_detail_down_fields:
  "by_email (fst (snd (integrateWithKeap keap_detail_down example_config example_now second_order
       after_first_order))) ''a@example.com'' = Some 1
   \<and> stored_fields (fst (snd (integrateWithKeap keap_detail_down example_config example_now
       second_order after_first_order))) 1
     = Some (patch_fields (webhook_customFields example_now second_order
               (thisOrderEntry example_now second_order) (amountPaid second_order))
          (patch_fields (webhook_customFields december first_order
               (thisOrderEntry december first_order) (amountPaid first_order)) []))"
proof -
  have tok: "truthy (KEAP_ACCESS_TOKEN example_config)" by (simp add: truthy_def example_config_def)
  note a = after_first_order_state
  from a have b: "by_email (fst after_first_order) (email second_order) = Some 1"
    by (simp add: example_amounts)
  from keap_detail_down_sync[OF tok b a[THEN conjunct2], of example_now "snd after_first_order"]
  show ?thesis by (simp add: example_amounts)
qed

text \<open>
  The backfill sync writes the order's own history entry and its own amount, whether its
  lookup found a contact or not: nothing of what the contact held enters the update.
\<close>

lemma backfill_sync_writes_order_alone:
  assumes "syncToKeap crm now b consent s = Some (res, s')"
  shows "written 325 s' = written 325 s @ [Some (orderHistoryEntry b)]
       \<and> written 327 s' = written 327 s @ [Some (toFixed2 (amountPaid b))]"
  using syncToKeap_trace[OF assms] by (simp add: written_def payload_field_backfill)

theorem total_spent_counterexample:
  "stored (fst after_first_order) ''a@example.com'' 327 = Some ''20.00''
   \<and> amountPaid second_order = 71 / 2
   \<and> toFixed2 (20 + 71 / 2) = ''55.50''
   \<and> stored (fst (snd (integrateWithKeap keap_detail_down example_config example_now second_order
         after_first_order))) ''a@example.com'' 327 = Some ''35.50''"
proof -
  have "stored (fst after_first_order) ''a@example.com'' 327 = Some (toFixed2 (amountPaid first_order))"
    using after_first_order_state by (simp add: stored_def find_field_patch_total)
  then have a: "stored (fst after_first_order) ''a@example.com'' 327 = Some ''20.00''"
    by (simp add: example_amounts amounts_exact)
  have "stored (fst (snd (integrateWithKeap keap_detail_down example_config example_now second_order
         after_first_order))) ''a@example.com'' 327 = Some (toFixed2 (amountPaid second_order))"
    using after_detail_down_fields by (simp add: stored_def find_field_patch_total)
  then have b: "stored (fst (snd (integrateWithKeap keap_detail_down example_config example_now
         second_order after_first_order))) ''a@example.com'' 327 = Some ''35.50''"
    by (simp add: example_amounts amounts_exact)
  have c: "toFixed2 (20 + 71 / 2) = ''55.50''" using amounts_exact(3) by simp
  from a b c show ?thesis by (simp add: example_amounts)
qed

text \<open>
  C1, as amended.  The total-spent field (327) a sync writes, for amounts of whole cents.
  A webhook sync that finds a contact for the order's email and whose read of the
  contact's details is answered ok writes the contact's existing total spent (the text of
  field 327 parsed as a decimal, 0 when it does not parse) plus the order's
  \<open>amountPaid\<close>, with two decimals; when that read is not answered ok it writes
  \<open>amountPaid\<close> alone.  For a new contact the webhook sync and the backfill sync write
  \<open>amountPaid\<close> alone.  After the webhook syncs of any orders of one customer, new at the
  start, on a CRM that stores what it is sent, the stored total is the sum of their
  \<open>amountPaid\<close>.
\<close>

theorem total_spent_written:
  "(truthy (KEAP_ACCESS_TOKEN cfg) \<and> crm (ContactSearch (email d) []) w = (r, w1) \<and> ok r
      \<and> body_contacts r = Some (c # cs) \<and> crm (ContactDetail (contact_id c)) w1 = (dr, w2)
      \<and> ok dr \<and> is_amount (amountPaid d) \<and> exact_total (detail_fields dr) \<longrightarrow>
      written 327 (snd (integrateWithKeap crm cfg now d (w, tr)))
        = written 327 (w, tr)
          @ [Some (toFixed2 (existing_total (detail_fields dr) + amountPaid d))])
   \<and> (truthy (KEAP_ACCESS_TOKEN cfg) \<and> crm (ContactSearch (email d) []) w = (r, w1) \<and> ok r
      \<and> body_contacts r = Some (c # cs) \<and> crm (ContactDetail (contact_id c)) w1 = (dr, w2)
      \<and> \<not> ok dr \<and> is_amount (amountPaid d) \<longrightarrow>
      written 327 (snd (integrateWithKeap crm cfg now d (w, tr)))
        = written 327 (w, tr) @ [Some (toFixed2 (amountPaid d))])
   \<and> (truthy (KEAP_ACCESS_TOKEN cfg) \<and> crm (ContactSearch (email d) []) w = (r, w1) \<and> ok r
      \<and> (body_contacts r = None \<or> body_contacts r = Some []) \<and> is_amount (amountPaid d) \<longrightarrow>
      written 327 (snd (integrateWithKeap crm cfg now d (w, tr)))
        = written 327 (w, tr) @ [Some (toFixed2 (amountPaid d))])
   \<and> (crm (ContactSearch (email b) ''custom_fields'') w = (r, w1) \<and> ok r
      \<and> (body_contacts r = None \<or> body_contacts r = Some []) \<and> is_amount (amountPaid b)
      \<and> syncToKeap crm now b consent (w, tr) = Some (res, s2) \<longrightarrow>
      written 327 s2 = written 327 (w, tr) @ [Some (toFixed2 (amountPaid b))])
   \<and> (never_429 crm \<longrightarrow> syncToKeap crm now b consent (w, tr) \<noteq> None)
   \<and> (truthy (KEAP_ACCESS_TOKEN cfg)
      \<and> (\<forall>x \<in> set ods. email (snd x) = mail \<and> is_cents (amountPaid (snd x)))
      \<and> sum_list (map (\<lambda>x. amountPaid (snd x)) ods) < 10 ^ 9
      \<and> by_email st mail = None \<and> ods \<noteq> [] \<longrightarrow>
      stored (fst (webhook_syncs keap cfg ods (st, tr'))) mail 327
        = Some (toFixed2 (sum_list (map (\<lambda>x. amountPaid (snd x)) ods))))"
proof (intro conjI impI)
  assume a: "truthy (KEAP_ACCESS_TOKEN cfg) \<and> crm (ContactSearch (email d) []) w = (r, w1) \<and> ok r
      \<and> body_contacts r = Some (c # cs) \<and> crm (ContactDetail (contact_id c)) w1 = (dr, w2)
      \<and> ok dr \<and> is_amount (amountPaid d) \<and> exact_total (detail_fields dr)"
  then have tok: "truthy (KEAP_ACCESS_TOKEN cfg)"
    and f1: "crm (ContactSearch (email d) []) w = (r, w1)" and okr: "ok r"
    and c: "body_contacts r = Some (c # cs)"
    and f2: "crm (ContactDetail (contact_id c)) w1 = (dr, w2)" and okd: "ok dr" by auto
  from written_existing[where crm = crm, OF tok f1 okr c f2, of 327 now tr] okd
  show "written 327 (snd (integrateWithKeap crm cfg now d (w, tr)))
        = written 327 (w, tr)
          @ [Some (toFixed2 (existing_total (detail_fields dr) + amountPaid d))]"
    by (simp add: payload_field_webhook merged_total_existing)
next
  assume a: "truthy (KEAP_ACCESS_TOKEN cfg) \<and> crm (ContactSearch (email d) []) w = (r, w1) \<and> ok r
      \<and> body_contacts r = Some (c # cs) \<and> crm (ContactDetail (contact_id c)) w1 = (dr, w2)
      \<and> \<not> ok dr \<and> is_amount (amountPaid d)"
  then have tok: "truthy (KEAP_ACCESS_TOKEN cfg)"
    and f1: "crm (ContactSearch (email d) []) w = (r, w1)" and okr: "ok r"
    and c: "body_contacts r = Some (c # cs)"
    and f2: "crm (ContactDetail (contact_id c)) w1 = (dr, w2)" and okd: "\<not> ok dr" by auto
  from written_existing[where crm = crm, OF tok f1 okr c f2, of 327 now tr] okd
  show "written 327 (snd (integrateWithKeap crm cfg now d (w, tr)))
        = written 327 (w, tr) @ [Some (toFixed2 (amountPaid d))]"
    by (simp add: payload_field_webhook merged_None)
next
  assume a: "truthy (KEAP_ACCESS_TOKEN cfg) \<and> crm (ContactSearch (email d) []) w = (r, w1) \<and> ok r
      \<and> (body_contacts r = None \<or> body_contacts r = Some []) \<and> is_amount (amountPaid d)"
  then have tok: "truthy (KEAP_ACCESS_TOKEN cfg)"
    and f1: "crm (ContactSearch (email d) []) w = (r, w1)" and okr: "ok r"
    and n: "body_contacts r = None \<or> body_contacts r = Some []" by auto
  from written_new[where crm = crm, OF tok f1 okr n, of 327 now tr]
  show "written 327 (snd (integrateWithKeap crm cfg now d (w, tr)))
        = written 327 (w, tr) @ [Some (toFixed2 (amountPaid d))]"
    by (simp add: payload_field_webhook)
next
  assume a: "crm (ContactSearch (email b) ''custom_fields'') w = (r, w1) \<and> ok r
      \<and> (body_contacts r = None \<or> body_contacts r = Some []) \<and> is_amount (amountPaid b)
      \<and> syncToKeap crm now b consent (w, tr) = Some (res, s2)"
  then have "syncToKeap crm now b consent (w, tr) = Some (res, s2)" by simp
  from syncToKeap_trace[OF this]
  show "written 327 s2 = written 327 (w, tr) @ [Some (toFixed2 (amountPaid b))]"
    by (simp add: written_def payload_field_backfill)
next
  assume "never_429 crm"
  from syncToKeap_terminates[OF this, of now b consent "(w, tr)"]
  show "syncToKeap crm now b consent (w, tr) \<noteq> None" by auto
next
  assume a: "truthy (KEAP_ACCESS_TOKEN cfg)
      \<and> (\<forall>x \<in> set ods. email (snd x) = mail \<and> is_cents (amountPaid (snd x)))
      \<and> sum_list (map (\<lambda>x. amountPaid (snd x)) ods) < 10 ^ 9
      \<and> by_email st mail = None \<and> ods \<noteq> []"
  then have tok: "truthy (KEAP_ACCESS_TOKEN cfg)"
    and ods: "\<forall>x \<in> set ods. email (snd x) = mail \<and> is_cents (amountPaid (snd x))"
    and new: "by_email st mail = None" and ne: "ods \<noteq> []" by auto
  from keap_syncs_from_new[OF tok ods new ne, of tr']
  show "stored (fst (webhook_syncs keap cfg ods (st, tr'))) mail 327
        = Some (toFixed2 (sum_list (map (\<lambda>x. amountPaid (snd x)) ods)))"
    by simp
qed

lemma written_nil: "written i (w, []) = []"
  by (simp add: written_def)

lemma example_amount_ok: "is_amount 20" "is_amount (71 / 2)"
  by (simp_all add: is_amount_def is_cents_def)

lemma example_contact_total:
  "exact_total (detail_fields ((reply 200)\<lparr>body_custom_fields := contact_custom_fields example_contact\<rparr>))"
  "existing_total (detail_fields ((reply 200)\<lparr>body_custom_fields := contact_custom_fields example_contact\<rparr>)) = 20"
  by code_simp+

lemma backfill_amount: "amountPaid (build_orderData example_session) = 71 / 2"
  "email (build_orderData example_session) = ''a@example.com''"
  by (simp_all add: build_orderData_def example_session_def)

theorem total_spent_written_witness:
  "written 327 (snd (integrateWithKeap scripted example_config example_now second_order
      (repeat_script, []))) = [Some ''55.50'']
   \<and> written 327 (snd (integrateWithKeap scripted example_config example_now second_order
      (detail_down_script, []))) = [Some ''35.50'']
   \<and> written 327 (snd (integrateWithKeap scripted example_config december first_order
      (new_script, []))) = [Some ''20.00'']
   \<and> (\<exists>res s2. syncToKeap keap example_now (build_orderData example_session) True (empty_crm, [])
          = Some (res, s2) \<and> written 327 s2 = [Some ''35.50''])
   \<and> stored (fst (webhook_syncs keap example_config
        [(december, first_order), (example_now, second_order)] (empty_crm, [])))
        ''a@example.com'' 327 = Some ''55.50''"
proof -
  let ?found = "(reply 200)\<lparr>body_contacts := Some [example_contact]\<rparr>"
  let ?dr = "(reply 200)\<lparr>body_custom_fields := contact_custom_fields example_contact\<rparr>"
  let ?none = "(reply 200)\<lparr>body_contacts := Some []\<rparr>"
  have tok: "truthy (KEAP_ACCESS_TOKEN example_config)" by (simp add: truthy_def example_config_def)
  have sc: "scripted req (x # xs) = (x, xs)" for req x xs by (simp add: scripted_def)
  have oks: "ok ?found" "ok ?dr" "ok ?none" "\<not> ok (reply 500)" by (simp_all add: ok_def reply_def)
  have rs: "repeat_script = ?found # ?dr # tl (tl repeat_script)" by (simp add: repeat_script_def)
  have ds: "detail_down_script = [?found, reply 500, reply 200]" by (simp add: detail_down_script_def)
  have ns: "new_script = [?none, (reply 201)\<lparr>body_id := 8\<rparr>]" by (simp add: new_script_def)
  have bc: "body_contacts ?found = Some (example_contact # [])"
    "body_contacts ?none = None \<or> body_contacts ?none = Some []" by simp_all
  have e: "is_amount (amountPaid first_order)" "is_amount (amountPaid second_order)"
    by (simp_all add: example_amounts example_amount_ok)
  note x = example_contact_total(1)
  have a: "written 327 (snd (integrateWithKeap scripted example_config example_now second_order
      (repeat_script, []))) = [Some ''55.50'']"
  proof -
    have p: "scripted (ContactSearch (email second_order) []) repeat_script
               = (?found, ?dr # tl (tl repeat_script))"
      "scripted (ContactDetail (contact_id example_contact)) (?dr # tl (tl repeat_script))
               = (?dr, tl (tl repeat_script))"
      by (subst rs, rule sc) (rule sc)
    from total_spent_written[where crm = scripted and cfg = example_config and d = second_order
        and w = repeat_script and r = ?found and ?w1.0 = "?dr # tl (tl repeat_script)"
        and c = example_contact and cs = "[]" and dr = ?dr and ?w2.0 = "tl (tl repeat_script)"
        and now = example_now and tr = "[]", THEN conjunct1] tok p oks(1,2) bc(1) e(2) x
    have "written 327 (snd (integrateWithKeap scripted example_config example_now second_order
            (repeat_script, [])))
        = written 327 (repeat_script, [])
          @ [Some (toFixed2 (existing_total (detail_fields ?dr) + amountPaid second_order))]"
      by blast
    then show ?thesis
      unfolding example_contact_total(2) example_amounts(2) written_nil
      using amounts_exact(3) by simp
  qed
  have b: "written 327 (snd (integrateWithKeap scripted example_config example_now second_order
      (detail_down_script, []))) = [Some ''35.50'']"
  proof -
    have p: "scripted (ContactSearch (email second_order) []) detail_down_script
               = (?found, [reply 500, reply 200])"
      "scripted (ContactDetail (contact_id example_contact)) [reply 500, reply 200]
               = (reply 500, [reply 200])"
      by (subst ds, rule sc) (rule sc)
    from total_spent_written[where crm = scripted and cfg = example_config and d = second_order
        and w = detail_down_script and r = ?found and ?w1.0 = "[reply 500, reply 200]"
        and c = example_contact and cs = "[]" and dr = "reply 500" and ?w2.0 = "[reply 200]"
        and now = example_now and tr = "[]", THEN conjunct2, THEN conjunct1]
      tok p oks(1,4) bc(1) e(2)
    have "written 327 (snd (integrateWithKeap scripted example_config example_now second_order
            (detail_down_script, [])))
        = written 327 (detail_down_script, []) @ [Some (toFixed2 (amountPaid second_order))]"
      by blast
    then show ?thesis
      unfolding example_amounts(2) written_nil amounts_exact(2) by simp
  qed
  have c: "written 327 (snd (integrateWithKeap scripted example_config december first_order
      (new_script, []))) = [Some ''20.00'']"
  proof -
    have p: "scripted (ContactSearch (email first_order) []) new_script
               = (?none, [(reply 201)\<lparr>body_id := 8\<rparr>])"
      by (subst ns, rule sc)
    from total_spent_written[where crm = scripted and cfg = example_config and d = first_order
        and w = new_script and r = ?none and ?w1.0 = "[(reply 201)\<lparr>body_id := 8\<rparr>]"
        and now = december and tr = "[]", THEN conjunct2, THEN conjunct2, THEN conjunct1]
      tok p oks(3) bc(2) e(1)
    have "written 327 (snd (integrateWithKeap scripted example_config december first_order
            (new_script, [])))
        = written 327 (new_script, []) @ [Some (toFixed2 (amountPaid first_order))]"
      by blast
    then show ?thesis
      unfolding example_amounts(1) written_nil amounts_exact(1) by simp
  qed
  have d: "\<exists>res s2. syncToKeap keap example_now (build_orderData example_session) True (empty_crm, [])
          = Some (res, s2) \<and> written 327 s2 = [Some ''35.50'']"
  proof -
    note t = total_spent_written[where crm = keap and b = "build_orderData example_session"
        and consent = True and now = example_now and w = empty_crm and tr = "[]" and r = ?none
        and ?w1.0 = empty_crm]
    from t[THEN conjunct2, THEN conjunct2, THEN conjunct2, THEN conjunct2, THEN conjunct1]
      never_429_keap
    obtain res s2 where r: "syncToKeap keap example_now (build_orderData example_session) True
        (empty_crm, []) = Some (res, s2)" by fastforce
    have p: "keap (ContactSearch (email (build_orderData example_session)) ''custom_fields'')
        empty_crm = (?none, empty_crm)"
      by (simp add: empty_crm_def)
    have am: "is_amount (amountPaid (build_orderData example_session))"
      by (simp add: backfill_amount example_amount_ok)
    from t[where res = res and ?s2.0 = s2, THEN conjunct2, THEN conjunct2, THEN conjunct2,
        THEN conjunct1] p oks(3) bc(2) am r
    have "written 327 s2 = written 327 (empty_crm, [])
        @ [Some (toFixed2 (amountPaid (build_orderData example_session)))]"
      by blast
    then have "written 327 s2 = [Some ''35.50'']"
      unfolding backfill_amount(1) written_nil amounts_exact(2) by simp
    with r show ?thesis by blast
  qed
  have f: "stored (fst (webhook_syncs keap example_config
        [(december, first_order), (example_now, second_order)] (empty_crm, [])))
        ''a@example.com'' 327 = Some ''55.50''"
  proof -
    let ?ods = "[(december, first_order), (example_now, second_order)]"
    have sm: "sum_list (map (\<lambda>x. amountPaid (snd x)) ?ods) = 111 / 2"
      by (simp add: example_amounts)
    have p: "\<forall>x \<in> set ?ods. email (snd x) = ''a@example.com'' \<and> is_cents (amountPaid (snd x))"
      by (simp add: example_amounts example_cents)
    have q: "sum_list (map (\<lambda>x. amountPaid (snd x)) ?ods) < 10 ^ 9" unfolding sm by simp
    have n: "by_email empty_crm ''a@example.com'' = None" by (simp add: empty_crm_def)
    from total_spent_written[where cfg = example_config and ods = ?ods and mail = "''a@example.com''"
        and st = empty_crm and tr' = "[]", THEN conjunct2, THEN conjunct2, THEN conjunct2,
        THEN conjunct2, THEN conjunct2] tok p q n
    have "stored (fst (webhook_syncs keap example_config ?ods (empty_crm, []))) ''a@example.com'' 327
        = Some (toFixed2 (sum_list (map (\<lambda>x. amountPaid (snd x)) ?ods)))"
      by blast
    then show ?thesis unfolding sm amounts_exact(3) .
  qed
  from a b c d f show ?thesis by blast
qed

lemma example_entries:
  "thisOrderEntry december first_order = ''Dec 1, 2025: 1x Destiny Cards ($20.00)''"
  "thisOrderEntry example_now second_order = ''Jan 5, 2026: 1x Cards + Book ($35.50)''"
  "orderHistoryEntry (build_orderData example_session) = ''Jan 5, 2026: 1x Cards + Book ($35.50)''"
  by code_simp+

lemma example_contact_history:
  "existing_history (detail_fields ((reply 200)\<lparr>body_custom_fields := contact_custom_fields example_contact\<rparr>))
     = ''Dec 1, 2025: 1x Destiny Cards ($20.00)''"
  by code_simp

theorem order_history_counterexample:
  "stored (fst after_first_order) ''a@example.com'' 325
     = Some ''Dec 1, 2025: 1x Destiny Cards ($20.00)''
   \<and> paymentId first_order = Some ''pi_1'' \<and> paymentId second_order = Some ''pi_2''
   \<and> stored (fst (snd (integrateWithKeap keap_detail_down example_config example_now second_order
         after_first_order))) ''a@example.com'' 325
     = Some ''Jan 5, 2026: 1x Cards + Book ($35.50)''
   \<and> stored (fst (webhook_syncs keap example_config
         [(december, first_order), (december, first_order)] (empty_crm, []))) ''a@example.com'' 325
     = Some (''Dec 1, 2025: 1x Destiny Cards ($20.00)'' @ history_separator
             @ ''Dec 1, 2025: 1x Destiny Cards ($20.00)'')"
proof -
  have tok: "truthy (KEAP_ACCESS_TOKEN example_config)" by (simp add: truthy_def example_config_def)
  have "stored (fst after_first_order) ''a@example.com'' 325
      = Some (thisOrderEntry december first_order)"
    using after_first_order_state by (simp add: stored_def find_field_patch_history)
  then have a: "stored (fst after_first_order) ''a@example.com'' 325
      = Some ''Dec 1, 2025: 1x Destiny Cards ($20.00)''"
    unfolding example_entries .
  have "stored (fst (snd (integrateWithKeap keap_detail_down example_config example_now second_order
         after_first_order))) ''a@example.com'' 325 = Some (thisOrderEntry example_now second_order)"
    using after_detail_down_fields by (simp add: stored_def find_field_patch_history)
  then have b: "stored (fst (snd (integrateWithKeap keap_detail_down example_config example_now
         second_order after_first_order))) ''a@example.com'' 325
      = Some ''Jan 5, 2026: 1x Cards + Book ($35.50)''"
    unfolding example_entries .
  let ?ods = "[(december, first_order), (december, first_order)]"
  have p: "\<forall>x \<in> set ?ods. email (snd x) = ''a@example.com'' \<and> is_cents (amountPaid (snd x))"
    by (simp add: example_amounts example_cents)
  have n: "by_email empty_crm ''a@example.com'' = None" by (simp add: empty_crm_def)
  from keap_syncs_from_new[OF tok p n, of "[]"]
  have "stored (fst (webhook_syncs keap example_config ?ods (empty_crm, []))) ''a@example.com'' 325
      = Some (thisOrderEntry december first_order @ history_separator
              @ thisOrderEntry december first_order)"
    by simp
  then have c: "stored (fst (webhook_syncs keap example_config ?ods (empty_crm, [])))
      ''a@example.com'' 325
      = Some (''Dec 1, 2025: 1x Destiny Cards ($20.00)'' @ history_separator
             @ ''Dec 1, 2025: 1x Destiny Cards ($20.00)'')"
    unfolding example_entries .
  have d: "paymentId first_order = Some ''pi_1''" "paymentId second_order = Some ''pi_2''"
    by (simp_all add: first_order_def second_order_def)
  from a b c d show ?thesis by blast
qed

text \<open>
  C2, as amended.  The order-history field (325) a sync writes, for amounts of whole cents.
  A webhook sync that finds a contact for the order's email and whose read of the
  contact's details is answered ok writes this order's entry, then the separator, then the
  contact's existing history (this entry alone when there is none); when that read is not
  answered ok it writes this entry alone.  For a new contact the webhook sync and the
  backfill sync write the order's entry alone.  So on a CRM that stores what it is sent, the
  webhook syncs of \<open>R1\<close> then \<open>R2\<close> for one customer, new at the start, leave two entries
  joined by the separator with the entry of \<open>R2\<close> first, and in general one entry for each
  sync made, the newest first.
\<close>

theorem order_history_written:
  "(truthy (KEAP_ACCESS_TOKEN cfg) \<and> crm (ContactSearch (email d) []) w = (r, w1) \<and> ok r
      \<and> body_contacts r = Some (c # cs) \<and> crm (ContactDetail (contact_id c)) w1 = (dr, w2)
      \<and> ok dr \<and> is_amount (amountPaid d) \<longrightarrow>
      written 325 (snd (integrateWithKeap crm cfg now d (w, tr)))
        = written 325 (w, tr)
          @ [Some (if existing_history (detail_fields dr) = [] then thisOrderEntry now d
                   else thisOrderEntry now d @ history_separator
                        @ existing_history (detail_fields dr))])
   \<and> (truthy (KEAP_ACCESS_TOKEN cfg) \<and> crm (ContactSearch (email d) []) w = (r, w1) \<and> ok r
      \<and> body_contacts r = Some (c # cs) \<and> crm (ContactDetail (contact_id c)) w1 = (dr, w2)
      \<and> \<not> ok dr \<and> is_amount (amountPaid d) \<longrightarrow>
      written 325 (snd (integrateWithKeap crm cfg now d (w, tr)))
        = written 325 (w, tr) @ [Some (thisOrderEntry now d)])
   \<and> (truthy (KEAP_ACCESS_TOKEN cfg) \<and> crm (ContactSearch (email d) []) w = (r, w1) \<and> ok r
      \<and> (body_contacts r = None \<or> body_contacts r = Some []) \<and> is_amount (amountPaid d) \<longrightarrow>
      written 325 (snd (integrateWithKeap crm cfg now d (w, tr)))
        = written 325 (w, tr) @ [Some (thisOrderEntry now d)])
   \<and> (crm (ContactSearch (email b) ''custom_fields'') w = (r, w1) \<and> ok r
      \<and> (body_contacts r = None \<or> body_contacts r = Some []) \<and> is_amount (amountPaid b)
      \<and> syncToKeap crm now b consent (w, tr) = Some (res, s2) \<longrightarrow>
      written 325 s2 = written 325 (w, tr) @ [Some (orderHistoryEntry b)])
   \<and> (never_429 crm \<longrightarrow> syncToKeap crm now b consent (w, tr) \<noteq> None)
   \<and> (truthy (KEAP_ACCESS_TOKEN cfg) \<and> email R1 = email R2
      \<and> is_amount (amountPaid R1) \<and> is_amount (amountPaid R2)
      \<and> by_email st (email R1) = None \<longrightarrow>
      stored (fst (webhook_syncs keap cfg [(t1, R1), (t2, R2)] (st, tr'))) (email R1) 325
        = Some (thisOrderEntry t2 R2 @ history_separator @ thisOrderEntry t1 R1))
   \<and> (truthy (KEAP_ACCESS_TOKEN cfg)
      \<and> (\<forall>x \<in> set ods. email (snd x) = mail \<and> is_amount (amountPaid (snd x)))
      \<and> by_email st mail = None \<and> ods \<noteq> [] \<longrightarrow>
      stored (fst (webhook_syncs keap cfg ods (st, tr'))) mail 325
        = Some (join history_separator (map (\<lambda>x. thisOrderEntry (fst x) (snd x)) (rev ods))))"
proof (intro conjI impI)
  assume a: "truthy (KEAP_ACCESS_TOKEN cfg) \<and> crm (ContactSearch (email d) []) w = (r, w1) \<and> ok r
      \<and> body_contacts r = Some (c # cs) \<and> crm (ContactDetail (contact_id c)) w1 = (dr, w2)
      \<and> ok dr \<and> is_amount (amountPaid d)"
  then have tok: "truthy (KEAP_ACCESS_TOKEN cfg)"
    and f1: "crm (ContactSearch (email d) []) w = (r, w1)" and okr: "ok r"
    and c: "body_contacts r = Some (c # cs)"
    and f2: "crm (ContactDetail (contact_id c)) w1 = (dr, w2)" and okd: "ok dr" by auto
  from written_existing[where crm = crm, OF tok f1 okr c f2, of 325 now tr] okd
  show "written 325 (snd (integrateWithKeap crm cfg now d (w, tr)))
        = written 325 (w, tr)
          @ [Some (if existing_history (detail_fields dr) = [] then thisOrderEntry now d
                   else thisOrderEntry now d @ history_separator
                        @ existing_history (detail_fields dr))]"
    by (simp add: payload_field_webhook merged_history_eq)
next
  assume a: "truthy (KEAP_ACCESS_TOKEN cfg) \<and> crm (ContactSearch (email d) []) w = (r, w1) \<and> ok r
      \<and> body_contacts r = Some (c # cs) \<and> crm (ContactDetail (contact_id c)) w1 = (dr, w2)
      \<and> \<not> ok dr \<and> is_amount (amountPaid d)"
  then have tok: "truthy (KEAP_ACCESS_TOKEN cfg)"
    and f1: "crm (ContactSearch (email d) []) w = (r, w1)" and okr: "ok r"
    and c: "body_contacts r = Some (c # cs)"
    and f2: "crm (ContactDetail (contact_id c)) w1 = (dr, w2)" and okd: "\<not> ok dr" by auto
  from written_existing[where crm = crm, OF tok f1 okr c f2, of 325 now tr] okd
  show "written 325 (snd (integrateWithKeap crm cfg now d (w, tr)))
        = written 325 (w, tr) @ [Some (thisOrderEntry now d)]"
    by (simp add: payload_field_webhook merged_None)
next
  assume a: "truthy (KEAP_ACCESS_TOKEN cfg) \<and> crm (ContactSearch (email d) []) w = (r, w1) \<and> ok r
      \<and> (body_contacts r = None \<or> body_contacts r = Some []) \<and> is_amount (amountPaid d)"
  then have tok: "truthy (KEAP_ACCESS_TOKEN cfg)"
    and f1: "crm (ContactSearch (email d) []) w = (r, w1)" and okr: "ok r"
    and n: "body_contacts r = None \<or> body_contacts r = Some []" by auto
  from written_new[where crm = crm, OF tok f1 okr n, of 325 now tr]
  show "written 325 (snd (integrateWithKeap crm cfg now d (w, tr)))
        = written 325 (w, tr) @ [Some (thisOrderEntry now d)]"
    by (simp add: payload_field_webhook)
next
  assume a: "crm (ContactSearch (email b) ''custom_fields'') w = (r, w1) \<and> ok r
      \<and> (body_contacts r = None \<or> body_contacts r = Some []) \<and> is_amount (amountPaid b)
      \<and> syncToKeap crm now b consent (w, tr) = Some (res, s2)"
  then have "syncToKeap crm now b consent (w, tr) = Some (res, s2)" by simp
  from syncToKeap_trace[OF this]
  show "written 325 s2 = written 325 (w, tr) @ [Some (orderHistoryEntry b)]"
    by (simp add: written_def payload_field_backfill)
next
  assume "never_429 crm"
  from syncToKeap_terminates[OF this, of now b consent "(w, tr)"]
  show "syncToKeap crm now b consent (w, tr) \<noteq> None" by auto
next
  assume a: "truthy (KEAP_ACCESS_TOKEN cfg) \<and> email R1 = email R2
      \<and> is_amount (amountPaid R1) \<and> is_amount (amountPaid R2)
      \<and> by_email st (email R1) = None"
  then have tok: "truthy (KEAP_ACCESS_TOKEN cfg)"
    and ods: "\<forall>x \<in> set [(t1, R1), (t2, R2)]. email (snd x) = email R1 \<and> is_cents (amountPaid (snd x))"
    and new: "by_email st (email R1) = None" by (auto simp: is_amount_def)
  from keap_syncs_from_new[OF tok ods new, of tr']
  show "stored (fst (webhook_syncs keap cfg [(t1, R1), (t2, R2)] (st, tr'))) (email R1) 325
        = Some (thisOrderEntry t2 R2 @ history_separator @ thisOrderEntry t1 R1)"
    by simp
next
  assume a: "truthy (KEAP_ACCESS_TOKEN cfg)
      \<and> (\<forall>x \<in> set ods. email (snd x) = mail \<and> is_amount (amountPaid (snd x)))
      \<and> by_email st mail = None \<and> ods \<noteq> []"
  then have tok: "truthy (KEAP_ACCESS_TOKEN cfg)"
    and ods: "\<forall>x \<in> set ods. email (snd x) = mail \<and> is_cents (amountPaid (snd x))"
    and new: "by_email st mail = None" and ne: "ods \<noteq> []" by (auto simp: is_amount_def)
  from keap_syncs_from_new[OF tok ods new ne, of tr']
  show "stored (fst (webhook_syncs keap cfg ods (st, tr'))) mail 325
        = Some (join history_separator (map (\<lambda>x. thisOrderEntry (fst x) (snd x)) (rev ods)))"
    by simp
qed

theorem order_history_written_witness:
  "written 325 (snd (integrateWithKeap scripted example_config example_now second_order
      (repeat_script, [])))
     = [Some (''Jan 5, 2026: 1x Cards + Book ($35.50)'' @ history_separator
              @ ''Dec 1, 2025: 1x Destiny Cards ($20.00)'')]
   \<and> written 325 (snd (integrateWithKeap scripted example_config example_now second_order
      (detail_down_script, []))) = [Some ''Jan 5, 2026: 1x Cards + Book ($35.50)'']
   \<and> written 325 (snd (integrateWithKeap scripted example_config december first_order
      (new_script, []))) = [Some ''Dec 1, 2025: 1x Destiny Cards ($20.00)'']
   \<and> (\<exists>res s2. syncToKeap keap example_now (build_orderData example_session) True (empty_crm, [])
          = Some (res, s2) \<and> written 325 s2 = [Some ''Jan 5, 2026: 1x Cards + Book ($35.50)''])
   \<and> stored (fst (webhook_syncs keap example_config
        [(december, first_order), (example_now, second_order)] (empty_crm, [])))
        ''a@example.com'' 325
     = Some (''Jan 5, 2026: 1x Cards + Book ($35.50)'' @ history_separator
             @ ''Dec 1, 2025: 1x Destiny Cards ($20.00)'')
   \<and> stored (fst (webhook_syncs keap example_config
        [(december, first_order), (example_now, second_order), (example_now, second_order)]
        (empty_crm, []))) ''a@example.com'' 325
     = Some (join history_separator
          [''Jan 5, 2026: 1x Cards + Book ($35.50)'', ''Jan 5, 2026: 1x Cards + Book ($35.50)'',
           ''Dec 1, 2025: 1x Destiny Cards ($20.00)''])"
proof -
  let ?found = "(reply 200)\<lparr>body_contacts := Some [example_contact]\<rparr>"
  let ?dr = "(reply 200)\<lparr>body_custom_fields := contact_custom_fields example_contact\<rparr>"
  let ?none = "(reply 200)\<lparr>body_contacts := Some []\<rparr>"
  have tok: "truthy (KEAP_ACCESS_TOKEN example_config)" by (simp add: truthy_def example_config_def)
  have sc: "scripted req (x # xs) = (x, xs)" for req x xs by (simp add: scripted_def)
  have oks: "ok ?found" "ok ?dr" "ok ?none" "\<not> ok (reply 500)" by (simp_all add: ok_def reply_def)
  have rs: "repeat_script = ?found # ?dr # tl (tl repeat_script)" by (simp add: repeat_script_def)
  have ds: "detail_down_script = [?found, reply 500, reply 200]" by (simp add: detail_down_script_def)
  have ns: "new_script = [?none, (reply 201)\<lparr>body_id := 8\<rparr>]" by (simp add: new_script_def)
  have bc: "body_contacts ?found = Some (example_contact # [])"
    "body_contacts ?none = None \<or> body_contacts ?none = Some []" by simp_all
  have e: "is_amount (amountPaid first_order)" "is_amount (amountPaid second_order)"
    by (simp_all add: example_amounts example_amount_ok)
  have hne: "existing_history (detail_fields ?dr) \<noteq> []"
    unfolding example_contact_history by simp
  have a: "written 325 (snd (integrateWithKeap scripted example_config example_now second_order
      (repeat_script, [])))
     = [Some (''Jan 5, 2026: 1x Cards + Book ($35.50)'' @ history_separator
              @ ''Dec 1, 2025: 1x Destiny Cards ($20.00)'')]"
  proof -
    have p: "scripted (ContactSearch (email second_order) []) repeat_script
               = (?found, ?dr # tl (tl repeat_script))"
      "scripted (ContactDetail (contact_id example_contact)) (?dr # tl (tl repeat_script))
               = (?dr, tl (tl repeat_script))"
      by (subst rs, rule sc) (rule sc)
    from order_history_written[where crm = scripted and cfg = example_config and d = second_order
        and w = repeat_script and r = ?found and ?w1.0 = "?dr # tl (tl repeat_script)"
        and c = example_contact and cs = "[]" and dr = ?dr and ?w2.0 = "tl (tl repeat_script)"
        and now = example_now and tr = "[]", THEN conjunct1] tok p oks(1,2) bc(1) e(2)
    have "written 325 (snd (integrateWithKeap scripted example_config example_now second_order
            (repeat_script, [])))
        = written 325 (repeat_script, [])
          @ [Some (if existing_history (detail_fields ?dr) = []
                   then thisOrderEntry example_now second_order
                   else thisOrderEntry example_now second_order @ history_separator
                        @ existing_history (detail_fields ?dr))]"
      by blast
    with hne have "written 325 (snd (integrateWithKeap scripted example_config example_now
            second_order (repeat_script, [])))
        = [Some (thisOrderEntry example_now second_order @ history_separator
                 @ existing_history (detail_fields ?dr))]"
      by (simp add: written_nil)
    then show ?thesis unfolding example_entries example_contact_history .
  qed
  have b: "written 325 (snd (integrateWithKeap scripted example_config example_now second_order
      (detail_down_script, []))) = [Some ''Jan 5, 2026: 1x Cards + Book ($35.50)'']"
  proof -
    have p: "scripted (ContactSearch (email second_order) []) detail_down_script
               = (?found, [reply 500, reply 200])"
      "scripted (ContactDetail (contact_id example_contact)) [reply 500, reply 200]
               = (reply 500, [reply 200])"
      by (subst ds, rule sc) (rule sc)
    from order_history_written[where crm = scripted and cfg = example_config and d = second_order
        and w = detail_down_script and r = ?found and ?w1.0 = "[reply 500, reply 200]"
        and c = example_contact and cs = "[]" and dr = "reply 500" and ?w2.0 = "[reply 200]"
        and now = example_now and tr = "[]", THEN conjunct2, THEN conjunct1]
      tok p oks(1,4) bc(1) e(2)
    have "written 325 (snd (integrateWithKeap scripted example_config example_now second_order
            (detail_down_script, [])))
        = written 325 (detail_down_script, []) @ [Some (thisOrderEntry example_now second_order)]"
      by blast
    then show ?thesis unfolding example_entries written_nil by simp
  qed
  have c: "written 325 (snd (integrateWithKeap scripted example_config december first_order
      (new_script, []))) = [Some ''Dec 1, 2025: 1x Destiny Cards ($20.00)'']"
  proof -
    have p: "scripted (ContactSearch (email first_order) []) new_script
               = (?none, [(reply 201)\<lparr>body_id := 8\<rparr>])"
      by (subst ns, rule sc)
    from order_history_written[where crm = scripted and cfg = example_config and d = first_order
        and w = new_script and r = ?none and ?w1.0 = "[(reply 201)\<lparr>body_id := 8\<rparr>]"
        and now = december and tr = "[]", THEN conjunct2, THEN conjunct2, THEN conjunct1]
      tok p oks(3) bc(2) e(1)
    have "written 325 (snd (integrateWithKeap scripted example_config december first_order
            (new_script, [])))
        = written 325 (new_script, []) @ [Some (thisOrderEntry december first_order)]"
      by blast
    then show ?thesis unfolding example_entries written_nil by simp
  qed
  have d: "\<exists>res s2. syncToKeap keap example_now (build_orderData example_session) True (empty_crm, [])
          = Some (res, s2) \<and> written 325 s2 = [Some ''Jan 5, 2026: 1x Cards + Book ($35.50)'']"
  proof -
    note t = order_history_written[where crm = keap and b = "build_orderData example_session"
        and consent = True and now = example_now and w = empty_crm and tr = "[]" and r = ?none
        and ?w1.0 = empty_crm]
    from t[THEN conjunct2, THEN conjunct2, THEN conjunct2, THEN conjunct2, THEN conjunct1]
      never_429_keap
    obtain res s2 where r: "syncToKeap keap example_now (build_orderData example_session) True
        (empty_crm, []) = Some (res, s2)" by fastforce
    have p: "keap (ContactSearch (email (build_orderData example_session)) ''custom_fields'')
        empty_crm = (?none, empty_crm)"
      by (simp add: empty_crm_def)
    have am: "is_amount (amountPaid (build_orderData example_session))"
      by (simp add: backfill_amount example_amount_ok)
    from t[where res = res and ?s2.0 = s2, THEN conjunct2, THEN conjunct2, THEN conjunct2,
        THEN conjunct1] p oks(3) bc(2) am r
    have "written 325 s2 = written 325 (empty_crm, [])
        @ [Some (orderHistoryEntry (build_orderData example_session))]"
      by blast
    then have "written 325 s2 = [Some ''Jan 5, 2026: 1x Cards + Book ($35.50)'']"
      unfolding example_entries written_nil by simp
    with r show ?thesis by blast
  qed
  have n: "by_email empty_crm (email first_order) = None" by (simp add: empty_crm_def)
  have f: "stored (fst (webhook_syncs keap example_config
        [(december, first_order), (example_now, second_order)] (empty_crm, [])))
        ''a@example.com'' 325
     = Some (''Jan 5, 2026: 1x Cards + Book ($35.50)'' @ history_separator
             @ ''Dec 1, 2025: 1x Destiny Cards ($20.00)'')"
  proof -
    have em: "email first_order = email second_order" by (simp add: example_amounts)
    from order_history_written[where cfg = example_config and ?R1.0 = first_order
        and ?R2.0 = second_order and ?t1.0 = december and ?t2.0 = example_now
        and st = empty_crm and tr' = "[]", THEN conjunct2, THEN conjunct2, THEN conjunct2,
        THEN conjunct2, THEN conjunct2, THEN conjunct1] tok em e n
    have "stored (fst (webhook_syncs keap example_config
        [(december, first_order), (example_now, second_order)] (empty_crm, [])))
        (email first_order) 325
      = Some (thisOrderEntry example_now second_order @ history_separator
              @ thisOrderEntry december first_order)"
      by blast
    then show ?thesis unfolding example_entries example_amounts .
  qed
  have g: "stored (fst (webhook_syncs keap example_config
        [(december, first_order), (example_now, second_order), (example_now, second_order)]
        (empty_crm, []))) ''a@example.com'' 325
     = Some (join history_separator
          [''Jan 5, 2026: 1x Cards + Book ($35.50)'', ''Jan 5, 2026: 1x Cards + Book ($35.50)'',
           ''Dec 1, 2025: 1x Destiny Cards ($20.00)''])"
  proof -
    let ?ods = "[(december, first_order), (example_now, second_order), (example_now, second_order)]"
    have p: "\<forall>x \<in> set ?ods. email (snd x) = ''a@example.com'' \<and> is_amount (amountPaid (snd x))"
      by (simp add: example_amounts example_amount_ok)
    have n': "by_email empty_crm ''a@example.com'' = None" by (simp add: empty_crm_def)
    have ne: "?ods \<noteq> []" by simp
    from order_history_written[where cfg = example_config and ods = ?ods and mail = "''a@example.com''"
        and st = empty_crm and tr' = "[]", THEN conjunct2, THEN conjunct2, THEN conjunct2,
        THEN conjunct2, THEN conjunct2, THEN conjunct2] tok p n' ne
    have "stored (fst (webhook_syncs keap example_config ?ods (empty_crm, []))) ''a@example.com'' 325
        = Some (join history_separator (map (\<lambda>x. thisOrderEntry (fst x) (snd x)) (rev ?ods)))"
      by blast
    then show ?thesis by (simp add: example_entries)
  qed
  from a b c d f g show ?thesis by blast
qed

end
